theory Spec2Isabelle
  imports Complex_Main "HOL-Library.Word"
begin

unbundle bit_operations_syntax

section \<open>Machine types\<close>

text \<open>
  The driver works on \<open>uint8_t\<close> register bytes, \<open>int16_t\<close> samples and \<open>int32_t\<close>
  status codes. They are words of the same width; \<open>sint\<close> reads a sample as two's
  complement. A status code is only ever compared with \<open>0\<close> and passed on.
\<close>

type_synonym uint8_t = "8 word"
type_synonym int16_t = "16 word"
type_synonym int32_t = "32 word"

section \<open>Declarations of \<open>lis3de_reg.h\<close>\<close>

text \<open>
  Modelled from the spec: the header \<open>lis3de_reg.h\<close> (register address macros, the
  bit-field structures overlaid on a register byte, the enumerations and the
  \<open>PROPERTY_ENABLE\<close>/\<open>PROPERTY_DISABLE\<close> macros) is not among the sources. The spec
  (sections 3 and 6) fixes the register map and every bit layout as the ones of the
  device datasheet; the declarations below follow it. A register is identified by the
  name of its address macro, so that no numeric address is assumed, only that different
  macros name different registers.
\<close>

datatype lis3de_reg =
    LIS3DE_STATUS_REG_AUX | LIS3DE_OUT_ADC1_L | LIS3DE_OUT_ADC1_H | LIS3DE_WHO_AM_I
  | LIS3DE_TEMP_CFG_REG | LIS3DE_CTRL_REG1 | LIS3DE_CTRL_REG2 | LIS3DE_CTRL_REG3
  | LIS3DE_CTRL_REG4 | LIS3DE_CTRL_REG5 | LIS3DE_CTRL_REG6 | LIS3DE_REFERENCE
  | LIS3DE_STATUS_REG | LIS3DE_OUT_X | LIS3DE_OUT_Y | LIS3DE_OUT_Z
  | LIS3DE_FIFO_CTRL_REG | LIS3DE_FIFO_SRC_REG
  | LIS3DE_IG1_CFG | LIS3DE_IG1_SOURCE | LIS3DE_IG1_THS | LIS3DE_IG1_DURATION
  | LIS3DE_IG2_CFG | LIS3DE_IG2_SOURCE | LIS3DE_IG2_THS | LIS3DE_IG2_DURATION
  | LIS3DE_CLICK_CFG | LIS3DE_CLICK_SRC | LIS3DE_CLICK_THS
  | LIS3DE_TIME_LIMIT | LIS3DE_TIME_LATENCY | LIS3DE_TIME_WINDOW
  | LIS3DE_ACT_THS | LIS3DE_ACT_DUR

definition PROPERTY_DISABLE :: uint8_t where
  "PROPERTY_DISABLE = 0"

definition PROPERTY_ENABLE :: uint8_t where
  "PROPERTY_ENABLE = 1"

subsection \<open>Bit-fields\<close>

text \<open>
  A register structure such as \<open>lis3de_ctrl_reg1_t\<close> is one byte that the source fills
  through a \<open>uint8_t *\<close> cast; a variable of that type is modelled by the byte itself.
  A member \<open>uint8_t odr : 4\<close> is a bit-field, given by the position of its lowest bit
  and its width. Reading the member extracts the bits; assigning to it stores the
  value reduced modulo \<open>2 ^ width\<close> (the conversion of C to an unsigned bit-field) and
  keeps the other bits of the byte.
\<close>

datatype bitfield = Bitfield (bf_pos: nat) (bf_len: nat)

definition field_mask :: "bitfield \<Rightarrow> uint8_t" where
  "field_mask f = push_bit (bf_pos f) (mask (bf_len f))"

definition field_get :: "bitfield \<Rightarrow> uint8_t \<Rightarrow> uint8_t" where
  "field_get f b = take_bit (bf_len f) (drop_bit (bf_pos f) b)"

definition field_set :: "bitfield \<Rightarrow> uint8_t \<Rightarrow> uint8_t \<Rightarrow> uint8_t" where
  "field_set f b v = (b AND NOT (field_mask f)) OR push_bit (bf_pos f) (take_bit (bf_len f) v)"

text \<open>A bit-field lies inside its byte and is not empty.\<close>

definition field_ok :: "bitfield \<Rightarrow> bool" where
  "field_ok f \<longleftrightarrow> 0 < bf_len f \<and> bf_pos f + bf_len f \<le> 8"

text \<open>\<open>lis3de_status_reg_aux_t\<close>\<close>

definition status_reg_aux_3da :: bitfield where
  "status_reg_aux_3da = Bitfield 2 1"

definition status_reg_aux_3or :: bitfield where
  "status_reg_aux_3or = Bitfield 6 1"

text \<open>\<open>lis3de_temp_cfg_reg_t\<close>\<close>

definition temp_cfg_reg_temp_en :: bitfield where
  "temp_cfg_reg_temp_en = Bitfield 6 1"

definition temp_cfg_reg_adc_pd :: bitfield where
  "temp_cfg_reg_adc_pd = Bitfield 7 1"

text \<open>\<open>lis3de_ctrl_reg1_t\<close>\<close>

definition ctrl_reg1_lpen :: bitfield where
  "ctrl_reg1_lpen = Bitfield 3 1"

definition ctrl_reg1_odr :: bitfield where
  "ctrl_reg1_odr = Bitfield 4 4"

text \<open>\<open>lis3de_ctrl_reg2_t\<close>\<close>

definition ctrl_reg2_hp :: bitfield where
  "ctrl_reg2_hp = Bitfield 0 3"

definition ctrl_reg2_fds :: bitfield where
  "ctrl_reg2_fds = Bitfield 3 1"

definition ctrl_reg2_hpcf :: bitfield where
  "ctrl_reg2_hpcf = Bitfield 4 2"

definition ctrl_reg2_hpm :: bitfield where
  "ctrl_reg2_hpm = Bitfield 6 2"

text \<open>\<open>lis3de_ctrl_reg4_t\<close>\<close>

definition ctrl_reg4_sim :: bitfield where
  "ctrl_reg4_sim = Bitfield 0 1"

definition ctrl_reg4_st :: bitfield where
  "ctrl_reg4_st = Bitfield 1 2"

definition ctrl_reg4_fs :: bitfield where
  "ctrl_reg4_fs = Bitfield 4 2"

definition ctrl_reg4_bdu :: bitfield where
  "ctrl_reg4_bdu = Bitfield 7 1"

text \<open>\<open>lis3de_ctrl_reg5_t\<close>\<close>

definition ctrl_reg5_d4d_ig2 :: bitfield where
  "ctrl_reg5_d4d_ig2 = Bitfield 0 1"

definition ctrl_reg5_lir_ig2 :: bitfield where
  "ctrl_reg5_lir_ig2 = Bitfield 1 1"

definition ctrl_reg5_d4d_ig1 :: bitfield where
  "ctrl_reg5_d4d_ig1 = Bitfield 2 1"

definition ctrl_reg5_lir_ig1 :: bitfield where
  "ctrl_reg5_lir_ig1 = Bitfield 3 1"

definition ctrl_reg5_fifo_en :: bitfield where
  "ctrl_reg5_fifo_en = Bitfield 6 1"

definition ctrl_reg5_boot :: bitfield where
  "ctrl_reg5_boot = Bitfield 7 1"

text \<open>\<open>lis3de_status_reg_t\<close>\<close>

definition status_reg_zyxda :: bitfield where
  "status_reg_zyxda = Bitfield 3 1"

definition status_reg_zyxor :: bitfield where
  "status_reg_zyxor = Bitfield 7 1"

text \<open>\<open>lis3de_fifo_ctrl_reg_t\<close> and \<open>lis3de_fifo_src_reg_t\<close>\<close>

definition fifo_ctrl_reg_fth :: bitfield where
  "fifo_ctrl_reg_fth = Bitfield 0 5"

definition fifo_ctrl_reg_tr :: bitfield where
  "fifo_ctrl_reg_tr = Bitfield 5 1"

definition fifo_ctrl_reg_fm :: bitfield where
  "fifo_ctrl_reg_fm = Bitfield 6 2"

definition fifo_src_reg_fss :: bitfield where
  "fifo_src_reg_fss = Bitfield 0 5"

definition fifo_src_reg_empty :: bitfield where
  "fifo_src_reg_empty = Bitfield 5 1"

definition fifo_src_reg_ovrn_fifo :: bitfield where
  "fifo_src_reg_ovrn_fifo = Bitfield 6 1"

definition fifo_src_reg_wtm :: bitfield where
  "fifo_src_reg_wtm = Bitfield 7 1"

text \<open>The interrupt generators: \<open>lis3de_ig1_ths_t\<close>, \<open>lis3de_ig1_duration_t\<close> and
  their twins of generator 2\<close>

definition ig1_ths_ths :: bitfield where
  "ig1_ths_ths = Bitfield 0 7"

definition ig1_duration_d :: bitfield where
  "ig1_duration_d = Bitfield 0 7"

definition ig2_ths_ths :: bitfield where
  "ig2_ths_ths = Bitfield 0 7"

definition ig2_duration_d :: bitfield where
  "ig2_duration_d = Bitfield 0 7"

text \<open>The tap generator: \<open>lis3de_click_ths_t\<close>, \<open>lis3de_time_limit_t\<close>,
  \<open>lis3de_time_latency_t\<close>, \<open>lis3de_time_window_t\<close>\<close>

definition click_ths_ths :: bitfield where
  "click_ths_ths = Bitfield 0 7"

definition click_ths_lir :: bitfield where
  "click_ths_lir = Bitfield 7 1"

definition time_limit_tli :: bitfield where
  "time_limit_tli = Bitfield 0 7"

definition time_latency_tla :: bitfield where
  "time_latency_tla = Bitfield 0 8"

definition time_window_tw :: bitfield where
  "time_window_tw = Bitfield 0 8"

text \<open>Activity: \<open>lis3de_act_ths_t\<close>, \<open>lis3de_act_dur_t\<close>\<close>

definition act_ths_acth :: bitfield where
  "act_ths_acth = Bitfield 0 7"

definition act_dur_actd :: bitfield where
  "act_dur_actd = Bitfield 0 8"

subsection \<open>Enumerations\<close>

text \<open>
  Each \<open>typedef enum\<close> is a datatype of its enumerators; the function \<open>\<dots>_code\<close>
  gives the enumerator's value, which is what the cast \<open>(uint8_t)val\<close> of a setter
  produces and what a \<open>case\<close> label of a getter compares with.
\<close>

datatype lis3de_temp_en_t =
  LIS3DE_AUX_DISABLE | LIS3DE_AUX_ON_TEMPERATURE | LIS3DE_AUX_ON_PADS

fun temp_en_code :: "lis3de_temp_en_t \<Rightarrow> uint8_t" where
  "temp_en_code LIS3DE_AUX_DISABLE = 0"
| "temp_en_code LIS3DE_AUX_ON_TEMPERATURE = 3"
| "temp_en_code LIS3DE_AUX_ON_PADS = 1"

datatype lis3de_op_md_t = LIS3DE_NM | LIS3DE_LP

fun op_md_code :: "lis3de_op_md_t \<Rightarrow> uint8_t" where
  "op_md_code LIS3DE_NM = 0"
| "op_md_code LIS3DE_LP = 1"

datatype lis3de_odr_t =
    LIS3DE_POWER_DOWN | LIS3DE_ODR_1Hz | LIS3DE_ODR_10Hz | LIS3DE_ODR_25Hz
  | LIS3DE_ODR_50Hz | LIS3DE_ODR_100Hz | LIS3DE_ODR_200Hz | LIS3DE_ODR_400Hz
  | LIS3DE_ODR_1kHz6 | LIS3DE_ODR_5kHz376_LP_1kHz344_NM

fun odr_code :: "lis3de_odr_t \<Rightarrow> uint8_t" where
  "odr_code LIS3DE_POWER_DOWN = 0x00"
| "odr_code LIS3DE_ODR_1Hz = 0x01"
| "odr_code LIS3DE_ODR_10Hz = 0x02"
| "odr_code LIS3DE_ODR_25Hz = 0x03"
| "odr_code LIS3DE_ODR_50Hz = 0x04"
| "odr_code LIS3DE_ODR_100Hz = 0x05"
| "odr_code LIS3DE_ODR_200Hz = 0x06"
| "odr_code LIS3DE_ODR_400Hz = 0x07"
| "odr_code LIS3DE_ODR_1kHz6 = 0x08"
| "odr_code LIS3DE_ODR_5kHz376_LP_1kHz344_NM = 0x09"

datatype lis3de_hpcf_t = LIS3DE_AGGRESSIVE | LIS3DE_STRONG | LIS3DE_MEDIUM | LIS3DE_LIGHT

fun hpcf_code :: "lis3de_hpcf_t \<Rightarrow> uint8_t" where
  "hpcf_code LIS3DE_AGGRESSIVE = 0"
| "hpcf_code LIS3DE_STRONG = 1"
| "hpcf_code LIS3DE_MEDIUM = 2"
| "hpcf_code LIS3DE_LIGHT = 3"

datatype lis3de_hpm_t =
  LIS3DE_NORMAL_WITH_RST | LIS3DE_REFERENCE_MODE | LIS3DE_NORMAL | LIS3DE_AUTORST_ON_INT

fun hpm_code :: "lis3de_hpm_t \<Rightarrow> uint8_t" where
  "hpm_code LIS3DE_NORMAL_WITH_RST = 0"
| "hpm_code LIS3DE_REFERENCE_MODE = 1"
| "hpm_code LIS3DE_NORMAL = 2"
| "hpm_code LIS3DE_AUTORST_ON_INT = 3"

datatype lis3de_fs_t = LIS3DE_2g | LIS3DE_4g | LIS3DE_8g | LIS3DE_16g

fun fs_code :: "lis3de_fs_t \<Rightarrow> uint8_t" where
  "fs_code LIS3DE_2g = 0"
| "fs_code LIS3DE_4g = 1"
| "fs_code LIS3DE_8g = 2"
| "fs_code LIS3DE_16g = 3"

datatype lis3de_st_t = LIS3DE_ST_DISABLE | LIS3DE_ST_POSITIVE | LIS3DE_ST_NEGATIVE

fun st_code :: "lis3de_st_t \<Rightarrow> uint8_t" where
  "st_code LIS3DE_ST_DISABLE = 0"
| "st_code LIS3DE_ST_POSITIVE = 1"
| "st_code LIS3DE_ST_NEGATIVE = 2"

datatype lis3de_hp_t =
    LIS3DE_DISC_FROM_INT_GENERATOR | LIS3DE_ON_INT1_GEN | LIS3DE_ON_INT2_GEN
  | LIS3DE_ON_TAP_GEN | LIS3DE_ON_INT1_INT2_GEN | LIS3DE_ON_INT1_TAP_GEN
  | LIS3DE_ON_INT2_TAP_GEN | LIS3DE_ON_INT1_INT2_TAP_GEN

fun hp_code :: "lis3de_hp_t \<Rightarrow> uint8_t" where
  "hp_code LIS3DE_DISC_FROM_INT_GENERATOR = 0"
| "hp_code LIS3DE_ON_INT1_GEN = 1"
| "hp_code LIS3DE_ON_INT2_GEN = 2"
| "hp_code LIS3DE_ON_TAP_GEN = 4"
| "hp_code LIS3DE_ON_INT1_INT2_GEN = 3"
| "hp_code LIS3DE_ON_INT1_TAP_GEN = 5"
| "hp_code LIS3DE_ON_INT2_TAP_GEN = 6"
| "hp_code LIS3DE_ON_INT1_INT2_TAP_GEN = 7"

datatype lis3de_lir_int2_t = LIS3DE_INT2_PULSED | LIS3DE_INT2_LATCHED

fun lir_int2_code :: "lis3de_lir_int2_t \<Rightarrow> uint8_t" where
  "lir_int2_code LIS3DE_INT2_PULSED = 0"
| "lir_int2_code LIS3DE_INT2_LATCHED = 1"

datatype lis3de_lir_int1_t = LIS3DE_INT1_PULSED | LIS3DE_INT1_LATCHED

fun lir_int1_code :: "lis3de_lir_int1_t \<Rightarrow> uint8_t" where
  "lir_int1_code LIS3DE_INT1_PULSED = 0"
| "lir_int1_code LIS3DE_INT1_LATCHED = 1"

datatype lis3de_tr_t = LIS3DE_INT1_GEN | LIS3DE_INT2_GEN

fun tr_code :: "lis3de_tr_t \<Rightarrow> uint8_t" where
  "tr_code LIS3DE_INT1_GEN = 0"
| "tr_code LIS3DE_INT2_GEN = 1"

datatype lis3de_fm_t =
  LIS3DE_BYPASS_MODE | LIS3DE_FIFO_MODE | LIS3DE_DYNAMIC_STREAM_MODE | LIS3DE_STREAM_TO_FIFO_MODE

fun fm_code :: "lis3de_fm_t \<Rightarrow> uint8_t" where
  "fm_code LIS3DE_BYPASS_MODE = 0"
| "fm_code LIS3DE_FIFO_MODE = 1"
| "fm_code LIS3DE_DYNAMIC_STREAM_MODE = 2"
| "fm_code LIS3DE_STREAM_TO_FIFO_MODE = 3"

datatype lis3de_lir_t = LIS3DE_TAP_PULSED | LIS3DE_TAP_LATCHED

fun lir_code :: "lis3de_lir_t \<Rightarrow> uint8_t" where
  "lir_code LIS3DE_TAP_PULSED = 0"
| "lir_code LIS3DE_TAP_LATCHED = 1"

datatype lis3de_sim_t = LIS3DE_SPI_4_WIRE | LIS3DE_SPI_3_WIRE

fun sim_code :: "lis3de_sim_t \<Rightarrow> uint8_t" where
  "sim_code LIS3DE_SPI_4_WIRE = 0"
| "sim_code LIS3DE_SPI_3_WIRE = 1"

section \<open>The transport\<close>

text \<open>
  \<open>stmdev_ctx_t\<close> holds the two function pointers supplied by the platform and the
  handle they are called with. The handle stands for the bus and the device behind it:
  its state is of an arbitrary type \<open>'s\<close>, and both functions may change it and may
  return any status. \<open>read_reg\<close> stores into the caller's buffer: it is given the
  buffer's content before the call and returns the bytes it has put there.
\<close>

record 's stmdev_ctx_t =
  write_reg :: "'s \<Rightarrow> lis3de_reg \<Rightarrow> uint8_t list \<Rightarrow> nat \<Rightarrow> int32_t \<times> 's"
  read_reg :: "'s \<Rightarrow> lis3de_reg \<Rightarrow> uint8_t list \<Rightarrow> nat \<Rightarrow> int32_t \<times> uint8_t list \<times> 's"

text \<open>
  The calls made on the transport are recorded, in order, beside the device state: the
  register, the length of a read or the bytes of a write (the first \<open>len\<close> bytes of the
  buffer handed over), and the status that came back.
\<close>

datatype event =
    Read_reg lis3de_reg nat int32_t
  | Write_reg lis3de_reg "uint8_t list" int32_t

record 's world =
  dev :: 's
  trace :: "event list"

text \<open>
  A buffer keeps its size whatever the transport returns: the bytes returned replace
  the buffer from its start, bytes not returned stay as they were.
\<close>

definition store_buf :: "uint8_t list \<Rightarrow> uint8_t list \<Rightarrow> uint8_t list" where
  "store_buf data out = take (length data) (out @ drop (length out) data)"

definition lis3de_read_reg ::
  "'s stmdev_ctx_t \<Rightarrow> lis3de_reg \<Rightarrow> uint8_t list \<Rightarrow> nat \<Rightarrow> 's world
    \<Rightarrow> int32_t \<times> uint8_t list \<times> 's world" where
  "lis3de_read_reg ctx reg data len w =
     (case read_reg ctx (dev w) reg data len of
        (ret, out, h) \<Rightarrow>
          (ret, store_buf data out, \<lparr>dev = h, trace = trace w @ [Read_reg reg len ret]\<rparr>))"

definition lis3de_write_reg ::
  "'s stmdev_ctx_t \<Rightarrow> lis3de_reg \<Rightarrow> uint8_t list \<Rightarrow> nat \<Rightarrow> 's world \<Rightarrow> int32_t \<times> 's world" where
  "lis3de_write_reg ctx reg data len w =
     (case write_reg ctx (dev w) reg data len of
        (ret, h) \<Rightarrow> (ret, \<lparr>dev = h, trace = trace w @ [Write_reg reg (take len data) ret]\<rparr>))"

text \<open>
  Nearly every access is to one register through the address of a one-byte structure or
  variable: \<open>lis3de_read_reg(ctx, REG, (uint8_t *)&x, 1)\<close> and the same for writing.
  \<open>x\<close> is the content of the variable before the call.
\<close>

definition read_struct ::
  "'s stmdev_ctx_t \<Rightarrow> lis3de_reg \<Rightarrow> uint8_t \<Rightarrow> 's world \<Rightarrow> int32_t \<times> uint8_t \<times> 's world" where
  "read_struct ctx reg x w =
     (case lis3de_read_reg ctx reg [x] 1 w of (ret, data, w') \<Rightarrow> (ret, hd data, w'))"

definition write_struct ::
  "'s stmdev_ctx_t \<Rightarrow> lis3de_reg \<Rightarrow> uint8_t \<Rightarrow> 's world \<Rightarrow> int32_t \<times> 's world" where
  "write_struct ctx reg x w = lis3de_write_reg ctx reg [x] 1 w"

section \<open>Sensitivity: raw data to engineering units\<close>

text \<open>
  The five conversion functions compute in \<open>float_t\<close>, taken to be the IEEE 754
  binary32 \<open>float\<close> (as it is where \<open>FLT_EVAL_METHOD\<close> is 0, the case of the
  targets of this driver). A finite binary32 value is a rational number; a constant
  with suffix \<open>f\<close>, a conversion from an integer, a product and a sum each give the
  binary32 value nearest to the exact result, ties going to the even significand.
  \<open>binary32_round\<close> is that rounding: 24 bits of significand, the unit in the last
  place never below \<open>2^-149\<close>. Results of magnitude \<open>2^128\<close> and more, which C turns
  into infinities, are out of reach of a 16-bit operand and are not modelled.
\<close>

type_synonym float_t = rat

function bit_length :: "int \<Rightarrow> nat" where
  "bit_length n = (if n \<le> 0 then 0 else Suc (bit_length (n div 2)))"
  by pat_completeness auto
termination
  by (relation "measure nat") auto

definition pow2 :: "int \<Rightarrow> rat" where
  "pow2 e = (if 0 \<le> e then 2 ^ nat e else 1 / 2 ^ nat (- e))"

definition exponent :: "rat \<Rightarrow> int" where
  "exponent a =
     (if 1 \<le> a then int (bit_length \<lfloor>a\<rfloor>) - 1
      else - int (bit_length (\<lceil>1 / a\<rceil> - 1)))"

definition round_half_even :: "rat \<Rightarrow> int" where
  "round_half_even q =
     (let f = \<lfloor>q\<rfloor>; d = q - of_int f
      in if d < 1 / 2 then f else if 1 / 2 < d then f + 1
         else if even f then f else f + 1)"

definition binary32_round :: "rat \<Rightarrow> float_t" where
  "binary32_round x =
     (if x = 0 then 0
      else let e = max (exponent \<bar>x\<bar> - 23) (- 149)
           in of_int (round_half_even (x / pow2 e)) * pow2 e)"

text \<open>\<open>(float_t)lsb\<close>, \<open>a * b\<close> and \<open>a + b\<close> in \<open>float_t\<close>.\<close>

definition float_of_int16 :: "int16_t \<Rightarrow> float_t" where
  "float_of_int16 lsb = binary32_round (of_int (sint lsb))"

definition fmul :: "float_t \<Rightarrow> float_t \<Rightarrow> float_t" where
  "fmul a b = binary32_round (a * b)"

definition fadd :: "float_t \<Rightarrow> float_t \<Rightarrow> float_t" where
  "fadd a b = binary32_round (a + b)"

definition lis3de_from_fs2_to_mg :: "int16_t \<Rightarrow> float_t" where
  "lis3de_from_fs2_to_mg lsb = fmul (float_of_int16 lsb) (binary32_round 15.6)"

definition lis3de_from_fs4_to_mg :: "int16_t \<Rightarrow> float_t" where
  "lis3de_from_fs4_to_mg lsb = fmul (float_of_int16 lsb) (binary32_round 31.2)"

definition lis3de_from_fs8_to_mg :: "int16_t \<Rightarrow> float_t" where
  "lis3de_from_fs8_to_mg lsb = fmul (float_of_int16 lsb) (binary32_round 62.5)"

definition lis3de_from_fs16_to_mg :: "int16_t \<Rightarrow> float_t" where
  "lis3de_from_fs16_to_mg lsb = fmul (float_of_int16 lsb) (binary32_round 187.5)"

definition lis3de_from_lsb_to_celsius :: "int16_t \<Rightarrow> float_t" where
  "lis3de_from_lsb_to_celsius lsb =
     fadd (fmul (float_of_int16 lsb) (binary32_round 1.0)) (binary32_round 25.0)"

section \<open>The accessors\<close>

text \<open>
  The functions of \<open>lis3de_reg.c\<close>, in the order of the source. An accessor takes the
  context, its value argument, the content that each of its local variables has before
  the first read stores into it (the source does not initialise them), and the state of
  the world; it returns the status, the value written through its output pointer if it
  has one, and the new state. A setter given \<open>uint8_t val\<close> assigns it to the
  bit-field as it is; one given an enumeration assigns \<open>(uint8_t)val\<close>.
\<close>

subsection \<open>Data generation\<close>

definition lis3de_temp_status_reg_get ::
  "'s stmdev_ctx_t \<Rightarrow> uint8_t list \<Rightarrow> 's world \<Rightarrow> int32_t \<times> uint8_t list \<times> 's world" where
  "lis3de_temp_status_reg_get ctx buff w = lis3de_read_reg ctx LIS3DE_STATUS_REG_AUX buff 1 w"

definition lis3de_temp_data_ready_get ::
  "'s stmdev_ctx_t \<Rightarrow> uint8_t \<Rightarrow> 's world \<Rightarrow> int32_t \<times> uint8_t \<times> 's world" where
  "lis3de_temp_data_ready_get ctx status_reg_aux w =
     (case read_struct ctx LIS3DE_STATUS_REG_AUX status_reg_aux w of
        (ret, status_reg_aux, w) \<Rightarrow> (ret, field_get status_reg_aux_3da status_reg_aux, w))"

definition lis3de_temp_data_ovr_get ::
  "'s stmdev_ctx_t \<Rightarrow> uint8_t \<Rightarrow> 's world \<Rightarrow> int32_t \<times> uint8_t \<times> 's world" where
  "lis3de_temp_data_ovr_get ctx status_reg_aux w =
     (case read_struct ctx LIS3DE_STATUS_REG_AUX status_reg_aux w of
        (ret, status_reg_aux, w) \<Rightarrow> (ret, field_get status_reg_aux_3or status_reg_aux, w))"

definition lis3de_temperature_raw_get ::
  "'s stmdev_ctx_t \<Rightarrow> uint8_t list \<Rightarrow> 's world \<Rightarrow> int32_t \<times> uint8_t list \<times> 's world" where
  "lis3de_temperature_raw_get ctx buff w = lis3de_read_reg ctx LIS3DE_OUT_ADC1_H buff 1 w"

text \<open>
  \<open>lis3de_adc_raw_get\<close>: \<open>buff\<close> is the local array \<open>uint8_t buff[6]\<close>, not
  initialised by the source, so its content before the read is a parameter; \<open>val\<close>
  is the caller's array of three samples. \<open>(int16_t)buff[1]\<close> keeps the byte's value;
  the product and the sum are computed in \<open>int\<close> and stored back into an
  \<open>int16_t\<close>, which keeps the low 16 bits.
\<close>

definition lis3de_adc_raw_get ::
  "'s stmdev_ctx_t \<Rightarrow> int16_t list \<Rightarrow> (nat \<Rightarrow> uint8_t) \<Rightarrow> 's world
    \<Rightarrow> int32_t \<times> int16_t list \<times> 's world" where
  "lis3de_adc_raw_get ctx val buff w =
     (case lis3de_read_reg ctx LIS3DE_OUT_ADC1_L (map buff [0..<6]) 6 w of
        (ret, buff, w) \<Rightarrow>
          (let val = val[0 := ucast (buff ! 1)];
               val = val[0 := (val ! 0) * 256 + ucast (buff ! 0)];
               val = val[1 := ucast (buff ! 3)];
               val = val[1 := (val ! 1) * 256 + ucast (buff ! 2)];
               val = val[2 := ucast (buff ! 5)];
               val = val[2 := (val ! 2) * 256 + ucast (buff ! 4)]
           in (ret, val, w)))"

text \<open>
  \<open>lis3de_block_data_update_set\<close> comes later in the source; it stands here because
  \<open>lis3de_aux_adc_set\<close> calls it.
\<close>

definition lis3de_block_data_update_set ::
  "'s stmdev_ctx_t \<Rightarrow> uint8_t \<Rightarrow> uint8_t \<Rightarrow> 's world \<Rightarrow> int32_t \<times> 's world" where
  "lis3de_block_data_update_set ctx val ctrl_reg4 w =
     (case read_struct ctx LIS3DE_CTRL_REG4 ctrl_reg4 w of
        (ret, ctrl_reg4, w) \<Rightarrow>
          if ret = 0 then write_struct ctx LIS3DE_CTRL_REG4 (field_set ctrl_reg4_bdu ctrl_reg4 val) w
          else (ret, w))"

text \<open>
  \<open>lis3de_aux_adc_set\<close>: \<open>ctrl_reg4\<close> is the content of the local variable of the
  called \<open>lis3de_block_data_update_set\<close> before its read.
\<close>

definition lis3de_aux_adc_set ::
  "'s stmdev_ctx_t \<Rightarrow> lis3de_temp_en_t \<Rightarrow> uint8_t \<Rightarrow> uint8_t \<Rightarrow> 's world \<Rightarrow> int32_t \<times> 's world" where
  "lis3de_aux_adc_set ctx val temp_cfg_reg ctrl_reg4 w =
     (case read_struct ctx LIS3DE_TEMP_CFG_REG temp_cfg_reg w of
        (ret, temp_cfg_reg, w) \<Rightarrow>
          (case (if ret = 0 then
                   (if val \<noteq> LIS3DE_AUX_DISABLE
                    then lis3de_block_data_update_set ctx PROPERTY_ENABLE ctrl_reg4 w
                    else (ret, w))
                 else (ret, w)) of
             (ret, w) \<Rightarrow>
               if ret = 0 then
                 (let temp_cfg_reg = field_set temp_cfg_reg_temp_en temp_cfg_reg
                                       (drop_bit 1 (temp_en_code val AND 0x02));
                      temp_cfg_reg = field_set temp_cfg_reg_adc_pd temp_cfg_reg
                                       (temp_en_code val AND 0x01)
                  in write_struct ctx LIS3DE_TEMP_CFG_REG temp_cfg_reg w)
               else (ret, w)))"

text \<open>
  \<open>lis3de_aux_adc_get\<close>: \<open>val\<close> is what \<open>*val\<close> holds before the call. The first
  \<open>if\<close> has no \<open>else\<close>; the second one assigns in both branches.
\<close>

definition lis3de_aux_adc_get ::
  "'s stmdev_ctx_t \<Rightarrow> lis3de_temp_en_t \<Rightarrow> uint8_t \<Rightarrow> 's world
    \<Rightarrow> int32_t \<times> lis3de_temp_en_t \<times> 's world" where
  "lis3de_aux_adc_get ctx val temp_cfg_reg w =
     (case read_struct ctx LIS3DE_TEMP_CFG_REG temp_cfg_reg w of
        (ret, temp_cfg_reg, w) \<Rightarrow>
          (let val = (if (field_get temp_cfg_reg_temp_en temp_cfg_reg
                            AND field_get temp_cfg_reg_adc_pd temp_cfg_reg) = PROPERTY_ENABLE
                      then LIS3DE_AUX_ON_TEMPERATURE else val);
               val = (if field_get temp_cfg_reg_temp_en temp_cfg_reg = PROPERTY_DISABLE
                         \<and> field_get temp_cfg_reg_adc_pd temp_cfg_reg = PROPERTY_ENABLE
                      then LIS3DE_AUX_ON_PADS else LIS3DE_AUX_DISABLE)
           in (ret, val, w)))"

definition lis3de_operating_mode_set ::
  "'s stmdev_ctx_t \<Rightarrow> lis3de_op_md_t \<Rightarrow> uint8_t \<Rightarrow> 's world \<Rightarrow> int32_t \<times> 's world" where
  "lis3de_operating_mode_set ctx val ctrl_reg1 w =
     (case read_struct ctx LIS3DE_CTRL_REG1 ctrl_reg1 w of
        (ret, ctrl_reg1, w) \<Rightarrow>
          if ret = 0 then write_struct ctx LIS3DE_CTRL_REG1 (field_set ctrl_reg1_lpen ctrl_reg1 (op_md_code val)) w
          else (ret, w))"

text \<open>
  \<open>lis3de_operating_mode_get\<close> is the one getter that assigns \<open>*val\<close> only after a
  successful read; \<open>val\<close> is what \<open>*val\<close> holds before the call.
\<close>

definition lis3de_operating_mode_get ::
  "'s stmdev_ctx_t \<Rightarrow> lis3de_op_md_t \<Rightarrow> uint8_t \<Rightarrow> 's world
    \<Rightarrow> int32_t \<times> lis3de_op_md_t \<times> 's world" where
  "lis3de_operating_mode_get ctx val ctrl_reg1 w =
     (case read_struct ctx LIS3DE_CTRL_REG1 ctrl_reg1 w of
        (ret, ctrl_reg1, w) \<Rightarrow>
          (ret,
           if ret = 0 then
             (if field_get ctrl_reg1_lpen ctrl_reg1 = PROPERTY_ENABLE then LIS3DE_LP else LIS3DE_NM)
           else val,
           w))"

definition lis3de_data_rate_set ::
  "'s stmdev_ctx_t \<Rightarrow> lis3de_odr_t \<Rightarrow> uint8_t \<Rightarrow> 's world \<Rightarrow> int32_t \<times> 's world" where
  "lis3de_data_rate_set ctx val ctrl_reg1 w =
     (case read_struct ctx LIS3DE_CTRL_REG1 ctrl_reg1 w of
        (ret, ctrl_reg1, w) \<Rightarrow>
          if ret = 0 then write_struct ctx LIS3DE_CTRL_REG1 (field_set ctrl_reg1_odr ctrl_reg1 (odr_code val)) w
          else (ret, w))"

definition lis3de_data_rate_get ::
  "'s stmdev_ctx_t \<Rightarrow> uint8_t \<Rightarrow> 's world \<Rightarrow> int32_t \<times> lis3de_odr_t \<times> 's world" where
  "lis3de_data_rate_get ctx ctrl_reg1 w =
     (case read_struct ctx LIS3DE_CTRL_REG1 ctrl_reg1 w of
        (ret, ctrl_reg1, w) \<Rightarrow>
          (ret,
           if field_get ctrl_reg1_odr ctrl_reg1 = odr_code LIS3DE_POWER_DOWN then LIS3DE_POWER_DOWN
           else if field_get ctrl_reg1_odr ctrl_reg1 = odr_code LIS3DE_ODR_1Hz then LIS3DE_ODR_1Hz
           else if field_get ctrl_reg1_odr ctrl_reg1 = odr_code LIS3DE_ODR_10Hz then LIS3DE_ODR_10Hz
           else if field_get ctrl_reg1_odr ctrl_reg1 = odr_code LIS3DE_ODR_25Hz then LIS3DE_ODR_25Hz
           else if field_get ctrl_reg1_odr ctrl_reg1 = odr_code LIS3DE_ODR_50Hz then LIS3DE_ODR_50Hz
           else if field_get ctrl_reg1_odr ctrl_reg1 = odr_code LIS3DE_ODR_100Hz then LIS3DE_ODR_100Hz
           else if field_get ctrl_reg1_odr ctrl_reg1 = odr_code LIS3DE_ODR_200Hz then LIS3DE_ODR_200Hz
           else if field_get ctrl_reg1_odr ctrl_reg1 = odr_code LIS3DE_ODR_400Hz then LIS3DE_ODR_400Hz
           else if field_get ctrl_reg1_odr ctrl_reg1 = odr_code LIS3DE_ODR_1kHz6 then LIS3DE_ODR_1kHz6
           else if field_get ctrl_reg1_odr ctrl_reg1 = odr_code LIS3DE_ODR_5kHz376_LP_1kHz344_NM then LIS3DE_ODR_5kHz376_LP_1kHz344_NM
           else LIS3DE_POWER_DOWN,
           w))"

definition lis3de_high_pass_on_outputs_set ::
  "'s stmdev_ctx_t \<Rightarrow> uint8_t \<Rightarrow> uint8_t \<Rightarrow> 's world \<Rightarrow> int32_t \<times> 's world" where
  "lis3de_high_pass_on_outputs_set ctx val ctrl_reg2 w =
     (case read_struct ctx LIS3DE_CTRL_REG2 ctrl_reg2 w of
        (ret, ctrl_reg2, w) \<Rightarrow>
          if ret = 0 then write_struct ctx LIS3DE_CTRL_REG2 (field_set ctrl_reg2_fds ctrl_reg2 val) w
          else (ret, w))"

definition lis3de_high_pass_on_outputs_get ::
  "'s stmdev_ctx_t \<Rightarrow> uint8_t \<Rightarrow> 's world \<Rightarrow> int32_t \<times> uint8_t \<times> 's world" where
  "lis3de_high_pass_on_outputs_get ctx ctrl_reg2 w =
     (case read_struct ctx LIS3DE_CTRL_REG2 ctrl_reg2 w of
        (ret, ctrl_reg2, w) \<Rightarrow> (ret, field_get ctrl_reg2_fds ctrl_reg2, w))"

definition lis3de_high_pass_bandwidth_set ::
  "'s stmdev_ctx_t \<Rightarrow> lis3de_hpcf_t \<Rightarrow> uint8_t \<Rightarrow> 's world \<Rightarrow> int32_t \<times> 's world" where
  "lis3de_high_pass_bandwidth_set ctx val ctrl_reg2 w =
     (case read_struct ctx LIS3DE_CTRL_REG2 ctrl_reg2 w of
        (ret, ctrl_reg2, w) \<Rightarrow>
          if ret = 0 then write_struct ctx LIS3DE_CTRL_REG2 (field_set ctrl_reg2_hpcf ctrl_reg2 (hpcf_code val)) w
          else (ret, w))"

definition lis3de_high_pass_bandwidth_get ::
  "'s stmdev_ctx_t \<Rightarrow> uint8_t \<Rightarrow> 's world \<Rightarrow> int32_t \<times> lis3de_hpcf_t \<times> 's world" where
  "lis3de_high_pass_bandwidth_get ctx ctrl_reg2 w =
     (case read_struct ctx LIS3DE_CTRL_REG2 ctrl_reg2 w of
        (ret, ctrl_reg2, w) \<Rightarrow>
          (ret,
           if field_get ctrl_reg2_hpcf ctrl_reg2 = hpcf_code LIS3DE_AGGRESSIVE then LIS3DE_AGGRESSIVE
           else if field_get ctrl_reg2_hpcf ctrl_reg2 = hpcf_code LIS3DE_STRONG then LIS3DE_STRONG
           else if field_get ctrl_reg2_hpcf ctrl_reg2 = hpcf_code LIS3DE_MEDIUM then LIS3DE_MEDIUM
           else if field_get ctrl_reg2_hpcf ctrl_reg2 = hpcf_code LIS3DE_LIGHT then LIS3DE_LIGHT
           else LIS3DE_LIGHT,
           w))"

definition lis3de_high_pass_mode_set ::
  "'s stmdev_ctx_t \<Rightarrow> lis3de_hpm_t \<Rightarrow> uint8_t \<Rightarrow> 's world \<Rightarrow> int32_t \<times> 's world" where
  "lis3de_high_pass_mode_set ctx val ctrl_reg2 w =
     (case read_struct ctx LIS3DE_CTRL_REG2 ctrl_reg2 w of
        (ret, ctrl_reg2, w) \<Rightarrow>
          if ret = 0 then write_struct ctx LIS3DE_CTRL_REG2 (field_set ctrl_reg2_hpm ctrl_reg2 (hpm_code val)) w
          else (ret, w))"

definition lis3de_high_pass_mode_get ::
  "'s stmdev_ctx_t \<Rightarrow> uint8_t \<Rightarrow> 's world \<Rightarrow> int32_t \<times> lis3de_hpm_t \<times> 's world" where
  "lis3de_high_pass_mode_get ctx ctrl_reg2 w =
     (case read_struct ctx LIS3DE_CTRL_REG2 ctrl_reg2 w of
        (ret, ctrl_reg2, w) \<Rightarrow>
          (ret,
           if field_get ctrl_reg2_hpm ctrl_reg2 = hpm_code LIS3DE_NORMAL_WITH_RST then LIS3DE_NORMAL_WITH_RST
           else if field_get ctrl_reg2_hpm ctrl_reg2 = hpm_code LIS3DE_REFERENCE_MODE then LIS3DE_REFERENCE_MODE
           else if field_get ctrl_reg2_hpm ctrl_reg2 = hpm_code LIS3DE_NORMAL then LIS3DE_NORMAL
           else if field_get ctrl_reg2_hpm ctrl_reg2 = hpm_code LIS3DE_AUTORST_ON_INT then LIS3DE_AUTORST_ON_INT
           else LIS3DE_NORMAL_WITH_RST,
           w))"

definition lis3de_full_scale_set ::
  "'s stmdev_ctx_t \<Rightarrow> lis3de_fs_t \<Rightarrow> uint8_t \<Rightarrow> 's world \<Rightarrow> int32_t \<times> 's world" where
  "lis3de_full_scale_set ctx val ctrl_reg4 w =
     (case read_struct ctx LIS3DE_CTRL_REG4 ctrl_reg4 w of
        (ret, ctrl_reg4, w) \<Rightarrow>
          if ret = 0 then write_struct ctx LIS3DE_CTRL_REG4 (field_set ctrl_reg4_fs ctrl_reg4 (fs_code val)) w
          else (ret, w))"

definition lis3de_full_scale_get ::
  "'s stmdev_ctx_t \<Rightarrow> uint8_t \<Rightarrow> 's world \<Rightarrow> int32_t \<times> lis3de_fs_t \<times> 's world" where
  "lis3de_full_scale_get ctx ctrl_reg4 w =
     (case read_struct ctx LIS3DE_CTRL_REG4 ctrl_reg4 w of
        (ret, ctrl_reg4, w) \<Rightarrow>
          (ret,
           if field_get ctrl_reg4_fs ctrl_reg4 = fs_code LIS3DE_2g then LIS3DE_2g
           else if field_get ctrl_reg4_fs ctrl_reg4 = fs_code LIS3DE_4g then LIS3DE_4g
           else if field_get ctrl_reg4_fs ctrl_reg4 = fs_code LIS3DE_8g then LIS3DE_8g
           else if field_get ctrl_reg4_fs ctrl_reg4 = fs_code LIS3DE_16g then LIS3DE_16g
           else LIS3DE_2g,
           w))"

definition lis3de_block_data_update_get ::
  "'s stmdev_ctx_t \<Rightarrow> uint8_t \<Rightarrow> 's world \<Rightarrow> int32_t \<times> uint8_t \<times> 's world" where
  "lis3de_block_data_update_get ctx ctrl_reg4 w =
     (case read_struct ctx LIS3DE_CTRL_REG4 ctrl_reg4 w of
        (ret, ctrl_reg4, w) \<Rightarrow> (ret, field_get ctrl_reg4_bdu ctrl_reg4, w))"

definition lis3de_filter_reference_set ::
  "'s stmdev_ctx_t \<Rightarrow> uint8_t list \<Rightarrow> 's world \<Rightarrow> int32_t \<times> 's world" where
  "lis3de_filter_reference_set ctx buff w = lis3de_write_reg ctx LIS3DE_REFERENCE buff 1 w"

definition lis3de_filter_reference_get ::
  "'s stmdev_ctx_t \<Rightarrow> uint8_t list \<Rightarrow> 's world \<Rightarrow> int32_t \<times> uint8_t list \<times> 's world" where
  "lis3de_filter_reference_get ctx buff w = lis3de_read_reg ctx LIS3DE_REFERENCE buff 1 w"

definition lis3de_xl_data_ready_get ::
  "'s stmdev_ctx_t \<Rightarrow> uint8_t \<Rightarrow> 's world \<Rightarrow> int32_t \<times> uint8_t \<times> 's world" where
  "lis3de_xl_data_ready_get ctx status_reg w =
     (case read_struct ctx LIS3DE_STATUS_REG status_reg w of
        (ret, status_reg, w) \<Rightarrow> (ret, field_get status_reg_zyxda status_reg, w))"

definition lis3de_xl_data_ovr_get ::
  "'s stmdev_ctx_t \<Rightarrow> uint8_t \<Rightarrow> 's world \<Rightarrow> int32_t \<times> uint8_t \<times> 's world" where
  "lis3de_xl_data_ovr_get ctx status_reg w =
     (case read_struct ctx LIS3DE_STATUS_REG status_reg w of
        (ret, status_reg, w) \<Rightarrow> (ret, field_get status_reg_zyxor status_reg, w))"

text \<open>
  \<open>lis3de_acceleration_raw_get\<close>: \<open>dummy\<close> is the local \<open>int8_t\<close> the three reads
  go through, not initialised by the source; \<open>buff\<close> is the caller's array of three
  samples. \<open>buff[i] = dummy\<close> extends the sign. Each assignment stands beside its read,
  inside the same guard.
\<close>

definition lis3de_acceleration_raw_get ::
  "'s stmdev_ctx_t \<Rightarrow> int16_t list \<Rightarrow> uint8_t \<Rightarrow> 's world
    \<Rightarrow> int32_t \<times> int16_t list \<times> 's world" where
  "lis3de_acceleration_raw_get ctx buff dummy w =
     (case read_struct ctx LIS3DE_OUT_X dummy w of
        (ret, dummy, w) \<Rightarrow>
          (let buff = buff[0 := scast dummy] in
           case (if ret = 0 then
                   (case read_struct ctx LIS3DE_OUT_Y dummy w of
                      (ret, dummy, w) \<Rightarrow> (ret, dummy, buff[1 := scast dummy], w))
                 else (ret, dummy, buff, w)) of
             (ret, dummy, buff, w) \<Rightarrow>
               (case (if ret = 0 then
                        (case read_struct ctx LIS3DE_OUT_Z dummy w of
                           (ret, dummy, w) \<Rightarrow> (ret, dummy, buff[2 := scast dummy], w))
                      else (ret, dummy, buff, w)) of
                  (ret, dummy, buff, w) \<Rightarrow> (ret, buff, w))))"

subsection \<open>Common\<close>

definition lis3de_device_id_get ::
  "'s stmdev_ctx_t \<Rightarrow> uint8_t list \<Rightarrow> 's world \<Rightarrow> int32_t \<times> uint8_t list \<times> 's world" where
  "lis3de_device_id_get ctx buff w = lis3de_read_reg ctx LIS3DE_WHO_AM_I buff 1 w"

definition lis3de_self_test_set ::
  "'s stmdev_ctx_t \<Rightarrow> lis3de_st_t \<Rightarrow> uint8_t \<Rightarrow> 's world \<Rightarrow> int32_t \<times> 's world" where
  "lis3de_self_test_set ctx val ctrl_reg4 w =
     (case read_struct ctx LIS3DE_CTRL_REG4 ctrl_reg4 w of
        (ret, ctrl_reg4, w) \<Rightarrow>
          if ret = 0 then write_struct ctx LIS3DE_CTRL_REG4 (field_set ctrl_reg4_st ctrl_reg4 (st_code val)) w
          else (ret, w))"

definition lis3de_self_test_get ::
  "'s stmdev_ctx_t \<Rightarrow> uint8_t \<Rightarrow> 's world \<Rightarrow> int32_t \<times> lis3de_st_t \<times> 's world" where
  "lis3de_self_test_get ctx ctrl_reg4 w =
     (case read_struct ctx LIS3DE_CTRL_REG4 ctrl_reg4 w of
        (ret, ctrl_reg4, w) \<Rightarrow>
          (ret,
           if field_get ctrl_reg4_st ctrl_reg4 = st_code LIS3DE_ST_DISABLE then LIS3DE_ST_DISABLE
           else if field_get ctrl_reg4_st ctrl_reg4 = st_code LIS3DE_ST_POSITIVE then LIS3DE_ST_POSITIVE
           else if field_get ctrl_reg4_st ctrl_reg4 = st_code LIS3DE_ST_NEGATIVE then LIS3DE_ST_NEGATIVE
           else LIS3DE_ST_DISABLE,
           w))"

definition lis3de_boot_set ::
  "'s stmdev_ctx_t \<Rightarrow> uint8_t \<Rightarrow> uint8_t \<Rightarrow> 's world \<Rightarrow> int32_t \<times> 's world" where
  "lis3de_boot_set ctx val ctrl_reg5 w =
     (case read_struct ctx LIS3DE_CTRL_REG5 ctrl_reg5 w of
        (ret, ctrl_reg5, w) \<Rightarrow>
          if ret = 0 then write_struct ctx LIS3DE_CTRL_REG5 (field_set ctrl_reg5_boot ctrl_reg5 val) w
          else (ret, w))"

definition lis3de_boot_get ::
  "'s stmdev_ctx_t \<Rightarrow> uint8_t \<Rightarrow> 's world \<Rightarrow> int32_t \<times> uint8_t \<times> 's world" where
  "lis3de_boot_get ctx ctrl_reg5 w =
     (case read_struct ctx LIS3DE_CTRL_REG5 ctrl_reg5 w of
        (ret, ctrl_reg5, w) \<Rightarrow> (ret, field_get ctrl_reg5_boot ctrl_reg5, w))"

definition lis3de_status_get ::
  "'s stmdev_ctx_t \<Rightarrow> uint8_t \<Rightarrow> 's world \<Rightarrow> int32_t \<times> uint8_t \<times> 's world" where
  "lis3de_status_get ctx val w = read_struct ctx LIS3DE_STATUS_REG val w"

subsection \<open>Interrupt generator 1\<close>

definition lis3de_int1_gen_conf_set ::
  "'s stmdev_ctx_t \<Rightarrow> uint8_t \<Rightarrow> 's world \<Rightarrow> int32_t \<times> 's world" where
  "lis3de_int1_gen_conf_set ctx val w = write_struct ctx LIS3DE_IG1_CFG val w"

definition lis3de_int1_gen_conf_get ::
  "'s stmdev_ctx_t \<Rightarrow> uint8_t \<Rightarrow> 's world \<Rightarrow> int32_t \<times> uint8_t \<times> 's world" where
  "lis3de_int1_gen_conf_get ctx val w = read_struct ctx LIS3DE_IG1_CFG val w"

definition lis3de_int1_gen_source_get ::
  "'s stmdev_ctx_t \<Rightarrow> uint8_t \<Rightarrow> 's world \<Rightarrow> int32_t \<times> uint8_t \<times> 's world" where
  "lis3de_int1_gen_source_get ctx val w = read_struct ctx LIS3DE_IG1_SOURCE val w"

definition lis3de_int1_gen_threshold_set ::
  "'s stmdev_ctx_t \<Rightarrow> uint8_t \<Rightarrow> uint8_t \<Rightarrow> 's world \<Rightarrow> int32_t \<times> 's world" where
  "lis3de_int1_gen_threshold_set ctx val int1_ths w =
     (case read_struct ctx LIS3DE_IG1_THS int1_ths w of
        (ret, int1_ths, w) \<Rightarrow>
          if ret = 0 then write_struct ctx LIS3DE_IG1_THS (field_set ig1_ths_ths int1_ths val) w
          else (ret, w))"

definition lis3de_int1_gen_threshold_get ::
  "'s stmdev_ctx_t \<Rightarrow> uint8_t \<Rightarrow> 's world \<Rightarrow> int32_t \<times> uint8_t \<times> 's world" where
  "lis3de_int1_gen_threshold_get ctx int1_ths w =
     (case read_struct ctx LIS3DE_IG1_THS int1_ths w of
        (ret, int1_ths, w) \<Rightarrow> (ret, field_get ig1_ths_ths int1_ths, w))"

definition lis3de_int1_gen_duration_set ::
  "'s stmdev_ctx_t \<Rightarrow> uint8_t \<Rightarrow> uint8_t \<Rightarrow> 's world \<Rightarrow> int32_t \<times> 's world" where
  "lis3de_int1_gen_duration_set ctx val int1_duration w =
     (case read_struct ctx LIS3DE_IG1_DURATION int1_duration w of
        (ret, int1_duration, w) \<Rightarrow>
          if ret = 0 then write_struct ctx LIS3DE_IG1_DURATION (field_set ig1_duration_d int1_duration val) w
          else (ret, w))"

definition lis3de_int1_gen_duration_get ::
  "'s stmdev_ctx_t \<Rightarrow> uint8_t \<Rightarrow> 's world \<Rightarrow> int32_t \<times> uint8_t \<times> 's world" where
  "lis3de_int1_gen_duration_get ctx int1_duration w =
     (case read_struct ctx LIS3DE_IG1_DURATION int1_duration w of
        (ret, int1_duration, w) \<Rightarrow> (ret, field_get ig1_duration_d int1_duration, w))"

subsection \<open>Interrupt generator 2\<close>

definition lis3de_int2_gen_conf_set ::
  "'s stmdev_ctx_t \<Rightarrow> uint8_t \<Rightarrow> 's world \<Rightarrow> int32_t \<times> 's world" where
  "lis3de_int2_gen_conf_set ctx val w = write_struct ctx LIS3DE_IG2_CFG val w"

definition lis3de_int2_gen_conf_get ::
  "'s stmdev_ctx_t \<Rightarrow> uint8_t \<Rightarrow> 's world \<Rightarrow> int32_t \<times> uint8_t \<times> 's world" where
  "lis3de_int2_gen_conf_get ctx val w = read_struct ctx LIS3DE_IG2_CFG val w"

definition lis3de_int2_gen_source_get ::
  "'s stmdev_ctx_t \<Rightarrow> uint8_t \<Rightarrow> 's world \<Rightarrow> int32_t \<times> uint8_t \<times> 's world" where
  "lis3de_int2_gen_source_get ctx val w = read_struct ctx LIS3DE_IG2_SOURCE val w"

definition lis3de_int2_gen_threshold_set ::
  "'s stmdev_ctx_t \<Rightarrow> uint8_t \<Rightarrow> uint8_t \<Rightarrow> 's world \<Rightarrow> int32_t \<times> 's world" where
  "lis3de_int2_gen_threshold_set ctx val int2_ths w =
     (case read_struct ctx LIS3DE_IG2_THS int2_ths w of
        (ret, int2_ths, w) \<Rightarrow>
          if ret = 0 then write_struct ctx LIS3DE_IG2_THS (field_set ig2_ths_ths int2_ths val) w
          else (ret, w))"

definition lis3de_int2_gen_threshold_get ::
  "'s stmdev_ctx_t \<Rightarrow> uint8_t \<Rightarrow> 's world \<Rightarrow> int32_t \<times> uint8_t \<times> 's world" where
  "lis3de_int2_gen_threshold_get ctx int2_ths w =
     (case read_struct ctx LIS3DE_IG2_THS int2_ths w of
        (ret, int2_ths, w) \<Rightarrow> (ret, field_get ig2_ths_ths int2_ths, w))"

definition lis3de_int2_gen_duration_set ::
  "'s stmdev_ctx_t \<Rightarrow> uint8_t \<Rightarrow> uint8_t \<Rightarrow> 's world \<Rightarrow> int32_t \<times> 's world" where
  "lis3de_int2_gen_duration_set ctx val int2_duration w =
     (case read_struct ctx LIS3DE_IG2_DURATION int2_duration w of
        (ret, int2_duration, w) \<Rightarrow>
          if ret = 0 then write_struct ctx LIS3DE_IG2_DURATION (field_set ig2_duration_d int2_duration val) w
          else (ret, w))"

definition lis3de_int2_gen_duration_get ::
  "'s stmdev_ctx_t \<Rightarrow> uint8_t \<Rightarrow> 's world \<Rightarrow> int32_t \<times> uint8_t \<times> 's world" where
  "lis3de_int2_gen_duration_get ctx int2_duration w =
     (case read_struct ctx LIS3DE_IG2_DURATION int2_duration w of
        (ret, int2_duration, w) \<Rightarrow> (ret, field_get ig2_duration_d int2_duration, w))"

subsection \<open>Interrupt pins\<close>

definition lis3de_high_pass_int_conf_set ::
  "'s stmdev_ctx_t \<Rightarrow> lis3de_hp_t \<Rightarrow> uint8_t \<Rightarrow> 's world \<Rightarrow> int32_t \<times> 's world" where
  "lis3de_high_pass_int_conf_set ctx val ctrl_reg2 w =
     (case read_struct ctx LIS3DE_CTRL_REG2 ctrl_reg2 w of
        (ret, ctrl_reg2, w) \<Rightarrow>
          if ret = 0 then write_struct ctx LIS3DE_CTRL_REG2 (field_set ctrl_reg2_hp ctrl_reg2 (hp_code val)) w
          else (ret, w))"

definition lis3de_high_pass_int_conf_get ::
  "'s stmdev_ctx_t \<Rightarrow> uint8_t \<Rightarrow> 's world \<Rightarrow> int32_t \<times> lis3de_hp_t \<times> 's world" where
  "lis3de_high_pass_int_conf_get ctx ctrl_reg2 w =
     (case read_struct ctx LIS3DE_CTRL_REG2 ctrl_reg2 w of
        (ret, ctrl_reg2, w) \<Rightarrow>
          (ret,
           if field_get ctrl_reg2_hp ctrl_reg2 = hp_code LIS3DE_DISC_FROM_INT_GENERATOR then LIS3DE_DISC_FROM_INT_GENERATOR
           else if field_get ctrl_reg2_hp ctrl_reg2 = hp_code LIS3DE_ON_INT1_GEN then LIS3DE_ON_INT1_GEN
           else if field_get ctrl_reg2_hp ctrl_reg2 = hp_code LIS3DE_ON_INT2_GEN then LIS3DE_ON_INT2_GEN
           else if field_get ctrl_reg2_hp ctrl_reg2 = hp_code LIS3DE_ON_TAP_GEN then LIS3DE_ON_TAP_GEN
           else if field_get ctrl_reg2_hp ctrl_reg2 = hp_code LIS3DE_ON_INT1_INT2_GEN then LIS3DE_ON_INT1_INT2_GEN
           else if field_get ctrl_reg2_hp ctrl_reg2 = hp_code LIS3DE_ON_INT1_TAP_GEN then LIS3DE_ON_INT1_TAP_GEN
           else if field_get ctrl_reg2_hp ctrl_reg2 = hp_code LIS3DE_ON_INT2_TAP_GEN then LIS3DE_ON_INT2_TAP_GEN
           else if field_get ctrl_reg2_hp ctrl_reg2 = hp_code LIS3DE_ON_INT1_INT2_TAP_GEN then LIS3DE_ON_INT1_INT2_TAP_GEN
           else LIS3DE_DISC_FROM_INT_GENERATOR,
           w))"

definition lis3de_pin_int1_config_set ::
  "'s stmdev_ctx_t \<Rightarrow> uint8_t \<Rightarrow> 's world \<Rightarrow> int32_t \<times> 's world" where
  "lis3de_pin_int1_config_set ctx val w = write_struct ctx LIS3DE_CTRL_REG3 val w"

definition lis3de_pin_int1_config_get ::
  "'s stmdev_ctx_t \<Rightarrow> uint8_t \<Rightarrow> 's world \<Rightarrow> int32_t \<times> uint8_t \<times> 's world" where
  "lis3de_pin_int1_config_get ctx val w = read_struct ctx LIS3DE_CTRL_REG3 val w"

definition lis3de_int2_pin_detect_4d_set ::
  "'s stmdev_ctx_t \<Rightarrow> uint8_t \<Rightarrow> uint8_t \<Rightarrow> 's world \<Rightarrow> int32_t \<times> 's world" where
  "lis3de_int2_pin_detect_4d_set ctx val ctrl_reg5 w =
     (case read_struct ctx LIS3DE_CTRL_REG5 ctrl_reg5 w of
        (ret, ctrl_reg5, w) \<Rightarrow>
          if ret = 0 then write_struct ctx LIS3DE_CTRL_REG5 (field_set ctrl_reg5_d4d_ig2 ctrl_reg5 val) w
          else (ret, w))"

definition lis3de_int2_pin_detect_4d_get ::
  "'s stmdev_ctx_t \<Rightarrow> uint8_t \<Rightarrow> 's world \<Rightarrow> int32_t \<times> uint8_t \<times> 's world" where
  "lis3de_int2_pin_detect_4d_get ctx ctrl_reg5 w =
     (case read_struct ctx LIS3DE_CTRL_REG5 ctrl_reg5 w of
        (ret, ctrl_reg5, w) \<Rightarrow> (ret, field_get ctrl_reg5_d4d_ig2 ctrl_reg5, w))"

definition lis3de_int2_pin_notification_mode_set ::
  "'s stmdev_ctx_t \<Rightarrow> lis3de_lir_int2_t \<Rightarrow> uint8_t \<Rightarrow> 's world \<Rightarrow> int32_t \<times> 's world" where
  "lis3de_int2_pin_notification_mode_set ctx val ctrl_reg5 w =
     (case read_struct ctx LIS3DE_CTRL_REG5 ctrl_reg5 w of
        (ret, ctrl_reg5, w) \<Rightarrow>
          if ret = 0 then write_struct ctx LIS3DE_CTRL_REG5 (field_set ctrl_reg5_lir_ig2 ctrl_reg5 (lir_int2_code val)) w
          else (ret, w))"

definition lis3de_int2_pin_notification_mode_get ::
  "'s stmdev_ctx_t \<Rightarrow> uint8_t \<Rightarrow> 's world \<Rightarrow> int32_t \<times> lis3de_lir_int2_t \<times> 's world" where
  "lis3de_int2_pin_notification_mode_get ctx ctrl_reg5 w =
     (case read_struct ctx LIS3DE_CTRL_REG5 ctrl_reg5 w of
        (ret, ctrl_reg5, w) \<Rightarrow>
          (ret,
           if field_get ctrl_reg5_lir_ig2 ctrl_reg5 = lir_int2_code LIS3DE_INT2_PULSED then LIS3DE_INT2_PULSED
           else if field_get ctrl_reg5_lir_ig2 ctrl_reg5 = lir_int2_code LIS3DE_INT2_LATCHED then LIS3DE_INT2_LATCHED
           else LIS3DE_INT2_PULSED,
           w))"

definition lis3de_int1_pin_detect_4d_set ::
  "'s stmdev_ctx_t \<Rightarrow> uint8_t \<Rightarrow> uint8_t \<Rightarrow> 's world \<Rightarrow> int32_t \<times> 's world" where
  "lis3de_int1_pin_detect_4d_set ctx val ctrl_reg5 w =
     (case read_struct ctx LIS3DE_CTRL_REG5 ctrl_reg5 w of
        (ret, ctrl_reg5, w) \<Rightarrow>
          if ret = 0 then write_struct ctx LIS3DE_CTRL_REG5 (field_set ctrl_reg5_d4d_ig1 ctrl_reg5 val) w
          else (ret, w))"

definition lis3de_int1_pin_detect_4d_get ::
  "'s stmdev_ctx_t \<Rightarrow> uint8_t \<Rightarrow> 's world \<Rightarrow> int32_t \<times> uint8_t \<times> 's world" where
  "lis3de_int1_pin_detect_4d_get ctx ctrl_reg5 w =
     (case read_struct ctx LIS3DE_CTRL_REG5 ctrl_reg5 w of
        (ret, ctrl_reg5, w) \<Rightarrow> (ret, field_get ctrl_reg5_d4d_ig1 ctrl_reg5, w))"

definition lis3de_int1_pin_notification_mode_set ::
  "'s stmdev_ctx_t \<Rightarrow> lis3de_lir_int1_t \<Rightarrow> uint8_t \<Rightarrow> 's world \<Rightarrow> int32_t \<times> 's world" where
  "lis3de_int1_pin_notification_mode_set ctx val ctrl_reg5 w =
     (case read_struct ctx LIS3DE_CTRL_REG5 ctrl_reg5 w of
        (ret, ctrl_reg5, w) \<Rightarrow>
          if ret = 0 then write_struct ctx LIS3DE_CTRL_REG5 (field_set ctrl_reg5_lir_ig1 ctrl_reg5 (lir_int1_code val)) w
          else (ret, w))"

definition lis3de_int1_pin_notification_mode_get ::
  "'s stmdev_ctx_t \<Rightarrow> uint8_t \<Rightarrow> 's world \<Rightarrow> int32_t \<times> lis3de_lir_int1_t \<times> 's world" where
  "lis3de_int1_pin_notification_mode_get ctx ctrl_reg5 w =
     (case read_struct ctx LIS3DE_CTRL_REG5 ctrl_reg5 w of
        (ret, ctrl_reg5, w) \<Rightarrow>
          (ret,
           if field_get ctrl_reg5_lir_ig1 ctrl_reg5 = lir_int1_code LIS3DE_INT1_PULSED then LIS3DE_INT1_PULSED
           else if field_get ctrl_reg5_lir_ig1 ctrl_reg5 = lir_int1_code LIS3DE_INT1_LATCHED then LIS3DE_INT1_LATCHED
           else LIS3DE_INT1_PULSED,
           w))"

definition lis3de_pin_int2_config_set ::
  "'s stmdev_ctx_t \<Rightarrow> uint8_t \<Rightarrow> 's world \<Rightarrow> int32_t \<times> 's world" where
  "lis3de_pin_int2_config_set ctx val w = write_struct ctx LIS3DE_CTRL_REG6 val w"

definition lis3de_pin_int2_config_get ::
  "'s stmdev_ctx_t \<Rightarrow> uint8_t \<Rightarrow> 's world \<Rightarrow> int32_t \<times> uint8_t \<times> 's world" where
  "lis3de_pin_int2_config_get ctx val w = read_struct ctx LIS3DE_CTRL_REG6 val w"

subsection \<open>FIFO\<close>

definition lis3de_fifo_set ::
  "'s stmdev_ctx_t \<Rightarrow> uint8_t \<Rightarrow> uint8_t \<Rightarrow> 's world \<Rightarrow> int32_t \<times> 's world" where
  "lis3de_fifo_set ctx val ctrl_reg5 w =
     (case read_struct ctx LIS3DE_CTRL_REG5 ctrl_reg5 w of
        (ret, ctrl_reg5, w) \<Rightarrow>
          if ret = 0 then write_struct ctx LIS3DE_CTRL_REG5 (field_set ctrl_reg5_fifo_en ctrl_reg5 val) w
          else (ret, w))"

definition lis3de_fifo_get ::
  "'s stmdev_ctx_t \<Rightarrow> uint8_t \<Rightarrow> 's world \<Rightarrow> int32_t \<times> uint8_t \<times> 's world" where
  "lis3de_fifo_get ctx ctrl_reg5 w =
     (case read_struct ctx LIS3DE_CTRL_REG5 ctrl_reg5 w of
        (ret, ctrl_reg5, w) \<Rightarrow> (ret, field_get ctrl_reg5_fifo_en ctrl_reg5, w))"

definition lis3de_fifo_watermark_set ::
  "'s stmdev_ctx_t \<Rightarrow> uint8_t \<Rightarrow> uint8_t \<Rightarrow> 's world \<Rightarrow> int32_t \<times> 's world" where
  "lis3de_fifo_watermark_set ctx val fifo_ctrl_reg w =
     (case read_struct ctx LIS3DE_FIFO_CTRL_REG fifo_ctrl_reg w of
        (ret, fifo_ctrl_reg, w) \<Rightarrow>
          if ret = 0 then write_struct ctx LIS3DE_FIFO_CTRL_REG (field_set fifo_ctrl_reg_fth fifo_ctrl_reg val) w
          else (ret, w))"

definition lis3de_fifo_watermark_get ::
  "'s stmdev_ctx_t \<Rightarrow> uint8_t \<Rightarrow> 's world \<Rightarrow> int32_t \<times> uint8_t \<times> 's world" where
  "lis3de_fifo_watermark_get ctx fifo_ctrl_reg w =
     (case read_struct ctx LIS3DE_FIFO_CTRL_REG fifo_ctrl_reg w of
        (ret, fifo_ctrl_reg, w) \<Rightarrow> (ret, field_get fifo_ctrl_reg_fth fifo_ctrl_reg, w))"

definition lis3de_fifo_trigger_event_set ::
  "'s stmdev_ctx_t \<Rightarrow> lis3de_tr_t \<Rightarrow> uint8_t \<Rightarrow> 's world \<Rightarrow> int32_t \<times> 's world" where
  "lis3de_fifo_trigger_event_set ctx val fifo_ctrl_reg w =
     (case read_struct ctx LIS3DE_FIFO_CTRL_REG fifo_ctrl_reg w of
        (ret, fifo_ctrl_reg, w) \<Rightarrow>
          if ret = 0 then write_struct ctx LIS3DE_FIFO_CTRL_REG (field_set fifo_ctrl_reg_tr fifo_ctrl_reg (tr_code val)) w
          else (ret, w))"

definition lis3de_fifo_trigger_event_get ::
  "'s stmdev_ctx_t \<Rightarrow> uint8_t \<Rightarrow> 's world \<Rightarrow> int32_t \<times> lis3de_tr_t \<times> 's world" where
  "lis3de_fifo_trigger_event_get ctx fifo_ctrl_reg w =
     (case read_struct ctx LIS3DE_FIFO_CTRL_REG fifo_ctrl_reg w of
        (ret, fifo_ctrl_reg, w) \<Rightarrow>
          (ret,
           if field_get fifo_ctrl_reg_tr fifo_ctrl_reg = tr_code LIS3DE_INT1_GEN then LIS3DE_INT1_GEN
           else if field_get fifo_ctrl_reg_tr fifo_ctrl_reg = tr_code LIS3DE_INT2_GEN then LIS3DE_INT2_GEN
           else LIS3DE_INT1_GEN,
           w))"

definition lis3de_fifo_mode_set ::
  "'s stmdev_ctx_t \<Rightarrow> lis3de_fm_t \<Rightarrow> uint8_t \<Rightarrow> 's world \<Rightarrow> int32_t \<times> 's world" where
  "lis3de_fifo_mode_set ctx val fifo_ctrl_reg w =
     (case read_struct ctx LIS3DE_FIFO_CTRL_REG fifo_ctrl_reg w of
        (ret, fifo_ctrl_reg, w) \<Rightarrow>
          if ret = 0 then write_struct ctx LIS3DE_FIFO_CTRL_REG (field_set fifo_ctrl_reg_fm fifo_ctrl_reg (fm_code val)) w
          else (ret, w))"

definition lis3de_fifo_mode_get ::
  "'s stmdev_ctx_t \<Rightarrow> uint8_t \<Rightarrow> 's world \<Rightarrow> int32_t \<times> lis3de_fm_t \<times> 's world" where
  "lis3de_fifo_mode_get ctx fifo_ctrl_reg w =
     (case read_struct ctx LIS3DE_FIFO_CTRL_REG fifo_ctrl_reg w of
        (ret, fifo_ctrl_reg, w) \<Rightarrow>
          (ret,
           if field_get fifo_ctrl_reg_fm fifo_ctrl_reg = fm_code LIS3DE_BYPASS_MODE then LIS3DE_BYPASS_MODE
           else if field_get fifo_ctrl_reg_fm fifo_ctrl_reg = fm_code LIS3DE_FIFO_MODE then LIS3DE_FIFO_MODE
           else if field_get fifo_ctrl_reg_fm fifo_ctrl_reg = fm_code LIS3DE_DYNAMIC_STREAM_MODE then LIS3DE_DYNAMIC_STREAM_MODE
           else if field_get fifo_ctrl_reg_fm fifo_ctrl_reg = fm_code LIS3DE_STREAM_TO_FIFO_MODE then LIS3DE_STREAM_TO_FIFO_MODE
           else LIS3DE_BYPASS_MODE,
           w))"

definition lis3de_fifo_status_get ::
  "'s stmdev_ctx_t \<Rightarrow> uint8_t \<Rightarrow> 's world \<Rightarrow> int32_t \<times> uint8_t \<times> 's world" where
  "lis3de_fifo_status_get ctx val w = read_struct ctx LIS3DE_FIFO_SRC_REG val w"

definition lis3de_fifo_data_level_get ::
  "'s stmdev_ctx_t \<Rightarrow> uint8_t \<Rightarrow> 's world \<Rightarrow> int32_t \<times> uint8_t \<times> 's world" where
  "lis3de_fifo_data_level_get ctx fifo_src_reg w =
     (case read_struct ctx LIS3DE_FIFO_SRC_REG fifo_src_reg w of
        (ret, fifo_src_reg, w) \<Rightarrow> (ret, field_get fifo_src_reg_fss fifo_src_reg, w))"

definition lis3de_fifo_empty_flag_get ::
  "'s stmdev_ctx_t \<Rightarrow> uint8_t \<Rightarrow> 's world \<Rightarrow> int32_t \<times> uint8_t \<times> 's world" where
  "lis3de_fifo_empty_flag_get ctx fifo_src_reg w =
     (case read_struct ctx LIS3DE_FIFO_SRC_REG fifo_src_reg w of
        (ret, fifo_src_reg, w) \<Rightarrow> (ret, field_get fifo_src_reg_empty fifo_src_reg, w))"

definition lis3de_fifo_ovr_flag_get ::
  "'s stmdev_ctx_t \<Rightarrow> uint8_t \<Rightarrow> 's world \<Rightarrow> int32_t \<times> uint8_t \<times> 's world" where
  "lis3de_fifo_ovr_flag_get ctx fifo_src_reg w =
     (case read_struct ctx LIS3DE_FIFO_SRC_REG fifo_src_reg w of
        (ret, fifo_src_reg, w) \<Rightarrow> (ret, field_get fifo_src_reg_ovrn_fifo fifo_src_reg, w))"

definition lis3de_fifo_fth_flag_get ::
  "'s stmdev_ctx_t \<Rightarrow> uint8_t \<Rightarrow> 's world \<Rightarrow> int32_t \<times> uint8_t \<times> 's world" where
  "lis3de_fifo_fth_flag_get ctx fifo_src_reg w =
     (case read_struct ctx LIS3DE_FIFO_SRC_REG fifo_src_reg w of
        (ret, fifo_src_reg, w) \<Rightarrow> (ret, field_get fifo_src_reg_wtm fifo_src_reg, w))"

subsection \<open>Tap generator\<close>

definition lis3de_tap_conf_set ::
  "'s stmdev_ctx_t \<Rightarrow> uint8_t \<Rightarrow> 's world \<Rightarrow> int32_t \<times> 's world" where
  "lis3de_tap_conf_set ctx val w = write_struct ctx LIS3DE_CLICK_CFG val w"

definition lis3de_tap_conf_get ::
  "'s stmdev_ctx_t \<Rightarrow> uint8_t \<Rightarrow> 's world \<Rightarrow> int32_t \<times> uint8_t \<times> 's world" where
  "lis3de_tap_conf_get ctx val w = read_struct ctx LIS3DE_CLICK_CFG val w"

definition lis3de_tap_source_get ::
  "'s stmdev_ctx_t \<Rightarrow> uint8_t \<Rightarrow> 's world \<Rightarrow> int32_t \<times> uint8_t \<times> 's world" where
  "lis3de_tap_source_get ctx val w = read_struct ctx LIS3DE_CLICK_SRC val w"

definition lis3de_tap_threshold_set ::
  "'s stmdev_ctx_t \<Rightarrow> uint8_t \<Rightarrow> uint8_t \<Rightarrow> 's world \<Rightarrow> int32_t \<times> 's world" where
  "lis3de_tap_threshold_set ctx val click_ths w =
     (case read_struct ctx LIS3DE_CLICK_THS click_ths w of
        (ret, click_ths, w) \<Rightarrow>
          if ret = 0 then write_struct ctx LIS3DE_CLICK_THS (field_set click_ths_ths click_ths val) w
          else (ret, w))"

definition lis3de_tap_threshold_get ::
  "'s stmdev_ctx_t \<Rightarrow> uint8_t \<Rightarrow> 's world \<Rightarrow> int32_t \<times> uint8_t \<times> 's world" where
  "lis3de_tap_threshold_get ctx click_ths w =
     (case read_struct ctx LIS3DE_CLICK_THS click_ths w of
        (ret, click_ths, w) \<Rightarrow> (ret, field_get click_ths_ths click_ths, w))"

definition lis3de_tap_notification_mode_set ::
  "'s stmdev_ctx_t \<Rightarrow> lis3de_lir_t \<Rightarrow> uint8_t \<Rightarrow> 's world \<Rightarrow> int32_t \<times> 's world" where
  "lis3de_tap_notification_mode_set ctx val click_ths w =
     (case read_struct ctx LIS3DE_CLICK_THS click_ths w of
        (ret, click_ths, w) \<Rightarrow>
          if ret = 0 then write_struct ctx LIS3DE_CLICK_THS (field_set click_ths_lir click_ths (lir_code val)) w
          else (ret, w))"

definition lis3de_tap_notification_mode_get ::
  "'s stmdev_ctx_t \<Rightarrow> uint8_t \<Rightarrow> 's world \<Rightarrow> int32_t \<times> lis3de_lir_t \<times> 's world" where
  "lis3de_tap_notification_mode_get ctx click_ths w =
     (case read_struct ctx LIS3DE_CLICK_THS click_ths w of
        (ret, click_ths, w) \<Rightarrow>
          (ret,
           if field_get click_ths_lir click_ths = lir_code LIS3DE_TAP_PULSED then LIS3DE_TAP_PULSED
           else if field_get click_ths_lir click_ths = lir_code LIS3DE_TAP_LATCHED then LIS3DE_TAP_LATCHED
           else LIS3DE_TAP_PULSED,
           w))"

definition lis3de_shock_dur_set ::
  "'s stmdev_ctx_t \<Rightarrow> uint8_t \<Rightarrow> uint8_t \<Rightarrow> 's world \<Rightarrow> int32_t \<times> 's world" where
  "lis3de_shock_dur_set ctx val time_limit w =
     (case read_struct ctx LIS3DE_TIME_LIMIT time_limit w of
        (ret, time_limit, w) \<Rightarrow>
          if ret = 0 then write_struct ctx LIS3DE_TIME_LIMIT (field_set time_limit_tli time_limit val) w
          else (ret, w))"

definition lis3de_shock_dur_get ::
  "'s stmdev_ctx_t \<Rightarrow> uint8_t \<Rightarrow> 's world \<Rightarrow> int32_t \<times> uint8_t \<times> 's world" where
  "lis3de_shock_dur_get ctx time_limit w =
     (case read_struct ctx LIS3DE_TIME_LIMIT time_limit w of
        (ret, time_limit, w) \<Rightarrow> (ret, field_get time_limit_tli time_limit, w))"

definition lis3de_quiet_dur_set ::
  "'s stmdev_ctx_t \<Rightarrow> uint8_t \<Rightarrow> uint8_t \<Rightarrow> 's world \<Rightarrow> int32_t \<times> 's world" where
  "lis3de_quiet_dur_set ctx val time_latency w =
     (case read_struct ctx LIS3DE_TIME_LATENCY time_latency w of
        (ret, time_latency, w) \<Rightarrow>
          if ret = 0 then write_struct ctx LIS3DE_TIME_LATENCY (field_set time_latency_tla time_latency val) w
          else (ret, w))"

definition lis3de_quiet_dur_get ::
  "'s stmdev_ctx_t \<Rightarrow> uint8_t \<Rightarrow> 's world \<Rightarrow> int32_t \<times> uint8_t \<times> 's world" where
  "lis3de_quiet_dur_get ctx time_latency w =
     (case read_struct ctx LIS3DE_TIME_LATENCY time_latency w of
        (ret, time_latency, w) \<Rightarrow> (ret, field_get time_latency_tla time_latency, w))"

definition lis3de_double_tap_timeout_set ::
  "'s stmdev_ctx_t \<Rightarrow> uint8_t \<Rightarrow> uint8_t \<Rightarrow> 's world \<Rightarrow> int32_t \<times> 's world" where
  "lis3de_double_tap_timeout_set ctx val time_window w =
     (case read_struct ctx LIS3DE_TIME_WINDOW time_window w of
        (ret, time_window, w) \<Rightarrow>
          if ret = 0 then write_struct ctx LIS3DE_TIME_WINDOW (field_set time_window_tw time_window val) w
          else (ret, w))"

definition lis3de_double_tap_timeout_get ::
  "'s stmdev_ctx_t \<Rightarrow> uint8_t \<Rightarrow> 's world \<Rightarrow> int32_t \<times> uint8_t \<times> 's world" where
  "lis3de_double_tap_timeout_get ctx time_window w =
     (case read_struct ctx LIS3DE_TIME_WINDOW time_window w of
        (ret, time_window, w) \<Rightarrow> (ret, field_get time_window_tw time_window, w))"

subsection \<open>Activity and inactivity\<close>

definition lis3de_act_threshold_set ::
  "'s stmdev_ctx_t \<Rightarrow> uint8_t \<Rightarrow> uint8_t \<Rightarrow> 's world \<Rightarrow> int32_t \<times> 's world" where
  "lis3de_act_threshold_set ctx val act_ths w =
     (case read_struct ctx LIS3DE_ACT_THS act_ths w of
        (ret, act_ths, w) \<Rightarrow>
          if ret = 0 then write_struct ctx LIS3DE_ACT_THS (field_set act_ths_acth act_ths val) w
          else (ret, w))"

definition lis3de_act_threshold_get ::
  "'s stmdev_ctx_t \<Rightarrow> uint8_t \<Rightarrow> 's world \<Rightarrow> int32_t \<times> uint8_t \<times> 's world" where
  "lis3de_act_threshold_get ctx act_ths w =
     (case read_struct ctx LIS3DE_ACT_THS act_ths w of
        (ret, act_ths, w) \<Rightarrow> (ret, field_get act_ths_acth act_ths, w))"

definition lis3de_act_timeout_set ::
  "'s stmdev_ctx_t \<Rightarrow> uint8_t \<Rightarrow> uint8_t \<Rightarrow> 's world \<Rightarrow> int32_t \<times> 's world" where
  "lis3de_act_timeout_set ctx val act_dur w =
     (case read_struct ctx LIS3DE_ACT_DUR act_dur w of
        (ret, act_dur, w) \<Rightarrow>
          if ret = 0 then write_struct ctx LIS3DE_ACT_DUR (field_set act_dur_actd act_dur val) w
          else (ret, w))"

definition lis3de_act_timeout_get ::
  "'s stmdev_ctx_t \<Rightarrow> uint8_t \<Rightarrow> 's world \<Rightarrow> int32_t \<times> uint8_t \<times> 's world" where
  "lis3de_act_timeout_get ctx act_dur w =
     (case read_struct ctx LIS3DE_ACT_DUR act_dur w of
        (ret, act_dur, w) \<Rightarrow> (ret, field_get act_dur_actd act_dur, w))"

subsection \<open>Serial interface\<close>

definition lis3de_spi_mode_set ::
  "'s stmdev_ctx_t \<Rightarrow> lis3de_sim_t \<Rightarrow> uint8_t \<Rightarrow> 's world \<Rightarrow> int32_t \<times> 's world" where
  "lis3de_spi_mode_set ctx val ctrl_reg4 w =
     (case read_struct ctx LIS3DE_CTRL_REG4 ctrl_reg4 w of
        (ret, ctrl_reg4, w) \<Rightarrow>
          if ret = 0 then write_struct ctx LIS3DE_CTRL_REG4 (field_set ctrl_reg4_sim ctrl_reg4 (sim_code val)) w
          else (ret, w))"

definition lis3de_spi_mode_get ::
  "'s stmdev_ctx_t \<Rightarrow> uint8_t \<Rightarrow> 's world \<Rightarrow> int32_t \<times> lis3de_sim_t \<times> 's world" where
  "lis3de_spi_mode_get ctx ctrl_reg4 w =
     (case read_struct ctx LIS3DE_CTRL_REG4 ctrl_reg4 w of
        (ret, ctrl_reg4, w) \<Rightarrow>
          (ret,
           if field_get ctrl_reg4_sim ctrl_reg4 = sim_code LIS3DE_SPI_4_WIRE then LIS3DE_SPI_4_WIRE
           else if field_get ctrl_reg4_sim ctrl_reg4 = sim_code LIS3DE_SPI_3_WIRE then LIS3DE_SPI_3_WIRE
           else LIS3DE_SPI_4_WIRE,
           w))"

section \<open>The calls a client can make\<close>

text \<open>
  To speak about every accessor at once, a call of the interface is a value: the
  constructor names the function and carries its arguments. \<open>u\<close> gives the content
  of the uninitialised local variables the call starts with (\<open>u 0\<close> for the called
  function's own variable, \<open>u 1\<close> for the one of a function it calls in turn).
\<close>

subsection \<open>Read-modify-write setters\<close>

datatype setter_call =
    Aux_adc_set lis3de_temp_en_t
  | Operating_mode_set lis3de_op_md_t
  | Data_rate_set lis3de_odr_t
  | High_pass_on_outputs_set uint8_t
  | High_pass_bandwidth_set lis3de_hpcf_t
  | High_pass_mode_set lis3de_hpm_t
  | Full_scale_set lis3de_fs_t
  | Block_data_update_set uint8_t
  | Self_test_set lis3de_st_t
  | Boot_set uint8_t
  | Int1_gen_threshold_set uint8_t
  | Int1_gen_duration_set uint8_t
  | Int2_gen_threshold_set uint8_t
  | Int2_gen_duration_set uint8_t
  | High_pass_int_conf_set lis3de_hp_t
  | Int2_pin_detect_4d_set uint8_t
  | Int2_pin_notification_mode_set lis3de_lir_int2_t
  | Int1_pin_detect_4d_set uint8_t
  | Int1_pin_notification_mode_set lis3de_lir_int1_t
  | Fifo_set uint8_t
  | Fifo_watermark_set uint8_t
  | Fifo_trigger_event_set lis3de_tr_t
  | Fifo_mode_set lis3de_fm_t
  | Tap_threshold_set uint8_t
  | Tap_notification_mode_set lis3de_lir_t
  | Shock_dur_set uint8_t
  | Quiet_dur_set uint8_t
  | Double_tap_timeout_set uint8_t
  | Act_threshold_set uint8_t
  | Act_timeout_set uint8_t
  | Spi_mode_set lis3de_sim_t

fun run_setter ::
  "'s stmdev_ctx_t \<Rightarrow> setter_call \<Rightarrow> (nat \<Rightarrow> uint8_t) \<Rightarrow> 's world \<Rightarrow> int32_t \<times> 's world" where
  "run_setter ctx (Aux_adc_set val) u w = lis3de_aux_adc_set ctx val (u 0) (u 1) w"
| "run_setter ctx (Operating_mode_set val) u w = lis3de_operating_mode_set ctx val (u 0) w"
| "run_setter ctx (Data_rate_set val) u w = lis3de_data_rate_set ctx val (u 0) w"
| "run_setter ctx (High_pass_on_outputs_set val) u w = lis3de_high_pass_on_outputs_set ctx val (u 0) w"
| "run_setter ctx (High_pass_bandwidth_set val) u w = lis3de_high_pass_bandwidth_set ctx val (u 0) w"
| "run_setter ctx (High_pass_mode_set val) u w = lis3de_high_pass_mode_set ctx val (u 0) w"
| "run_setter ctx (Full_scale_set val) u w = lis3de_full_scale_set ctx val (u 0) w"
| "run_setter ctx (Block_data_update_set val) u w = lis3de_block_data_update_set ctx val (u 0) w"
| "run_setter ctx (Self_test_set val) u w = lis3de_self_test_set ctx val (u 0) w"
| "run_setter ctx (Boot_set val) u w = lis3de_boot_set ctx val (u 0) w"
| "run_setter ctx (Int1_gen_threshold_set val) u w = lis3de_int1_gen_threshold_set ctx val (u 0) w"
| "run_setter ctx (Int1_gen_duration_set val) u w = lis3de_int1_gen_duration_set ctx val (u 0) w"
| "run_setter ctx (Int2_gen_threshold_set val) u w = lis3de_int2_gen_threshold_set ctx val (u 0) w"
| "run_setter ctx (Int2_gen_duration_set val) u w = lis3de_int2_gen_duration_set ctx val (u 0) w"
| "run_setter ctx (High_pass_int_conf_set val) u w = lis3de_high_pass_int_conf_set ctx val (u 0) w"
| "run_setter ctx (Int2_pin_detect_4d_set val) u w = lis3de_int2_pin_detect_4d_set ctx val (u 0) w"
| "run_setter ctx (Int2_pin_notification_mode_set val) u w = lis3de_int2_pin_notification_mode_set ctx val (u 0) w"
| "run_setter ctx (Int1_pin_detect_4d_set val) u w = lis3de_int1_pin_detect_4d_set ctx val (u 0) w"
| "run_setter ctx (Int1_pin_notification_mode_set val) u w = lis3de_int1_pin_notification_mode_set ctx val (u 0) w"
| "run_setter ctx (Fifo_set val) u w = lis3de_fifo_set ctx val (u 0) w"
| "run_setter ctx (Fifo_watermark_set val) u w = lis3de_fifo_watermark_set ctx val (u 0) w"
| "run_setter ctx (Fifo_trigger_event_set val) u w = lis3de_fifo_trigger_event_set ctx val (u 0) w"
| "run_setter ctx (Fifo_mode_set val) u w = lis3de_fifo_mode_set ctx val (u 0) w"
| "run_setter ctx (Tap_threshold_set val) u w = lis3de_tap_threshold_set ctx val (u 0) w"
| "run_setter ctx (Tap_notification_mode_set val) u w = lis3de_tap_notification_mode_set ctx val (u 0) w"
| "run_setter ctx (Shock_dur_set val) u w = lis3de_shock_dur_set ctx val (u 0) w"
| "run_setter ctx (Quiet_dur_set val) u w = lis3de_quiet_dur_set ctx val (u 0) w"
| "run_setter ctx (Double_tap_timeout_set val) u w = lis3de_double_tap_timeout_set ctx val (u 0) w"
| "run_setter ctx (Act_threshold_set val) u w = lis3de_act_threshold_set ctx val (u 0) w"
| "run_setter ctx (Act_timeout_set val) u w = lis3de_act_timeout_set ctx val (u 0) w"
| "run_setter ctx (Spi_mode_set val) u w = lis3de_spi_mode_set ctx val (u 0) w"

text \<open>The register a setter reads first and writes back.\<close>

fun setter_reg :: "setter_call \<Rightarrow> lis3de_reg" where
  "setter_reg (Aux_adc_set val) = LIS3DE_TEMP_CFG_REG"
| "setter_reg (Operating_mode_set val) = LIS3DE_CTRL_REG1"
| "setter_reg (Data_rate_set val) = LIS3DE_CTRL_REG1"
| "setter_reg (High_pass_on_outputs_set val) = LIS3DE_CTRL_REG2"
| "setter_reg (High_pass_bandwidth_set val) = LIS3DE_CTRL_REG2"
| "setter_reg (High_pass_mode_set val) = LIS3DE_CTRL_REG2"
| "setter_reg (Full_scale_set val) = LIS3DE_CTRL_REG4"
| "setter_reg (Block_data_update_set val) = LIS3DE_CTRL_REG4"
| "setter_reg (Self_test_set val) = LIS3DE_CTRL_REG4"
| "setter_reg (Boot_set val) = LIS3DE_CTRL_REG5"
| "setter_reg (Int1_gen_threshold_set val) = LIS3DE_IG1_THS"
| "setter_reg (Int1_gen_duration_set val) = LIS3DE_IG1_DURATION"
| "setter_reg (Int2_gen_threshold_set val) = LIS3DE_IG2_THS"
| "setter_reg (Int2_gen_duration_set val) = LIS3DE_IG2_DURATION"
| "setter_reg (High_pass_int_conf_set val) = LIS3DE_CTRL_REG2"
| "setter_reg (Int2_pin_detect_4d_set val) = LIS3DE_CTRL_REG5"
| "setter_reg (Int2_pin_notification_mode_set val) = LIS3DE_CTRL_REG5"
| "setter_reg (Int1_pin_detect_4d_set val) = LIS3DE_CTRL_REG5"
| "setter_reg (Int1_pin_notification_mode_set val) = LIS3DE_CTRL_REG5"
| "setter_reg (Fifo_set val) = LIS3DE_CTRL_REG5"
| "setter_reg (Fifo_watermark_set val) = LIS3DE_FIFO_CTRL_REG"
| "setter_reg (Fifo_trigger_event_set val) = LIS3DE_FIFO_CTRL_REG"
| "setter_reg (Fifo_mode_set val) = LIS3DE_FIFO_CTRL_REG"
| "setter_reg (Tap_threshold_set val) = LIS3DE_CLICK_THS"
| "setter_reg (Tap_notification_mode_set val) = LIS3DE_CLICK_THS"
| "setter_reg (Shock_dur_set val) = LIS3DE_TIME_LIMIT"
| "setter_reg (Quiet_dur_set val) = LIS3DE_TIME_LATENCY"
| "setter_reg (Double_tap_timeout_set val) = LIS3DE_TIME_WINDOW"
| "setter_reg (Act_threshold_set val) = LIS3DE_ACT_THS"
| "setter_reg (Act_timeout_set val) = LIS3DE_ACT_DUR"
| "setter_reg (Spi_mode_set val) = LIS3DE_CTRL_REG4"

text \<open>The bits of that register the setter is meant to change: the mask of its bit-field
  (of both its bit-fields for the auxiliary ADC).\<close>

fun setter_mask :: "setter_call \<Rightarrow> uint8_t" where
  "setter_mask (Aux_adc_set val) = field_mask temp_cfg_reg_temp_en OR field_mask temp_cfg_reg_adc_pd"
| "setter_mask (Operating_mode_set val) = field_mask ctrl_reg1_lpen"
| "setter_mask (Data_rate_set val) = field_mask ctrl_reg1_odr"
| "setter_mask (High_pass_on_outputs_set val) = field_mask ctrl_reg2_fds"
| "setter_mask (High_pass_bandwidth_set val) = field_mask ctrl_reg2_hpcf"
| "setter_mask (High_pass_mode_set val) = field_mask ctrl_reg2_hpm"
| "setter_mask (Full_scale_set val) = field_mask ctrl_reg4_fs"
| "setter_mask (Block_data_update_set val) = field_mask ctrl_reg4_bdu"
| "setter_mask (Self_test_set val) = field_mask ctrl_reg4_st"
| "setter_mask (Boot_set val) = field_mask ctrl_reg5_boot"
| "setter_mask (Int1_gen_threshold_set val) = field_mask ig1_ths_ths"
| "setter_mask (Int1_gen_duration_set val) = field_mask ig1_duration_d"
| "setter_mask (Int2_gen_threshold_set val) = field_mask ig2_ths_ths"
| "setter_mask (Int2_gen_duration_set val) = field_mask ig2_duration_d"
| "setter_mask (High_pass_int_conf_set val) = field_mask ctrl_reg2_hp"
| "setter_mask (Int2_pin_detect_4d_set val) = field_mask ctrl_reg5_d4d_ig2"
| "setter_mask (Int2_pin_notification_mode_set val) = field_mask ctrl_reg5_lir_ig2"
| "setter_mask (Int1_pin_detect_4d_set val) = field_mask ctrl_reg5_d4d_ig1"
| "setter_mask (Int1_pin_notification_mode_set val) = field_mask ctrl_reg5_lir_ig1"
| "setter_mask (Fifo_set val) = field_mask ctrl_reg5_fifo_en"
| "setter_mask (Fifo_watermark_set val) = field_mask fifo_ctrl_reg_fth"
| "setter_mask (Fifo_trigger_event_set val) = field_mask fifo_ctrl_reg_tr"
| "setter_mask (Fifo_mode_set val) = field_mask fifo_ctrl_reg_fm"
| "setter_mask (Tap_threshold_set val) = field_mask click_ths_ths"
| "setter_mask (Tap_notification_mode_set val) = field_mask click_ths_lir"
| "setter_mask (Shock_dur_set val) = field_mask time_limit_tli"
| "setter_mask (Quiet_dur_set val) = field_mask time_latency_tla"
| "setter_mask (Double_tap_timeout_set val) = field_mask time_window_tw"
| "setter_mask (Act_threshold_set val) = field_mask act_ths_acth"
| "setter_mask (Act_timeout_set val) = field_mask act_dur_actd"
| "setter_mask (Spi_mode_set val) = field_mask ctrl_reg4_sim"

subsection \<open>Whole-register writes\<close>

datatype write_call =
    Filter_reference_set "uint8_t list"
  | Int1_gen_conf_set "uint8_t"
  | Int2_gen_conf_set "uint8_t"
  | Pin_int1_config_set "uint8_t"
  | Pin_int2_config_set "uint8_t"
  | Tap_conf_set "uint8_t"

fun run_write :: "'s stmdev_ctx_t \<Rightarrow> write_call \<Rightarrow> 's world \<Rightarrow> int32_t \<times> 's world" where
  "run_write ctx (Filter_reference_set val) w = lis3de_filter_reference_set ctx val w"
| "run_write ctx (Int1_gen_conf_set val) w = lis3de_int1_gen_conf_set ctx val w"
| "run_write ctx (Int2_gen_conf_set val) w = lis3de_int2_gen_conf_set ctx val w"
| "run_write ctx (Pin_int1_config_set val) w = lis3de_pin_int1_config_set ctx val w"
| "run_write ctx (Pin_int2_config_set val) w = lis3de_pin_int2_config_set ctx val w"
| "run_write ctx (Tap_conf_set val) w = lis3de_tap_conf_set ctx val w"

subsection \<open>Getters\<close>

text \<open>Getters of a whole register or buffer, and the two multi-sample reads.\<close>

datatype reg_getter_call =
    Adc_raw_get "int16_t list"
  | Acceleration_raw_get "int16_t list"
  | Temp_status_reg_get "uint8_t list"
  | Temperature_raw_get "uint8_t list"
  | Filter_reference_get "uint8_t list"
  | Device_id_get "uint8_t list"
  | Status_get "uint8_t"
  | Int1_gen_conf_get "uint8_t"
  | Int1_gen_source_get "uint8_t"
  | Int2_gen_conf_get "uint8_t"
  | Int2_gen_source_get "uint8_t"
  | Pin_int1_config_get "uint8_t"
  | Pin_int2_config_get "uint8_t"
  | Fifo_status_get "uint8_t"
  | Tap_conf_get "uint8_t"
  | Tap_source_get "uint8_t"

definition status_world :: "int32_t \<times> 'a \<times> 's world \<Rightarrow> int32_t \<times> 's world" where
  "status_world r = (case r of (ret, val, w) \<Rightarrow> (ret, w))"

fun run_reg_getter ::
  "'s stmdev_ctx_t \<Rightarrow> reg_getter_call \<Rightarrow> (nat \<Rightarrow> uint8_t) \<Rightarrow> 's world \<Rightarrow> int32_t \<times> 's world" where
  "run_reg_getter ctx (Adc_raw_get val) u w = status_world (lis3de_adc_raw_get ctx val u w)"
| "run_reg_getter ctx (Acceleration_raw_get buff) u w =
     status_world (lis3de_acceleration_raw_get ctx buff (u 0) w)"
| "run_reg_getter ctx (Temp_status_reg_get val) u w = status_world (lis3de_temp_status_reg_get ctx val w)"
| "run_reg_getter ctx (Temperature_raw_get val) u w = status_world (lis3de_temperature_raw_get ctx val w)"
| "run_reg_getter ctx (Filter_reference_get val) u w = status_world (lis3de_filter_reference_get ctx val w)"
| "run_reg_getter ctx (Device_id_get val) u w = status_world (lis3de_device_id_get ctx val w)"
| "run_reg_getter ctx (Status_get val) u w = status_world (lis3de_status_get ctx val w)"
| "run_reg_getter ctx (Int1_gen_conf_get val) u w = status_world (lis3de_int1_gen_conf_get ctx val w)"
| "run_reg_getter ctx (Int1_gen_source_get val) u w = status_world (lis3de_int1_gen_source_get ctx val w)"
| "run_reg_getter ctx (Int2_gen_conf_get val) u w = status_world (lis3de_int2_gen_conf_get ctx val w)"
| "run_reg_getter ctx (Int2_gen_source_get val) u w = status_world (lis3de_int2_gen_source_get ctx val w)"
| "run_reg_getter ctx (Pin_int1_config_get val) u w = status_world (lis3de_pin_int1_config_get ctx val w)"
| "run_reg_getter ctx (Pin_int2_config_get val) u w = status_world (lis3de_pin_int2_config_get ctx val w)"
| "run_reg_getter ctx (Fifo_status_get val) u w = status_world (lis3de_fifo_status_get ctx val w)"
| "run_reg_getter ctx (Tap_conf_get val) u w = status_world (lis3de_tap_conf_get ctx val w)"
| "run_reg_getter ctx (Tap_source_get val) u w = status_world (lis3de_tap_source_get ctx val w)"

text \<open>Getters of a bit-field returned as a number.\<close>

datatype field_getter_call =
    Temp_data_ready_get
  | Temp_data_ovr_get
  | High_pass_on_outputs_get
  | Block_data_update_get
  | Xl_data_ready_get
  | Xl_data_ovr_get
  | Boot_get
  | Int1_gen_threshold_get
  | Int1_gen_duration_get
  | Int2_gen_threshold_get
  | Int2_gen_duration_get
  | Int2_pin_detect_4d_get
  | Int1_pin_detect_4d_get
  | Fifo_get
  | Fifo_watermark_get
  | Fifo_data_level_get
  | Fifo_empty_flag_get
  | Fifo_ovr_flag_get
  | Fifo_fth_flag_get
  | Tap_threshold_get
  | Shock_dur_get
  | Quiet_dur_get
  | Double_tap_timeout_get
  | Act_threshold_get
  | Act_timeout_get

fun run_field_getter ::
  "'s stmdev_ctx_t \<Rightarrow> field_getter_call \<Rightarrow> uint8_t \<Rightarrow> 's world \<Rightarrow> int32_t \<times> uint8_t \<times> 's world" where
  "run_field_getter ctx Temp_data_ready_get x w = lis3de_temp_data_ready_get ctx x w"
| "run_field_getter ctx Temp_data_ovr_get x w = lis3de_temp_data_ovr_get ctx x w"
| "run_field_getter ctx High_pass_on_outputs_get x w = lis3de_high_pass_on_outputs_get ctx x w"
| "run_field_getter ctx Block_data_update_get x w = lis3de_block_data_update_get ctx x w"
| "run_field_getter ctx Xl_data_ready_get x w = lis3de_xl_data_ready_get ctx x w"
| "run_field_getter ctx Xl_data_ovr_get x w = lis3de_xl_data_ovr_get ctx x w"
| "run_field_getter ctx Boot_get x w = lis3de_boot_get ctx x w"
| "run_field_getter ctx Int1_gen_threshold_get x w = lis3de_int1_gen_threshold_get ctx x w"
| "run_field_getter ctx Int1_gen_duration_get x w = lis3de_int1_gen_duration_get ctx x w"
| "run_field_getter ctx Int2_gen_threshold_get x w = lis3de_int2_gen_threshold_get ctx x w"
| "run_field_getter ctx Int2_gen_duration_get x w = lis3de_int2_gen_duration_get ctx x w"
| "run_field_getter ctx Int2_pin_detect_4d_get x w = lis3de_int2_pin_detect_4d_get ctx x w"
| "run_field_getter ctx Int1_pin_detect_4d_get x w = lis3de_int1_pin_detect_4d_get ctx x w"
| "run_field_getter ctx Fifo_get x w = lis3de_fifo_get ctx x w"
| "run_field_getter ctx Fifo_watermark_get x w = lis3de_fifo_watermark_get ctx x w"
| "run_field_getter ctx Fifo_data_level_get x w = lis3de_fifo_data_level_get ctx x w"
| "run_field_getter ctx Fifo_empty_flag_get x w = lis3de_fifo_empty_flag_get ctx x w"
| "run_field_getter ctx Fifo_ovr_flag_get x w = lis3de_fifo_ovr_flag_get ctx x w"
| "run_field_getter ctx Fifo_fth_flag_get x w = lis3de_fifo_fth_flag_get ctx x w"
| "run_field_getter ctx Tap_threshold_get x w = lis3de_tap_threshold_get ctx x w"
| "run_field_getter ctx Shock_dur_get x w = lis3de_shock_dur_get ctx x w"
| "run_field_getter ctx Quiet_dur_get x w = lis3de_quiet_dur_get ctx x w"
| "run_field_getter ctx Double_tap_timeout_get x w = lis3de_double_tap_timeout_get ctx x w"
| "run_field_getter ctx Act_threshold_get x w = lis3de_act_threshold_get ctx x w"
| "run_field_getter ctx Act_timeout_get x w = lis3de_act_timeout_get ctx x w"

text \<open>
  Getters of an enumerated setting. Their results are of different enumerations; a
  tagged value holds any of them.
\<close>

datatype enum_val =
    Temp_en lis3de_temp_en_t
  | Op_md lis3de_op_md_t
  | Odr lis3de_odr_t
  | Hpcf lis3de_hpcf_t
  | Hpm lis3de_hpm_t
  | Fs lis3de_fs_t
  | St lis3de_st_t
  | Hp lis3de_hp_t
  | Lir_int2 lis3de_lir_int2_t
  | Lir_int1 lis3de_lir_int1_t
  | Tr lis3de_tr_t
  | Fm lis3de_fm_t
  | Lir lis3de_lir_t
  | Sim lis3de_sim_t

fun val_code :: "enum_val \<Rightarrow> uint8_t" where
  "val_code (Temp_en v) = temp_en_code v"
| "val_code (Op_md v) = op_md_code v"
| "val_code (Odr v) = odr_code v"
| "val_code (Hpcf v) = hpcf_code v"
| "val_code (Hpm v) = hpm_code v"
| "val_code (Fs v) = fs_code v"
| "val_code (St v) = st_code v"
| "val_code (Hp v) = hp_code v"
| "val_code (Lir_int2 v) = lir_int2_code v"
| "val_code (Lir_int1 v) = lir_int1_code v"
| "val_code (Tr v) = tr_code v"
| "val_code (Fm v) = fm_code v"
| "val_code (Lir v) = lir_code v"
| "val_code (Sim v) = sim_code v"

datatype enum_getter_call =
    Aux_adc_get lis3de_temp_en_t
  | Operating_mode_get lis3de_op_md_t
  | Data_rate_get
  | High_pass_bandwidth_get
  | High_pass_mode_get
  | Full_scale_get
  | Self_test_get
  | High_pass_int_conf_get
  | Int2_pin_notification_mode_get
  | Int1_pin_notification_mode_get
  | Fifo_trigger_event_get
  | Fifo_mode_get
  | Tap_notification_mode_get
  | Spi_mode_get

fun run_enum_getter ::
  "'s stmdev_ctx_t \<Rightarrow> enum_getter_call \<Rightarrow> uint8_t \<Rightarrow> 's world \<Rightarrow> int32_t \<times> enum_val \<times> 's world" where
  "run_enum_getter ctx (Aux_adc_get val) x w =
     (case lis3de_aux_adc_get ctx val x w of (ret, v, w') \<Rightarrow> (ret, Temp_en v, w'))"
| "run_enum_getter ctx (Operating_mode_get val) x w =
     (case lis3de_operating_mode_get ctx val x w of (ret, v, w') \<Rightarrow> (ret, Op_md v, w'))"
| "run_enum_getter ctx Data_rate_get x w =
     (case lis3de_data_rate_get ctx x w of (ret, v, w') \<Rightarrow> (ret, Odr v, w'))"
| "run_enum_getter ctx High_pass_bandwidth_get x w =
     (case lis3de_high_pass_bandwidth_get ctx x w of (ret, v, w') \<Rightarrow> (ret, Hpcf v, w'))"
| "run_enum_getter ctx High_pass_mode_get x w =
     (case lis3de_high_pass_mode_get ctx x w of (ret, v, w') \<Rightarrow> (ret, Hpm v, w'))"
| "run_enum_getter ctx Full_scale_get x w =
     (case lis3de_full_scale_get ctx x w of (ret, v, w') \<Rightarrow> (ret, Fs v, w'))"
| "run_enum_getter ctx Self_test_get x w =
     (case lis3de_self_test_get ctx x w of (ret, v, w') \<Rightarrow> (ret, St v, w'))"
| "run_enum_getter ctx High_pass_int_conf_get x w =
     (case lis3de_high_pass_int_conf_get ctx x w of (ret, v, w') \<Rightarrow> (ret, Hp v, w'))"
| "run_enum_getter ctx Int2_pin_notification_mode_get x w =
     (case lis3de_int2_pin_notification_mode_get ctx x w of (ret, v, w') \<Rightarrow> (ret, Lir_int2 v, w'))"
| "run_enum_getter ctx Int1_pin_notification_mode_get x w =
     (case lis3de_int1_pin_notification_mode_get ctx x w of (ret, v, w') \<Rightarrow> (ret, Lir_int1 v, w'))"
| "run_enum_getter ctx Fifo_trigger_event_get x w =
     (case lis3de_fifo_trigger_event_get ctx x w of (ret, v, w') \<Rightarrow> (ret, Tr v, w'))"
| "run_enum_getter ctx Fifo_mode_get x w =
     (case lis3de_fifo_mode_get ctx x w of (ret, v, w') \<Rightarrow> (ret, Fm v, w'))"
| "run_enum_getter ctx Tap_notification_mode_get x w =
     (case lis3de_tap_notification_mode_get ctx x w of (ret, v, w') \<Rightarrow> (ret, Lir v, w'))"
| "run_enum_getter ctx Spi_mode_get x w =
     (case lis3de_spi_mode_get ctx x w of (ret, v, w') \<Rightarrow> (ret, Sim v, w'))"

text \<open>The register an enumerated getter reads.\<close>

fun enum_getter_reg :: "enum_getter_call \<Rightarrow> lis3de_reg" where
  "enum_getter_reg (Aux_adc_get val) = LIS3DE_TEMP_CFG_REG"
| "enum_getter_reg (Operating_mode_get val) = LIS3DE_CTRL_REG1"
| "enum_getter_reg Data_rate_get = LIS3DE_CTRL_REG1"
| "enum_getter_reg High_pass_bandwidth_get = LIS3DE_CTRL_REG2"
| "enum_getter_reg High_pass_mode_get = LIS3DE_CTRL_REG2"
| "enum_getter_reg Full_scale_get = LIS3DE_CTRL_REG4"
| "enum_getter_reg Self_test_get = LIS3DE_CTRL_REG4"
| "enum_getter_reg High_pass_int_conf_get = LIS3DE_CTRL_REG2"
| "enum_getter_reg Int2_pin_notification_mode_get = LIS3DE_CTRL_REG5"
| "enum_getter_reg Int1_pin_notification_mode_get = LIS3DE_CTRL_REG5"
| "enum_getter_reg Fifo_trigger_event_get = LIS3DE_FIFO_CTRL_REG"
| "enum_getter_reg Fifo_mode_get = LIS3DE_FIFO_CTRL_REG"
| "enum_getter_reg Tap_notification_mode_get = LIS3DE_CLICK_THS"
| "enum_getter_reg Spi_mode_get = LIS3DE_CTRL_REG4"

text \<open>
  The code on the wire: the content of the setting's bit-field in the register byte. The
  auxiliary-ADC setting is spread over the two bits \<open>temp_en\<close> and \<open>adc_pd\<close>, which
  the setter fills from bit 1 and bit 0 of the code.
\<close>

fun wire_code :: "enum_getter_call \<Rightarrow> uint8_t \<Rightarrow> uint8_t" where
  "wire_code (Aux_adc_get val) b =
     push_bit 1 (field_get temp_cfg_reg_temp_en b) OR field_get temp_cfg_reg_adc_pd b"
| "wire_code (Operating_mode_get val) b = field_get ctrl_reg1_lpen b"
| "wire_code Data_rate_get b = field_get ctrl_reg1_odr b"
| "wire_code High_pass_bandwidth_get b = field_get ctrl_reg2_hpcf b"
| "wire_code High_pass_mode_get b = field_get ctrl_reg2_hpm b"
| "wire_code Full_scale_get b = field_get ctrl_reg4_fs b"
| "wire_code Self_test_get b = field_get ctrl_reg4_st b"
| "wire_code High_pass_int_conf_get b = field_get ctrl_reg2_hp b"
| "wire_code Int2_pin_notification_mode_get b = field_get ctrl_reg5_lir_ig2 b"
| "wire_code Int1_pin_notification_mode_get b = field_get ctrl_reg5_lir_ig1 b"
| "wire_code Fifo_trigger_event_get b = field_get fifo_ctrl_reg_tr b"
| "wire_code Fifo_mode_get b = field_get fifo_ctrl_reg_fm b"
| "wire_code Tap_notification_mode_get b = field_get click_ths_lir b"
| "wire_code Spi_mode_get b = field_get ctrl_reg4_sim b"

text \<open>The enumerators of the setting a getter decodes: the known codes are theirs.\<close>

fun enumerators :: "enum_getter_call \<Rightarrow> enum_val list" where
  "enumerators (Aux_adc_get val) =
     [Temp_en LIS3DE_AUX_DISABLE, Temp_en LIS3DE_AUX_ON_TEMPERATURE, Temp_en LIS3DE_AUX_ON_PADS]"
| "enumerators (Operating_mode_get val) = [Op_md LIS3DE_NM, Op_md LIS3DE_LP]"
| "enumerators Data_rate_get =
     [Odr LIS3DE_POWER_DOWN, Odr LIS3DE_ODR_1Hz, Odr LIS3DE_ODR_10Hz, Odr LIS3DE_ODR_25Hz, Odr LIS3DE_ODR_50Hz, Odr LIS3DE_ODR_100Hz, Odr LIS3DE_ODR_200Hz, Odr LIS3DE_ODR_400Hz, Odr LIS3DE_ODR_1kHz6, Odr LIS3DE_ODR_5kHz376_LP_1kHz344_NM]"
| "enumerators High_pass_bandwidth_get =
     [Hpcf LIS3DE_AGGRESSIVE, Hpcf LIS3DE_STRONG, Hpcf LIS3DE_MEDIUM, Hpcf LIS3DE_LIGHT]"
| "enumerators High_pass_mode_get =
     [Hpm LIS3DE_NORMAL_WITH_RST, Hpm LIS3DE_REFERENCE_MODE, Hpm LIS3DE_NORMAL, Hpm LIS3DE_AUTORST_ON_INT]"
| "enumerators Full_scale_get =
     [Fs LIS3DE_2g, Fs LIS3DE_4g, Fs LIS3DE_8g, Fs LIS3DE_16g]"
| "enumerators Self_test_get =
     [St LIS3DE_ST_DISABLE, St LIS3DE_ST_POSITIVE, St LIS3DE_ST_NEGATIVE]"
| "enumerators High_pass_int_conf_get =
     [Hp LIS3DE_DISC_FROM_INT_GENERATOR, Hp LIS3DE_ON_INT1_GEN, Hp LIS3DE_ON_INT2_GEN, Hp LIS3DE_ON_TAP_GEN, Hp LIS3DE_ON_INT1_INT2_GEN, Hp LIS3DE_ON_INT1_TAP_GEN, Hp LIS3DE_ON_INT2_TAP_GEN, Hp LIS3DE_ON_INT1_INT2_TAP_GEN]"
| "enumerators Int2_pin_notification_mode_get =
     [Lir_int2 LIS3DE_INT2_PULSED, Lir_int2 LIS3DE_INT2_LATCHED]"
| "enumerators Int1_pin_notification_mode_get =
     [Lir_int1 LIS3DE_INT1_PULSED, Lir_int1 LIS3DE_INT1_LATCHED]"
| "enumerators Fifo_trigger_event_get =
     [Tr LIS3DE_INT1_GEN, Tr LIS3DE_INT2_GEN]"
| "enumerators Fifo_mode_get =
     [Fm LIS3DE_BYPASS_MODE, Fm LIS3DE_FIFO_MODE, Fm LIS3DE_DYNAMIC_STREAM_MODE, Fm LIS3DE_STREAM_TO_FIFO_MODE]"
| "enumerators Tap_notification_mode_get =
     [Lir LIS3DE_TAP_PULSED, Lir LIS3DE_TAP_LATCHED]"
| "enumerators Spi_mode_get =
     [Sim LIS3DE_SPI_4_WIRE, Sim LIS3DE_SPI_3_WIRE]"

text \<open>The value a getter falls back to.\<close>

fun default_val :: "enum_getter_call \<Rightarrow> enum_val" where
  "default_val (Aux_adc_get val) = Temp_en LIS3DE_AUX_DISABLE"
| "default_val (Operating_mode_get val) = Op_md LIS3DE_NM"
| "default_val Data_rate_get = Odr LIS3DE_POWER_DOWN"
| "default_val High_pass_bandwidth_get = Hpcf LIS3DE_LIGHT"
| "default_val High_pass_mode_get = Hpm LIS3DE_NORMAL_WITH_RST"
| "default_val Full_scale_get = Fs LIS3DE_2g"
| "default_val Self_test_get = St LIS3DE_ST_DISABLE"
| "default_val High_pass_int_conf_get = Hp LIS3DE_DISC_FROM_INT_GENERATOR"
| "default_val Int2_pin_notification_mode_get = Lir_int2 LIS3DE_INT2_PULSED"
| "default_val Int1_pin_notification_mode_get = Lir_int1 LIS3DE_INT1_PULSED"
| "default_val Fifo_trigger_event_get = Tr LIS3DE_INT1_GEN"
| "default_val Fifo_mode_get = Fm LIS3DE_BYPASS_MODE"
| "default_val Tap_notification_mode_get = Lir LIS3DE_TAP_PULSED"
| "default_val Spi_mode_get = Sim LIS3DE_SPI_4_WIRE"

subsection \<open>Any accessor\<close>

datatype accessor_call =
    Setter setter_call
  | Direct_write write_call
  | Reg_getter reg_getter_call
  | Field_getter field_getter_call
  | Enum_getter enum_getter_call

text \<open>The state of the world after a call, with the status returned.\<close>

fun run_accessor ::
  "'s stmdev_ctx_t \<Rightarrow> accessor_call \<Rightarrow> (nat \<Rightarrow> uint8_t) \<Rightarrow> 's world \<Rightarrow> int32_t \<times> 's world" where
  "run_accessor ctx (Setter c) u w = run_setter ctx c u w"
| "run_accessor ctx (Direct_write c) u w = run_write ctx c w"
| "run_accessor ctx (Reg_getter c) u w = run_reg_getter ctx c u w"
| "run_accessor ctx (Field_getter c) u w = status_world (run_field_getter ctx c (u 0) w)"
| "run_accessor ctx (Enum_getter c) u w = status_world (run_enum_getter ctx c (u 0) w)"

text \<open>The transport calls made during a call: what it added to the record.\<close>

definition issued :: "'s world \<Rightarrow> 's world \<Rightarrow> event list" where
  "issued w w' = drop (length (trace w)) (trace w')"

section \<open>Setting and reading back\<close>

text \<open>
  Each setter has a getter of the same setting. What is read back is a number or an
  enumerator; a number assigned to a bit-field is legal when it fits the width of the
  field, every enumerator is legal.
\<close>

datatype readback_val = Symbol enum_val | Number uint8_t

fun given_val :: "setter_call \<Rightarrow> readback_val" where
  "given_val (Aux_adc_set val) = Symbol (Temp_en val)"
| "given_val (Operating_mode_set val) = Symbol (Op_md val)"
| "given_val (Data_rate_set val) = Symbol (Odr val)"
| "given_val (High_pass_on_outputs_set val) = Number val"
| "given_val (High_pass_bandwidth_set val) = Symbol (Hpcf val)"
| "given_val (High_pass_mode_set val) = Symbol (Hpm val)"
| "given_val (Full_scale_set val) = Symbol (Fs val)"
| "given_val (Block_data_update_set val) = Number val"
| "given_val (Self_test_set val) = Symbol (St val)"
| "given_val (Boot_set val) = Number val"
| "given_val (Int1_gen_threshold_set val) = Number val"
| "given_val (Int1_gen_duration_set val) = Number val"
| "given_val (Int2_gen_threshold_set val) = Number val"
| "given_val (Int2_gen_duration_set val) = Number val"
| "given_val (High_pass_int_conf_set val) = Symbol (Hp val)"
| "given_val (Int2_pin_detect_4d_set val) = Number val"
| "given_val (Int2_pin_notification_mode_set val) = Symbol (Lir_int2 val)"
| "given_val (Int1_pin_detect_4d_set val) = Number val"
| "given_val (Int1_pin_notification_mode_set val) = Symbol (Lir_int1 val)"
| "given_val (Fifo_set val) = Number val"
| "given_val (Fifo_watermark_set val) = Number val"
| "given_val (Fifo_trigger_event_set val) = Symbol (Tr val)"
| "given_val (Fifo_mode_set val) = Symbol (Fm val)"
| "given_val (Tap_threshold_set val) = Number val"
| "given_val (Tap_notification_mode_set val) = Symbol (Lir val)"
| "given_val (Shock_dur_set val) = Number val"
| "given_val (Quiet_dur_set val) = Number val"
| "given_val (Double_tap_timeout_set val) = Number val"
| "given_val (Act_threshold_set val) = Number val"
| "given_val (Act_timeout_set val) = Number val"
| "given_val (Spi_mode_set val) = Symbol (Sim val)"

fun legal_val :: "setter_call \<Rightarrow> bool" where
  "legal_val (Aux_adc_set val) = True"
| "legal_val (Operating_mode_set val) = True"
| "legal_val (Data_rate_set val) = True"
| "legal_val (High_pass_on_outputs_set val) = (unat val < 2 ^ bf_len ctrl_reg2_fds)"
| "legal_val (High_pass_bandwidth_set val) = True"
| "legal_val (High_pass_mode_set val) = True"
| "legal_val (Full_scale_set val) = True"
| "legal_val (Block_data_update_set val) = (unat val < 2 ^ bf_len ctrl_reg4_bdu)"
| "legal_val (Self_test_set val) = True"
| "legal_val (Boot_set val) = (unat val < 2 ^ bf_len ctrl_reg5_boot)"
| "legal_val (Int1_gen_threshold_set val) = (unat val < 2 ^ bf_len ig1_ths_ths)"
| "legal_val (Int1_gen_duration_set val) = (unat val < 2 ^ bf_len ig1_duration_d)"
| "legal_val (Int2_gen_threshold_set val) = (unat val < 2 ^ bf_len ig2_ths_ths)"
| "legal_val (Int2_gen_duration_set val) = (unat val < 2 ^ bf_len ig2_duration_d)"
| "legal_val (High_pass_int_conf_set val) = True"
| "legal_val (Int2_pin_detect_4d_set val) = (unat val < 2 ^ bf_len ctrl_reg5_d4d_ig2)"
| "legal_val (Int2_pin_notification_mode_set val) = True"
| "legal_val (Int1_pin_detect_4d_set val) = (unat val < 2 ^ bf_len ctrl_reg5_d4d_ig1)"
| "legal_val (Int1_pin_notification_mode_set val) = True"
| "legal_val (Fifo_set val) = (unat val < 2 ^ bf_len ctrl_reg5_fifo_en)"
| "legal_val (Fifo_watermark_set val) = (unat val < 2 ^ bf_len fifo_ctrl_reg_fth)"
| "legal_val (Fifo_trigger_event_set val) = True"
| "legal_val (Fifo_mode_set val) = True"
| "legal_val (Tap_threshold_set val) = (unat val < 2 ^ bf_len click_ths_ths)"
| "legal_val (Tap_notification_mode_set val) = True"
| "legal_val (Shock_dur_set val) = (unat val < 2 ^ bf_len time_limit_tli)"
| "legal_val (Quiet_dur_set val) = (unat val < 2 ^ bf_len time_latency_tla)"
| "legal_val (Double_tap_timeout_set val) = (unat val < 2 ^ bf_len time_window_tw)"
| "legal_val (Act_threshold_set val) = (unat val < 2 ^ bf_len act_ths_acth)"
| "legal_val (Act_timeout_set val) = (unat val < 2 ^ bf_len act_dur_actd)"
| "legal_val (Spi_mode_set val) = True"

text \<open>The getter paired with a setter. The two getters that take the previous content of
  \<open>*val\<close> are given the first enumerator.\<close>

fun run_getter_of ::
  "'s stmdev_ctx_t \<Rightarrow> setter_call \<Rightarrow> uint8_t \<Rightarrow> 's world \<Rightarrow> int32_t \<times> readback_val \<times> 's world" where
  "run_getter_of ctx (Aux_adc_set val) x w =
     (case lis3de_aux_adc_get ctx LIS3DE_AUX_DISABLE x w of
        (ret, v, w') \<Rightarrow> (ret, Symbol (Temp_en v), w'))"
| "run_getter_of ctx (Operating_mode_set val) x w =
     (case lis3de_operating_mode_get ctx LIS3DE_NM x w of
        (ret, v, w') \<Rightarrow> (ret, Symbol (Op_md v), w'))"
| "run_getter_of ctx (Data_rate_set val) x w =
     (case lis3de_data_rate_get ctx x w of (ret, v, w') \<Rightarrow> (ret, Symbol (Odr v), w'))"
| "run_getter_of ctx (High_pass_on_outputs_set val) x w =
     (case lis3de_high_pass_on_outputs_get ctx x w of (ret, v, w') \<Rightarrow> (ret, Number v, w'))"
| "run_getter_of ctx (High_pass_bandwidth_set val) x w =
     (case lis3de_high_pass_bandwidth_get ctx x w of (ret, v, w') \<Rightarrow> (ret, Symbol (Hpcf v), w'))"
| "run_getter_of ctx (High_pass_mode_set val) x w =
     (case lis3de_high_pass_mode_get ctx x w of (ret, v, w') \<Rightarrow> (ret, Symbol (Hpm v), w'))"
| "run_getter_of ctx (Full_scale_set val) x w =
     (case lis3de_full_scale_get ctx x w of (ret, v, w') \<Rightarrow> (ret, Symbol (Fs v), w'))"
| "run_getter_of ctx (Block_data_update_set val) x w =
     (case lis3de_block_data_update_get ctx x w of (ret, v, w') \<Rightarrow> (ret, Number v, w'))"
| "run_getter_of ctx (Self_test_set val) x w =
     (case lis3de_self_test_get ctx x w of (ret, v, w') \<Rightarrow> (ret, Symbol (St v), w'))"
| "run_getter_of ctx (Boot_set val) x w =
     (case lis3de_boot_get ctx x w of (ret, v, w') \<Rightarrow> (ret, Number v, w'))"
| "run_getter_of ctx (Int1_gen_threshold_set val) x w =
     (case lis3de_int1_gen_threshold_get ctx x w of (ret, v, w') \<Rightarrow> (ret, Number v, w'))"
| "run_getter_of ctx (Int1_gen_duration_set val) x w =
     (case lis3de_int1_gen_duration_get ctx x w of (ret, v, w') \<Rightarrow> (ret, Number v, w'))"
| "run_getter_of ctx (Int2_gen_threshold_set val) x w =
     (case lis3de_int2_gen_threshold_get ctx x w of (ret, v, w') \<Rightarrow> (ret, Number v, w'))"
| "run_getter_of ctx (Int2_gen_duration_set val) x w =
     (case lis3de_int2_gen_duration_get ctx x w of (ret, v, w') \<Rightarrow> (ret, Number v, w'))"
| "run_getter_of ctx (High_pass_int_conf_set val) x w =
     (case lis3de_high_pass_int_conf_get ctx x w of (ret, v, w') \<Rightarrow> (ret, Symbol (Hp v), w'))"
| "run_getter_of ctx (Int2_pin_detect_4d_set val) x w =
     (case lis3de_int2_pin_detect_4d_get ctx x w of (ret, v, w') \<Rightarrow> (ret, Number v, w'))"
| "run_getter_of ctx (Int2_pin_notification_mode_set val) x w =
     (case lis3de_int2_pin_notification_mode_get ctx x w of (ret, v, w') \<Rightarrow> (ret, Symbol (Lir_int2 v), w'))"
| "run_getter_of ctx (Int1_pin_detect_4d_set val) x w =
     (case lis3de_int1_pin_detect_4d_get ctx x w of (ret, v, w') \<Rightarrow> (ret, Number v, w'))"
| "run_getter_of ctx (Int1_pin_notification_mode_set val) x w =
     (case lis3de_int1_pin_notification_mode_get ctx x w of (ret, v, w') \<Rightarrow> (ret, Symbol (Lir_int1 v), w'))"
| "run_getter_of ctx (Fifo_set val) x w =
     (case lis3de_fifo_get ctx x w of (ret, v, w') \<Rightarrow> (ret, Number v, w'))"
| "run_getter_of ctx (Fifo_watermark_set val) x w =
     (case lis3de_fifo_watermark_get ctx x w of (ret, v, w') \<Rightarrow> (ret, Number v, w'))"
| "run_getter_of ctx (Fifo_trigger_event_set val) x w =
     (case lis3de_fifo_trigger_event_get ctx x w of (ret, v, w') \<Rightarrow> (ret, Symbol (Tr v), w'))"
| "run_getter_of ctx (Fifo_mode_set val) x w =
     (case lis3de_fifo_mode_get ctx x w of (ret, v, w') \<Rightarrow> (ret, Symbol (Fm v), w'))"
| "run_getter_of ctx (Tap_threshold_set val) x w =
     (case lis3de_tap_threshold_get ctx x w of (ret, v, w') \<Rightarrow> (ret, Number v, w'))"
| "run_getter_of ctx (Tap_notification_mode_set val) x w =
     (case lis3de_tap_notification_mode_get ctx x w of (ret, v, w') \<Rightarrow> (ret, Symbol (Lir v), w'))"
| "run_getter_of ctx (Shock_dur_set val) x w =
     (case lis3de_shock_dur_get ctx x w of (ret, v, w') \<Rightarrow> (ret, Number v, w'))"
| "run_getter_of ctx (Quiet_dur_set val) x w =
     (case lis3de_quiet_dur_get ctx x w of (ret, v, w') \<Rightarrow> (ret, Number v, w'))"
| "run_getter_of ctx (Double_tap_timeout_set val) x w =
     (case lis3de_double_tap_timeout_get ctx x w of (ret, v, w') \<Rightarrow> (ret, Number v, w'))"
| "run_getter_of ctx (Act_threshold_set val) x w =
     (case lis3de_act_threshold_get ctx x w of (ret, v, w') \<Rightarrow> (ret, Number v, w'))"
| "run_getter_of ctx (Act_timeout_set val) x w =
     (case lis3de_act_timeout_get ctx x w of (ret, v, w') \<Rightarrow> (ret, Number v, w'))"
| "run_getter_of ctx (Spi_mode_set val) x w =
     (case lis3de_spi_mode_get ctx x w of (ret, v, w') \<Rightarrow> (ret, Symbol (Sim v), w'))"

section \<open>A register-file transport\<close>

text \<open>
  The transport used to run the accessors on concrete inputs: the device is its register
  file, a one-byte read returns the stored byte and a one-byte write stores it.
  \<open>rstat\<close> and \<open>wstat\<close> give the status of a read and of a write of each register;
  an access with a non-zero status fails without effect: a failed read leaves the
  caller's buffer as it was, a failed write leaves the register as it was.
\<close>

definition mock_ctx ::
  "(lis3de_reg \<Rightarrow> int32_t) \<Rightarrow> (lis3de_reg \<Rightarrow> int32_t) \<Rightarrow> (lis3de_reg \<Rightarrow> uint8_t) stmdev_ctx_t" where
  "mock_ctx rstat wstat =
     \<lparr>write_reg = (\<lambda>s reg data len.
        (wstat reg, if wstat reg = 0 then (case data of [] \<Rightarrow> s | b # bs \<Rightarrow> s(reg := b)) else s)),
      read_reg = (\<lambda>s reg data len.
        (rstat reg, if rstat reg = 0 then [s reg] else data, s))\<rparr>"

definition no_error :: "lis3de_reg \<Rightarrow> int32_t" where
  "no_error reg = 0"

definition power_on :: "(lis3de_reg \<Rightarrow> uint8_t) world" where
  "power_on = \<lparr>dev = (\<lambda>reg. 0), trace = []\<rparr>"

section \<open>Reading the record\<close>

text \<open>A write to a given register, and a write to it that returned an error.\<close>

definition is_write :: "lis3de_reg \<Rightarrow> event \<Rightarrow> bool" where
  "is_write reg e = (case e of Write_reg r data ret \<Rightarrow> r = reg | Read_reg r len ret \<Rightarrow> False)"

definition failed_write :: "lis3de_reg \<Rightarrow> event \<Rightarrow> bool" where
  "failed_write reg e =
     (case e of Write_reg r data ret \<Rightarrow> r = reg \<and> ret \<noteq> 0 | Read_reg r len ret \<Rightarrow> False)"

text \<open>The write that enables block data update: one byte to \<open>CTRL_REG4\<close> with the
  \<open>bdu\<close> bit set.\<close>

definition bdu_enable_write :: "event \<Rightarrow> bool" where
  "bdu_enable_write e =
     (case e of
        Write_reg r data ret \<Rightarrow>
          r = LIS3DE_CTRL_REG4 \<and> map (field_get ctrl_reg4_bdu) data = [PROPERTY_ENABLE]
      | Read_reg r len ret \<Rightarrow> False)"

text \<open>
  The transport calls an accessor can make, by kind and in order. A whole-register
  setter makes one write; a getter makes one read, the acceleration read one to three; a
  read-modify-write setter makes one read and then at most one write; the auxiliary-ADC
  setter, for a mode other than \<open>LIS3DE_AUX_DISABLE\<close>, has the read and the write of
  the block-data-update setter between its own read and write.
\<close>

datatype call_kind = Read | Write

fun kind_of :: "event \<Rightarrow> call_kind" where
  "kind_of (Read_reg reg len ret) = Read"
| "kind_of (Write_reg reg data ret) = Write"

fun allowed_kinds :: "accessor_call \<Rightarrow> call_kind list list" where
  "allowed_kinds (Setter (Aux_adc_set val)) =
     (if val = LIS3DE_AUX_DISABLE then [[Read], [Read, Write]]
      else [[Read], [Read, Read], [Read, Read, Write], [Read, Read, Write, Write]])"
| "allowed_kinds (Setter c) = [[Read], [Read, Write]]"
| "allowed_kinds (Direct_write c) = [[Write]]"
| "allowed_kinds (Reg_getter (Acceleration_raw_get buff)) =
     [[Read], [Read, Read], [Read, Read, Read]]"
| "allowed_kinds c = [[Read]]"

text \<open>The largest number of transport calls of an accessor.\<close>

fun call_bound :: "accessor_call \<Rightarrow> nat" where
  "call_bound (Setter (Aux_adc_set val)) = 4"
| "call_bound (Setter c) = 2"
| "call_bound (Reg_getter (Acceleration_raw_get buff)) = 3"
| "call_bound c = 1"

section \<open>Concrete inputs\<close>

text \<open>Local variables that happen to hold zero when a call starts.\<close>

definition zeroed :: "nat \<Rightarrow> uint8_t" where
  "zeroed n = 0"

text \<open>Reads of \<open>OUT_Y\<close> fail with status 1, every other read succeeds.\<close>

definition y_fails :: "lis3de_reg \<Rightarrow> int32_t" where
  "y_fails reg = (if reg = LIS3DE_OUT_Y then 1 else 0)"

text \<open>Writes to \<open>CTRL_REG4\<close> fail with status 1, every other write succeeds.\<close>

definition ctrl_reg4_write_fails :: "lis3de_reg \<Rightarrow> int32_t" where
  "ctrl_reg4_write_fails reg = (if reg = LIS3DE_CTRL_REG4 then 1 else 0)"

text \<open>Every register holds 5.\<close>

definition all_five :: "(lis3de_reg \<Rightarrow> uint8_t) world" where
  "all_five = \<lparr>dev = (\<lambda>reg. 5), trace = []\<rparr>"

text \<open>A transport whose every read delivers the first bytes of a given sequence.\<close>

definition bytes_ctx :: "uint8_t list \<Rightarrow> unit stmdev_ctx_t" where
  "bytes_ctx bytes =
     \<lparr>write_reg = (\<lambda>s reg data len. (0, s)),
      read_reg = (\<lambda>s reg data len. (0, take len bytes, s))\<rparr>"

section \<open>Bit-fields\<close>

lemmas bitfield_defs =
  status_reg_aux_3da_def status_reg_aux_3or_def temp_cfg_reg_temp_en_def
  temp_cfg_reg_adc_pd_def ctrl_reg1_lpen_def ctrl_reg1_odr_def ctrl_reg2_hp_def
  ctrl_reg2_fds_def ctrl_reg2_hpcf_def ctrl_reg2_hpm_def ctrl_reg4_sim_def
  ctrl_reg4_st_def ctrl_reg4_fs_def ctrl_reg4_bdu_def ctrl_reg5_d4d_ig2_def
  ctrl_reg5_lir_ig2_def ctrl_reg5_d4d_ig1_def ctrl_reg5_lir_ig1_def
  ctrl_reg5_fifo_en_def ctrl_reg5_boot_def status_reg_zyxda_def status_reg_zyxor_def
  fifo_ctrl_reg_fth_def fifo_ctrl_reg_tr_def fifo_ctrl_reg_fm_def fifo_src_reg_fss_def
  fifo_src_reg_empty_def fifo_src_reg_ovrn_fifo_def fifo_src_reg_wtm_def
  ig1_ths_ths_def ig1_duration_d_def ig2_ths_ths_def ig2_duration_d_def
  click_ths_ths_def click_ths_lir_def time_limit_tli_def time_latency_tla_def
  time_window_tw_def act_ths_acth_def act_dur_actd_def

text \<open>Every bit-field declared above lies inside its byte.\<close>

lemma declared_fields_ok:
  "list_all field_ok
    [status_reg_aux_3da, status_reg_aux_3or, temp_cfg_reg_temp_en, temp_cfg_reg_adc_pd,
     ctrl_reg1_lpen, ctrl_reg1_odr, ctrl_reg2_hp, ctrl_reg2_fds, ctrl_reg2_hpcf,
     ctrl_reg2_hpm, ctrl_reg4_sim, ctrl_reg4_st, ctrl_reg4_fs, ctrl_reg4_bdu,
     ctrl_reg5_d4d_ig2, ctrl_reg5_lir_ig2, ctrl_reg5_d4d_ig1, ctrl_reg5_lir_ig1,
     ctrl_reg5_fifo_en, ctrl_reg5_boot, status_reg_zyxda, status_reg_zyxor,
     fifo_ctrl_reg_fth, fifo_ctrl_reg_tr, fifo_ctrl_reg_fm, fifo_src_reg_fss,
     fifo_src_reg_empty, fifo_src_reg_ovrn_fifo, fifo_src_reg_wtm, ig1_ths_ths,
     ig1_duration_d, ig2_ths_ths, ig2_duration_d, click_ths_ths, click_ths_lir,
     time_limit_tli, time_latency_tla, time_window_tw, act_ths_acth, act_dur_actd]"
  by (simp add: field_ok_def bitfield_defs)

text \<open>Assigning to a bit-field keeps every bit outside its mask.\<close>

lemma field_set_frame:
  "field_set f b v AND NOT (field_mask f) = b AND NOT (field_mask f)"
  by (auto simp: field_set_def field_mask_def bit_eq_iff bit_simps)

lemma field_set_frame2:
  "field_set g (field_set f b v) v' AND NOT (field_mask f) AND NOT (field_mask g)
     = b AND NOT (field_mask f) AND NOT (field_mask g)"
  by (auto simp: field_set_def field_mask_def bit_eq_iff bit_simps)

text \<open>Reading a bit-field back after assigning to it, and after assigning to one above it.\<close>

lemma field_get_set:
  "field_ok f \<Longrightarrow> field_get f (field_set f b v) = take_bit (bf_len f) v"
  by (auto simp: field_ok_def field_get_def field_set_def field_mask_def bit_eq_iff bit_simps)

lemma field_get_other:
  "bf_pos f + bf_len f \<le> bf_pos g \<Longrightarrow> field_get f (field_set g b v) = field_get f b"
  by (auto simp: field_get_def field_set_def field_mask_def bit_eq_iff bit_simps
      dest: bit_imp_le_length)

lemma one_bit: "field_get (Bitfield p (Suc 0)) b = 0 \<or> field_get (Bitfield p (Suc 0)) b = 1"
  by (auto simp: field_get_def bit_eq_iff bit_simps)

lemma bdu_enabled:
  "field_get ctrl_reg4_bdu (field_set ctrl_reg4_bdu c PROPERTY_ENABLE) = PROPERTY_ENABLE"
  by (simp add: field_get_set field_ok_def ctrl_reg4_bdu_def PROPERTY_ENABLE_def)

section \<open>The record of transport calls\<close>

lemma read_struct_trace:
  "read_struct ctx reg x w = (ret, b, w') \<Longrightarrow> trace w' = trace w @ [Read_reg reg 1 ret]"
  by (auto simp: read_struct_def lis3de_read_reg_def split: prod.splits)

lemma write_struct_trace:
  "write_struct ctx reg b w = (ret, w') \<Longrightarrow> trace w' = trace w @ [Write_reg reg [b] ret]"
  by (auto simp: write_struct_def lis3de_write_reg_def split: prod.splits)

lemma read_reg_issued:
  "lis3de_read_reg ctx reg data len w = (ret, out, w') \<Longrightarrow> issued w w' = [Read_reg reg len ret]"
  by (auto simp: lis3de_read_reg_def issued_def split: prod.splits)

lemmas mock_defs = mock_ctx_def no_error_def power_on_def read_struct_def write_struct_def
  lis3de_read_reg_def lis3de_write_reg_def store_buf_def issued_def

section \<open>Read-modify-write setters\<close>

lemmas setter_defs =
  lis3de_operating_mode_set_def lis3de_data_rate_set_def
  lis3de_high_pass_on_outputs_set_def lis3de_high_pass_bandwidth_set_def
  lis3de_high_pass_mode_set_def lis3de_full_scale_set_def lis3de_block_data_update_set_def
  lis3de_self_test_set_def lis3de_boot_set_def lis3de_int1_gen_threshold_set_def
  lis3de_int1_gen_duration_set_def lis3de_int2_gen_threshold_set_def
  lis3de_int2_gen_duration_set_def lis3de_high_pass_int_conf_set_def
  lis3de_int2_pin_detect_4d_set_def lis3de_int2_pin_notification_mode_set_def
  lis3de_int1_pin_detect_4d_set_def lis3de_int1_pin_notification_mode_set_def
  lis3de_fifo_set_def lis3de_fifo_watermark_set_def lis3de_fifo_trigger_event_set_def
  lis3de_fifo_mode_set_def lis3de_tap_threshold_set_def
  lis3de_tap_notification_mode_set_def lis3de_shock_dur_set_def lis3de_quiet_dur_set_def
  lis3de_double_tap_timeout_set_def lis3de_act_threshold_set_def lis3de_act_timeout_set_def
  lis3de_spi_mode_set_def

text \<open>
  Claim C1. For every read-modify-write setter: when the first read of the register it
  works on returns a non-zero status, the setter returns that status, and the read is
  the only call it has made on the transport: no write is issued.
\<close>

theorem setter_read_failure:
  assumes "read_struct ctx (setter_reg c) (u 0) w = (ret, x, w')" and "ret \<noteq> 0"
  shows "run_setter ctx c u w = (ret, w') \<and> issued w w' = [Read_reg (setter_reg c) 1 ret]"
proof -
  have "run_setter ctx c u w = (ret, w')"
    using assms by (cases c) (simp_all add: setter_defs lis3de_aux_adc_set_def)
  moreover have "issued w w' = [Read_reg (setter_reg c) 1 ret]"
    using read_struct_trace [OF assms(1)] by (simp add: issued_def)
  ultimately show ?thesis by simp
qed

text \<open>
  The data-rate setter on a transport whose reads fail with status 7: the status comes
  back and the record holds the read alone.
\<close>

theorem setter_read_failure_witness:
  "read_struct (mock_ctx (\<lambda>reg. 7) no_error) (setter_reg (Data_rate_set LIS3DE_ODR_10Hz)) 0 power_on
     = (7, 0, \<lparr>dev = (\<lambda>reg. 0), trace = [Read_reg LIS3DE_CTRL_REG1 1 7]\<rparr>)
   \<and> (7 :: int32_t) \<noteq> 0
   \<and> run_setter (mock_ctx (\<lambda>reg. 7) no_error) (Data_rate_set LIS3DE_ODR_10Hz) (\<lambda>n. 0) power_on
     = (7, \<lparr>dev = (\<lambda>reg. 0), trace = [Read_reg LIS3DE_CTRL_REG1 1 7]\<rparr>)
   \<and> issued power_on \<lparr>dev = (\<lambda>reg. 0), trace = [Read_reg LIS3DE_CTRL_REG1 1 7]\<rparr>
     = [Read_reg (setter_reg (Data_rate_set LIS3DE_ODR_10Hz)) 1 7]"
proof -
  have r: "read_struct (mock_ctx (\<lambda>reg. 7) no_error) (setter_reg (Data_rate_set LIS3DE_ODR_10Hz))
             ((\<lambda>n. 0) (0::nat)) power_on
           = (7, 0, \<lparr>dev = (\<lambda>reg. 0), trace = [Read_reg LIS3DE_CTRL_REG1 1 7]\<rparr>)"
    by (simp add: mock_defs)
  have n: "(7 :: int32_t) \<noteq> 0" by simp
  show ?thesis
    using setter_read_failure [of "mock_ctx (\<lambda>reg. 7) no_error" "Data_rate_set LIS3DE_ODR_10Hz"
        "\<lambda>n. 0" power_on 7 0 "\<lparr>dev = (\<lambda>reg. 0), trace = [Read_reg LIS3DE_CTRL_REG1 1 7]\<rparr>", OF r n] r
    by simp
qed

text \<open>A setter of one bit-field, once its read has succeeded.\<close>

lemma rmw_isolation:
  assumes "read_struct ctx reg x w = (0, b, w1)"
    and "write_struct ctx reg (field_set f b v) w1 = (ret, w')"
    and "Write_reg reg data r \<in> set (issued w w')"
  shows "\<exists>b'. data = [b'] \<and> b' AND NOT (field_mask f) = b AND NOT (field_mask f)"
  using read_struct_trace [OF assms(1)] write_struct_trace [OF assms(2)] assms(3)
  by (auto simp: issued_def field_set_frame)

text \<open>
  The ways a call of \<open>lis3de_aux_adc_set\<close> can go after its first read has succeeded.
\<close>

lemma aux_adc_set_cases:
  assumes "read_struct ctx LIS3DE_TEMP_CFG_REG x w = (0, b, w1)"
    and "lis3de_aux_adc_set ctx val x y w = (ret, w')"
  obtains
    (disable) "val = LIS3DE_AUX_DISABLE"
      "write_struct ctx LIS3DE_TEMP_CFG_REG
         (field_set temp_cfg_reg_adc_pd
            (field_set temp_cfg_reg_temp_en b (drop_bit 1 (temp_en_code val AND 0x02)))
            (temp_en_code val AND 0x01)) w1 = (ret, w')"
  | (bdu_read_fails) c where "val \<noteq> LIS3DE_AUX_DISABLE"
      "read_struct ctx LIS3DE_CTRL_REG4 y w1 = (ret, c, w')" "ret \<noteq> 0"
  | (bdu_write_fails) c w2 where "val \<noteq> LIS3DE_AUX_DISABLE"
      "read_struct ctx LIS3DE_CTRL_REG4 y w1 = (0, c, w2)"
      "write_struct ctx LIS3DE_CTRL_REG4 (field_set ctrl_reg4_bdu c PROPERTY_ENABLE) w2 = (ret, w')"
      "ret \<noteq> 0"
  | (enabled) c w2 w3 where "val \<noteq> LIS3DE_AUX_DISABLE"
      "read_struct ctx LIS3DE_CTRL_REG4 y w1 = (0, c, w2)"
      "write_struct ctx LIS3DE_CTRL_REG4 (field_set ctrl_reg4_bdu c PROPERTY_ENABLE) w2 = (0, w3)"
      "write_struct ctx LIS3DE_TEMP_CFG_REG
         (field_set temp_cfg_reg_adc_pd
            (field_set temp_cfg_reg_temp_en b (drop_bit 1 (temp_en_code val AND 0x02)))
            (temp_en_code val AND 0x01)) w3 = (ret, w')"
  using assms
  by (auto simp: lis3de_aux_adc_set_def lis3de_block_data_update_set_def
           split: prod.splits if_splits)

lemma aux_adc_set_isolation:
  assumes "read_struct ctx LIS3DE_TEMP_CFG_REG x w = (0, b, w1)"
    and "lis3de_aux_adc_set ctx val x y w = (ret, w')"
    and "Write_reg LIS3DE_TEMP_CFG_REG data r \<in> set (issued w w')"
  shows "\<exists>b'. data = [b'] \<and>
           b' AND NOT (field_mask temp_cfg_reg_temp_en OR field_mask temp_cfg_reg_adc_pd)
             = b AND NOT (field_mask temp_cfg_reg_temp_en OR field_mask temp_cfg_reg_adc_pd)"
  using assms(1,2)
proof (cases rule: aux_adc_set_cases)
  case disable
  then show ?thesis
    using read_struct_trace [OF assms(1)] write_struct_trace [OF disable(2)] assms(3)
    by (auto simp: issued_def field_set_frame2)
next
  case (bdu_read_fails c)
  then show ?thesis
    using read_struct_trace [OF assms(1)] read_struct_trace [OF bdu_read_fails(2)] assms(3)
    by (auto simp: issued_def)
next
  case (bdu_write_fails c w2)
  then show ?thesis
    using read_struct_trace [OF assms(1)] read_struct_trace [OF bdu_write_fails(2)]
      write_struct_trace [OF bdu_write_fails(3)] assms(3)
    by (auto simp: issued_def)
next
  case (enabled c w2 w3)
  then show ?thesis
    using read_struct_trace [OF assms(1)] read_struct_trace [OF enabled(2)]
      write_struct_trace [OF enabled(3)] write_struct_trace [OF enabled(4)] assms(3)
    by (auto simp: issued_def field_set_frame2)
qed

text \<open>
  Claim C3. For every read-modify-write setter, every byte \<open>b\<close> read from its register
  and every value given to it: a byte the setter writes back to that register agrees
  with \<open>b\<close> on every bit outside the setter's bit-field, so the sibling bits keep their
  values.
\<close>

theorem setter_isolation:
  assumes "read_struct ctx (setter_reg c) (u 0) w = (0, b, w1)"
    and "run_setter ctx c u w = (ret, w')"
    and "Write_reg (setter_reg c) data r \<in> set (issued w w')"
  shows "\<exists>b'. data = [b'] \<and> b' AND NOT (setter_mask c) = b AND NOT (setter_mask c)"
proof (cases c)
  case (Aux_adc_set val)
  then show ?thesis
    using assms aux_adc_set_isolation [of ctx "u 0" w b w1 val "u 1" ret w' data r] by simp
qed (use assms in \<open>auto simp: setter_defs elim: rmw_isolation\<close>)

text \<open>
  The full-scale setter on a register holding \<open>0xFF\<close>: \<open>0xEF\<close> is written back, only
  bits 4 and 5 have moved.
\<close>

theorem setter_isolation_witness:
  "read_struct (mock_ctx no_error no_error) (setter_reg (Full_scale_set LIS3DE_8g)) 0
       \<lparr>dev = (\<lambda>reg. 0xFF :: uint8_t), trace = []\<rparr>
     = (0, 0xFF, \<lparr>dev = (\<lambda>reg. 0xFF :: uint8_t), trace = [Read_reg LIS3DE_CTRL_REG4 1 0]\<rparr>)
   \<and> run_setter (mock_ctx no_error no_error) (Full_scale_set LIS3DE_8g) (\<lambda>n. 0)
       \<lparr>dev = (\<lambda>reg. 0xFF :: uint8_t), trace = []\<rparr>
     = (0, \<lparr>dev = (\<lambda>reg. 0xFF :: uint8_t)(LIS3DE_CTRL_REG4 := 0xEF),
            trace = [Read_reg LIS3DE_CTRL_REG4 1 0, Write_reg LIS3DE_CTRL_REG4 [0xEF] 0]\<rparr>)
   \<and> Write_reg (setter_reg (Full_scale_set LIS3DE_8g)) [0xEF] 0
       \<in> set (issued \<lparr>dev = (\<lambda>reg. 0xFF :: uint8_t), trace = []\<rparr>
                 \<lparr>dev = (\<lambda>reg. 0xFF :: uint8_t)(LIS3DE_CTRL_REG4 := 0xEF),
                  trace = [Read_reg LIS3DE_CTRL_REG4 1 0, Write_reg LIS3DE_CTRL_REG4 [0xEF] 0]\<rparr>)
   \<and> (\<exists>b'. [0xEF] = [b'] \<and>
          b' AND NOT (setter_mask (Full_scale_set LIS3DE_8g))
            = 0xFF AND NOT (setter_mask (Full_scale_set LIS3DE_8g)))"
proof -
  let ?w = "\<lparr>dev = (\<lambda>reg. 0xFF), trace = []\<rparr> :: (lis3de_reg \<Rightarrow> uint8_t) world"
  let ?w1 = "\<lparr>dev = (\<lambda>reg. 0xFF), trace = [Read_reg LIS3DE_CTRL_REG4 1 0]\<rparr>
               :: (lis3de_reg \<Rightarrow> uint8_t) world"
  let ?w2 = "\<lparr>dev = (\<lambda>reg. 0xFF)(LIS3DE_CTRL_REG4 := 0xEF),
              trace = [Read_reg LIS3DE_CTRL_REG4 1 0, Write_reg LIS3DE_CTRL_REG4 [0xEF] 0]\<rparr>
               :: (lis3de_reg \<Rightarrow> uint8_t) world"
  have r: "read_struct (mock_ctx no_error no_error) (setter_reg (Full_scale_set LIS3DE_8g))
             ((\<lambda>n. 0) (0::nat)) ?w = (0, 0xFF, ?w1)"
    by (simp add: mock_defs)
  have e: "field_set ctrl_reg4_fs 0xFF (fs_code LIS3DE_8g) = 0xEF"
    by code_simp
  have s: "run_setter (mock_ctx no_error no_error) (Full_scale_set LIS3DE_8g) (\<lambda>n. 0) ?w = (0, ?w2)"
    using e by (simp add: mock_defs lis3de_full_scale_set_def)
  have m: "Write_reg (setter_reg (Full_scale_set LIS3DE_8g)) [0xEF] 0 \<in> set (issued ?w ?w2)"
    by (simp add: issued_def)
  show ?thesis
    using setter_isolation [of "mock_ctx no_error no_error" "Full_scale_set LIS3DE_8g" "\<lambda>n. 0"
        ?w "0xFF" ?w1 0 ?w2 "[0xEF]" 0, OF r s m] r s m
    by simp
qed

section \<open>The auxiliary ADC\<close>

text \<open>
  Claim C5. For every call of \<open>lis3de_aux_adc_set\<close> with a mode other than
  \<open>LIS3DE_AUX_DISABLE\<close> whose first read succeeds, the calls after that read are, in
  order: the read of \<open>CTRL_REG4\<close>; if it succeeded, the write to \<open>CTRL_REG4\<close> of the
  byte read with the block-data-update bit set; and if that write succeeded too, the
  write to \<open>TEMP_CFG_REG\<close>, last. A failed read or write of \<open>CTRL_REG4\<close> ends the call
  with its status. So a write to \<open>TEMP_CFG_REG\<close> comes strictly after the write that
  enables block data update, and is never issued when that write returned a non-zero
  status.
\<close>

theorem aux_adc_set_ordering:
  assumes "val \<noteq> LIS3DE_AUX_DISABLE"
    and "read_struct ctx LIS3DE_TEMP_CFG_REG x w = (0, b, w1)"
    and "read_struct ctx LIS3DE_CTRL_REG4 y w1 = (r4, c, w2)"
    and "write_struct ctx LIS3DE_CTRL_REG4 (field_set ctrl_reg4_bdu c PROPERTY_ENABLE) w2
           = (rw, w3)"
    and "lis3de_aux_adc_set ctx val x y w = (ret, w')"
  shows "issued w w' =
           (if r4 \<noteq> 0 then
              [Read_reg LIS3DE_TEMP_CFG_REG 1 0, Read_reg LIS3DE_CTRL_REG4 1 r4]
            else if rw \<noteq> 0 then
              [Read_reg LIS3DE_TEMP_CFG_REG 1 0, Read_reg LIS3DE_CTRL_REG4 1 0,
               Write_reg LIS3DE_CTRL_REG4 [field_set ctrl_reg4_bdu c PROPERTY_ENABLE] rw]
            else
              [Read_reg LIS3DE_TEMP_CFG_REG 1 0, Read_reg LIS3DE_CTRL_REG4 1 0,
               Write_reg LIS3DE_CTRL_REG4 [field_set ctrl_reg4_bdu c PROPERTY_ENABLE] 0,
               Write_reg LIS3DE_TEMP_CFG_REG
                 [field_set temp_cfg_reg_adc_pd
                    (field_set temp_cfg_reg_temp_en b (drop_bit 1 (temp_en_code val AND 0x02)))
                    (temp_en_code val AND 0x01)] ret])
       \<and> bdu_enable_write
             (Write_reg LIS3DE_CTRL_REG4 [field_set ctrl_reg4_bdu c PROPERTY_ENABLE] rw)
       \<and> (r4 \<noteq> 0 \<longrightarrow> ret = r4)
       \<and> (r4 = 0 \<and> rw \<noteq> 0 \<longrightarrow> ret = rw)
       \<and> (\<forall>i < length (issued w w'). is_write LIS3DE_TEMP_CFG_REG (issued w w' ! i) \<longrightarrow>
            (\<exists>j < i. bdu_enable_write (issued w w' ! j)))
       \<and> ((\<exists>e \<in> set (issued w w'). failed_write LIS3DE_CTRL_REG4 e) \<longrightarrow>
            (\<forall>e \<in> set (issued w w'). \<not> is_write LIS3DE_TEMP_CFG_REG e))"
proof -
  have four: "i < 4 \<longleftrightarrow> i = 0 \<or> i = 1 \<or> i = 2 \<or> i = 3" for i :: nat by auto
  have en: "bdu_enable_write
              (Write_reg LIS3DE_CTRL_REG4 [field_set ctrl_reg4_bdu c PROPERTY_ENABLE] rw)"
    by (simp add: bdu_enable_write_def bdu_enabled)
  note t1 = read_struct_trace [OF assms(2)]
  note t2 = read_struct_trace [OF assms(3)]
  note t3 = write_struct_trace [OF assms(4)]
  from assms(2,5) show ?thesis
  proof (cases rule: aux_adc_set_cases)
    case disable
    then show ?thesis using assms(1) by simp
  next
    case (bdu_read_fails c')
    with assms(3) have "r4 = ret" "w' = w2" "ret \<noteq> 0" by simp_all
    then show ?thesis
      using t1 t2 en by (auto simp: issued_def is_write_def failed_write_def nth_Cons')
  next
    case (bdu_write_fails c' w2')
    with assms(3) have r: "r4 = 0" "c' = c" "w2' = w2" by simp_all
    with bdu_write_fails(3,4) assms(4) have "rw = ret" "w' = w3" "ret \<noteq> 0" by simp_all
    then show ?thesis
      using r t1 t2 t3 en
      by (auto simp: issued_def is_write_def failed_write_def nth_Cons' split: if_splits)
  next
    case (enabled c' w2' w3')
    with assms(3) have r: "r4 = 0" "c' = c" "w2' = w2" by simp_all
    with enabled(3) assms(4) have s: "rw = 0" "w3' = w3" by simp_all
    note t4 = write_struct_trace [OF enabled(4) [unfolded s]]
    have i: "issued w w' =
               [Read_reg LIS3DE_TEMP_CFG_REG 1 0, Read_reg LIS3DE_CTRL_REG4 1 0,
                Write_reg LIS3DE_CTRL_REG4 [field_set ctrl_reg4_bdu c PROPERTY_ENABLE] 0,
                Write_reg LIS3DE_TEMP_CFG_REG
                  [field_set temp_cfg_reg_adc_pd
                     (field_set temp_cfg_reg_temp_en b (drop_bit 1 (temp_en_code val AND 0x02)))
                     (temp_en_code val AND 0x01)] ret]"
      using r s t1 t2 t3 t4 by (simp add: issued_def)
    have "\<exists>j<i. bdu_enable_write (issued w w' ! j)"
      if "i < length (issued w w')" "is_write LIS3DE_TEMP_CFG_REG (issued w w' ! i)" for i
    proof -
      have "i = 3"
        using that i by (auto simp: is_write_def nth_Cons' four split: if_splits)
      moreover have "bdu_enable_write (issued w w' ! 2)"
        using i by (simp add: bdu_enable_write_def bdu_enabled)
      ultimately show ?thesis by (intro exI [of _ 2]) simp
    qed
    moreover have "\<not> (\<exists>e \<in> set (issued w w'). failed_write LIS3DE_CTRL_REG4 e)"
      using i by (simp add: failed_write_def)
    ultimately show ?thesis
      using r s i en by simp
  qed
qed

text \<open>
  Enabling the temperature sensor from power-on. Where nothing fails, the byte \<open>0x80\<close>
  goes to \<open>CTRL_REG4\<close> and then \<open>0xC0\<close> to \<open>TEMP_CFG_REG\<close>. Where the writes to
  \<open>CTRL_REG4\<close> fail, the call ends with that status after the failed write and
  \<open>TEMP_CFG_REG\<close> is not written.
\<close>

theorem aux_adc_set_ordering_witness:
  "LIS3DE_AUX_ON_TEMPERATURE \<noteq> LIS3DE_AUX_DISABLE
   \<and> read_struct (mock_ctx no_error no_error) LIS3DE_TEMP_CFG_REG 0 power_on
       = (0, 0, \<lparr>dev = dev power_on, trace = [Read_reg LIS3DE_TEMP_CFG_REG 1 0]\<rparr>)
   \<and> read_struct (mock_ctx no_error no_error) LIS3DE_CTRL_REG4 0
         \<lparr>dev = dev power_on, trace = [Read_reg LIS3DE_TEMP_CFG_REG 1 0]\<rparr>
       = (0, 0, \<lparr>dev = dev power_on,
                 trace = [Read_reg LIS3DE_TEMP_CFG_REG 1 0, Read_reg LIS3DE_CTRL_REG4 1 0]\<rparr>)
   \<and> fst (write_struct (mock_ctx no_error no_error) LIS3DE_CTRL_REG4
              (field_set ctrl_reg4_bdu 0 PROPERTY_ENABLE)
              \<lparr>dev = dev power_on,
               trace = [Read_reg LIS3DE_TEMP_CFG_REG 1 0, Read_reg LIS3DE_CTRL_REG4 1 0]\<rparr>) = 0
   \<and> fst (lis3de_aux_adc_set (mock_ctx no_error no_error) LIS3DE_AUX_ON_TEMPERATURE 0 0
              power_on) = 0
   \<and> issued power_on
         (snd (lis3de_aux_adc_set (mock_ctx no_error no_error) LIS3DE_AUX_ON_TEMPERATURE 0 0
                 power_on))
       = [Read_reg LIS3DE_TEMP_CFG_REG 1 0, Read_reg LIS3DE_CTRL_REG4 1 0,
          Write_reg LIS3DE_CTRL_REG4 [0x80] 0, Write_reg LIS3DE_TEMP_CFG_REG [0xC0] 0]
   \<and> fst (write_struct (mock_ctx no_error ctrl_reg4_write_fails) LIS3DE_CTRL_REG4
              (field_set ctrl_reg4_bdu 0 PROPERTY_ENABLE)
              \<lparr>dev = dev power_on,
               trace = [Read_reg LIS3DE_TEMP_CFG_REG 1 0, Read_reg LIS3DE_CTRL_REG4 1 0]\<rparr>) = 1
   \<and> fst (lis3de_aux_adc_set (mock_ctx no_error ctrl_reg4_write_fails)
              LIS3DE_AUX_ON_TEMPERATURE 0 0 power_on) = 1
   \<and> issued power_on
         (snd (lis3de_aux_adc_set (mock_ctx no_error ctrl_reg4_write_fails)
                 LIS3DE_AUX_ON_TEMPERATURE 0 0 power_on))
       = [Read_reg LIS3DE_TEMP_CFG_REG 1 0, Read_reg LIS3DE_CTRL_REG4 1 0,
          Write_reg LIS3DE_CTRL_REG4 [0x80] 1]"
proof -
  let ?ok = "mock_ctx no_error no_error"
  let ?ko = "mock_ctx no_error ctrl_reg4_write_fails"
  let ?w1 = "\<lparr>dev = dev power_on, trace = [Read_reg LIS3DE_TEMP_CFG_REG 1 0]\<rparr>"
  let ?w2 = "\<lparr>dev = dev power_on,
              trace = [Read_reg LIS3DE_TEMP_CFG_REG 1 0, Read_reg LIS3DE_CTRL_REG4 1 0]\<rparr>"
  have v: "LIS3DE_AUX_ON_TEMPERATURE \<noteq> LIS3DE_AUX_DISABLE" by simp
  have e: "field_set ctrl_reg4_bdu 0 PROPERTY_ENABLE = 0x80"
    by code_simp
  have m: "field_set temp_cfg_reg_adc_pd
             (field_set temp_cfg_reg_temp_en 0
                (drop_bit 1 (temp_en_code LIS3DE_AUX_ON_TEMPERATURE AND 0x02)))
             (temp_en_code LIS3DE_AUX_ON_TEMPERATURE AND 0x01) = 0xC0"
    by code_simp
  have r1: "read_struct ?ok LIS3DE_TEMP_CFG_REG 0 power_on = (0, 0, ?w1)"
    and r1': "read_struct ?ko LIS3DE_TEMP_CFG_REG 0 power_on = (0, 0, ?w1)"
    by (simp_all add: mock_defs)
  have r2: "read_struct ?ok LIS3DE_CTRL_REG4 0 ?w1 = (0, 0, ?w2)"
    and r2': "read_struct ?ko LIS3DE_CTRL_REG4 0 ?w1 = (0, 0, ?w2)"
    by (simp_all add: mock_defs)
  obtain w3 where w: "write_struct ?ok LIS3DE_CTRL_REG4 (field_set ctrl_reg4_bdu 0 PROPERTY_ENABLE) ?w2
                        = (0, w3)"
    by (simp add: mock_defs)
  obtain w3' where w': "write_struct ?ko LIS3DE_CTRL_REG4 (field_set ctrl_reg4_bdu 0 PROPERTY_ENABLE) ?w2
                        = (1, w3')"
    by (simp add: mock_defs ctrl_reg4_write_fails_def)
  obtain wa where s: "lis3de_aux_adc_set ?ok LIS3DE_AUX_ON_TEMPERATURE 0 0 power_on = (0, wa)"
    by (simp add: lis3de_aux_adc_set_def lis3de_block_data_update_set_def mock_defs Let_def)
  obtain wb where s': "lis3de_aux_adc_set ?ko LIS3DE_AUX_ON_TEMPERATURE 0 0 power_on = (1, wb)"
    by (simp add: lis3de_aux_adc_set_def lis3de_block_data_update_set_def mock_defs Let_def
        ctrl_reg4_write_fails_def)
  from aux_adc_set_ordering [OF v r1 r2 w s]
  have a: "issued power_on wa =
             [Read_reg LIS3DE_TEMP_CFG_REG 1 0, Read_reg LIS3DE_CTRL_REG4 1 0,
              Write_reg LIS3DE_CTRL_REG4 [0x80] 0, Write_reg LIS3DE_TEMP_CFG_REG [0xC0] 0]"
    unfolding e m by simp
  from aux_adc_set_ordering [OF v r1' r2' w' s']
  have b: "issued power_on wb =
             [Read_reg LIS3DE_TEMP_CFG_REG 1 0, Read_reg LIS3DE_CTRL_REG4 1 0,
              Write_reg LIS3DE_CTRL_REG4 [0x80] 1]"
    unfolding e by simp
  show ?thesis
    using v r1 r2 w w' s s' a b by simp
qed

text \<open>
  Claim C10. Whatever byte the transport delivers for \<open>TEMP_CFG_REG\<close>, and whatever the
  status of the read, \<open>lis3de_aux_adc_get\<close> leaves \<open>LIS3DE_AUX_ON_PADS\<close> or
  \<open>LIS3DE_AUX_DISABLE\<close> in its output, never \<open>LIS3DE_AUX_ON_TEMPERATURE\<close>: the second
  \<open>if\<close> assigns in both of its branches, after the first one.
\<close>

theorem aux_adc_get_never_on_temperature:
  "case lis3de_aux_adc_get ctx val temp_cfg_reg w of
     (ret, v, w') \<Rightarrow> v = LIS3DE_AUX_ON_PADS \<or> v = LIS3DE_AUX_DISABLE"
  by (simp add: lis3de_aux_adc_get_def Let_def split: prod.splits)

text \<open>
  Claim C2 asks that a value set is the value got back, on a transport that stores the
  registers, and names the auxiliary-ADC pair with \<open>LIS3DE_AUX_ON_TEMPERATURE\<close>. On the
  register-file transport, from any state of the registers, setting that mode succeeds
  and getting it back succeeds with \<open>LIS3DE_AUX_DISABLE\<close>.
\<close>

theorem aux_adc_on_temperature_roundtrip:
  "case lis3de_aux_adc_set (mock_ctx no_error no_error) LIS3DE_AUX_ON_TEMPERATURE x y w of
     (ret, w') \<Rightarrow>
       ret = 0 \<and>
       (case lis3de_aux_adc_get (mock_ctx no_error no_error) val z w' of
          (ret', v, w'') \<Rightarrow> ret' = 0 \<and> v = LIS3DE_AUX_DISABLE)"
proof -
  have en: "field_get temp_cfg_reg_temp_en
              (field_set temp_cfg_reg_adc_pd (field_set temp_cfg_reg_temp_en b 1) 1) = 1" for b
    by (simp add: field_get_other field_get_set field_ok_def temp_cfg_reg_temp_en_def
        temp_cfg_reg_adc_pd_def)
  have "drop_bit 1 (temp_en_code LIS3DE_AUX_ON_TEMPERATURE AND 2) = 1"
    and "temp_en_code LIS3DE_AUX_ON_TEMPERATURE AND 1 = 1"
    by simp_all
  then show ?thesis
    using en
    by (simp add: lis3de_aux_adc_set_def lis3de_aux_adc_get_def lis3de_block_data_update_set_def
        mock_defs Let_def PROPERTY_DISABLE_def PROPERTY_ENABLE_def)
qed

text \<open>
  Everywhere else the value set is the value read back: on the register-file transport,
  every setter followed by its getter returns the value given, for every legal value
  but \<open>LIS3DE_AUX_ON_TEMPERATURE\<close>.
\<close>

lemma field_get_set_legal:
  "field_ok f \<Longrightarrow> unat v < 2 ^ bf_len f \<Longrightarrow> field_get f (field_set f b v) = v"
  by (simp add: field_get_set word_unat_eq_iff unsigned_take_bit_eq take_bit_nat_eq_self)

lemma setter_getter_roundtrip:
  assumes "legal_val c" and "c \<noteq> Aux_adc_set LIS3DE_AUX_ON_TEMPERATURE"
  shows "case run_setter (mock_ctx no_error no_error) c u w of
           (ret, w') \<Rightarrow>
             ret = 0 \<and>
             (case run_getter_of (mock_ctx no_error no_error) c x w' of
                (ret', v, w'') \<Rightarrow> ret' = 0 \<and> v = given_val c)"
proof (cases c)
  case (Aux_adc_set val)
  then show ?thesis
    using assms(2)
    by (cases val)
      (simp_all add: lis3de_aux_adc_set_def lis3de_aux_adc_get_def
        lis3de_block_data_update_set_def mock_defs Let_def PROPERTY_DISABLE_def
        PROPERTY_ENABLE_def field_get_other field_get_set field_ok_def
        temp_cfg_reg_temp_en_def temp_cfg_reg_adc_pd_def)
next
  case (Operating_mode_set val)
  then show ?thesis
    by (cases val)
      (simp_all add: lis3de_operating_mode_set_def lis3de_operating_mode_get_def mock_defs
        PROPERTY_ENABLE_def field_get_set field_ok_def ctrl_reg1_lpen_def)
next
  case (Data_rate_set val)
  then show ?thesis
    by (cases val)
      (simp_all add: lis3de_data_rate_set_def lis3de_data_rate_get_def mock_defs
        field_get_set field_ok_def ctrl_reg1_odr_def)
next
  case (High_pass_on_outputs_set val)
  then show ?thesis
    using assms(1)
    by (simp add: lis3de_high_pass_on_outputs_set_def lis3de_high_pass_on_outputs_get_def mock_defs
        field_get_set_legal field_ok_def ctrl_reg2_fds_def)
next
  case (High_pass_bandwidth_set val)
  then show ?thesis
    by (cases val)
      (simp_all add: lis3de_high_pass_bandwidth_set_def lis3de_high_pass_bandwidth_get_def mock_defs
        field_get_set field_ok_def ctrl_reg2_hpcf_def)
next
  case (High_pass_mode_set val)
  then show ?thesis
    by (cases val)
      (simp_all add: lis3de_high_pass_mode_set_def lis3de_high_pass_mode_get_def mock_defs
        field_get_set field_ok_def ctrl_reg2_hpm_def)
next
  case (Full_scale_set val)
  then show ?thesis
    by (cases val)
      (simp_all add: lis3de_full_scale_set_def lis3de_full_scale_get_def mock_defs
        field_get_set field_ok_def ctrl_reg4_fs_def)
next
  case (Block_data_update_set val)
  then show ?thesis
    using assms(1)
    by (simp add: lis3de_block_data_update_set_def lis3de_block_data_update_get_def mock_defs
        field_get_set_legal field_ok_def ctrl_reg4_bdu_def)
next
  case (Self_test_set val)
  then show ?thesis
    by (cases val)
      (simp_all add: lis3de_self_test_set_def lis3de_self_test_get_def mock_defs
        field_get_set field_ok_def ctrl_reg4_st_def)
next
  case (Boot_set val)
  then show ?thesis
    using assms(1)
    by (simp add: lis3de_boot_set_def lis3de_boot_get_def mock_defs
        field_get_set_legal field_ok_def ctrl_reg5_boot_def)
next
  case (Int1_gen_threshold_set val)
  then show ?thesis
    using assms(1)
    by (simp add: lis3de_int1_gen_threshold_set_def lis3de_int1_gen_threshold_get_def mock_defs
        field_get_set_legal field_ok_def ig1_ths_ths_def)
next
  case (Int1_gen_duration_set val)
  then show ?thesis
    using assms(1)
    by (simp add: lis3de_int1_gen_duration_set_def lis3de_int1_gen_duration_get_def mock_defs
        field_get_set_legal field_ok_def ig1_duration_d_def)
next
  case (Int2_gen_threshold_set val)
  then show ?thesis
    using assms(1)
    by (simp add: lis3de_int2_gen_threshold_set_def lis3de_int2_gen_threshold_get_def mock_defs
        field_get_set_legal field_ok_def ig2_ths_ths_def)
next
  case (Int2_gen_duration_set val)
  then show ?thesis
    using assms(1)
    by (simp add: lis3de_int2_gen_duration_set_def lis3de_int2_gen_duration_get_def mock_defs
        field_get_set_legal field_ok_def ig2_duration_d_def)
next
  case (High_pass_int_conf_set val)
  then show ?thesis
    by (cases val)
      (simp_all add: lis3de_high_pass_int_conf_set_def lis3de_high_pass_int_conf_get_def mock_defs
        field_get_set field_ok_def ctrl_reg2_hp_def)
next
  case (Int2_pin_detect_4d_set val)
  then show ?thesis
    using assms(1)
    by (simp add: lis3de_int2_pin_detect_4d_set_def lis3de_int2_pin_detect_4d_get_def mock_defs
        field_get_set_legal field_ok_def ctrl_reg5_d4d_ig2_def)
next
  case (Int2_pin_notification_mode_set val)
  then show ?thesis
    by (cases val)
      (simp_all add: lis3de_int2_pin_notification_mode_set_def lis3de_int2_pin_notification_mode_get_def mock_defs
        field_get_set field_ok_def ctrl_reg5_lir_ig2_def)
next
  case (Int1_pin_detect_4d_set val)
  then show ?thesis
    using assms(1)
    by (simp add: lis3de_int1_pin_detect_4d_set_def lis3de_int1_pin_detect_4d_get_def mock_defs
        field_get_set_legal field_ok_def ctrl_reg5_d4d_ig1_def)
next
  case (Int1_pin_notification_mode_set val)
  then show ?thesis
    by (cases val)
      (simp_all add: lis3de_int1_pin_notification_mode_set_def lis3de_int1_pin_notification_mode_get_def mock_defs
        field_get_set field_ok_def ctrl_reg5_lir_ig1_def)
next
  case (Fifo_set val)
  then show ?thesis
    using assms(1)
    by (simp add: lis3de_fifo_set_def lis3de_fifo_get_def mock_defs
        field_get_set_legal field_ok_def ctrl_reg5_fifo_en_def)
next
  case (Fifo_watermark_set val)
  then show ?thesis
    using assms(1)
    by (simp add: lis3de_fifo_watermark_set_def lis3de_fifo_watermark_get_def mock_defs
        field_get_set_legal field_ok_def fifo_ctrl_reg_fth_def)
next
  case (Fifo_trigger_event_set val)
  then show ?thesis
    by (cases val)
      (simp_all add: lis3de_fifo_trigger_event_set_def lis3de_fifo_trigger_event_get_def mock_defs
        field_get_set field_ok_def fifo_ctrl_reg_tr_def)
next
  case (Fifo_mode_set val)
  then show ?thesis
    by (cases val)
      (simp_all add: lis3de_fifo_mode_set_def lis3de_fifo_mode_get_def mock_defs
        field_get_set field_ok_def fifo_ctrl_reg_fm_def)
next
  case (Tap_threshold_set val)
  then show ?thesis
    using assms(1)
    by (simp add: lis3de_tap_threshold_set_def lis3de_tap_threshold_get_def mock_defs
        field_get_set_legal field_ok_def click_ths_ths_def)
next
  case (Tap_notification_mode_set val)
  then show ?thesis
    by (cases val)
      (simp_all add: lis3de_tap_notification_mode_set_def lis3de_tap_notification_mode_get_def mock_defs
        field_get_set field_ok_def click_ths_lir_def)
next
  case (Shock_dur_set val)
  then show ?thesis
    using assms(1)
    by (simp add: lis3de_shock_dur_set_def lis3de_shock_dur_get_def mock_defs
        field_get_set_legal field_ok_def time_limit_tli_def)
next
  case (Quiet_dur_set val)
  then show ?thesis
    using assms(1)
    by (simp add: lis3de_quiet_dur_set_def lis3de_quiet_dur_get_def mock_defs
        field_get_set_legal field_ok_def time_latency_tla_def)
next
  case (Double_tap_timeout_set val)
  then show ?thesis
    using assms(1)
    by (simp add: lis3de_double_tap_timeout_set_def lis3de_double_tap_timeout_get_def mock_defs
        field_get_set_legal field_ok_def time_window_tw_def)
next
  case (Act_threshold_set val)
  then show ?thesis
    using assms(1)
    by (simp add: lis3de_act_threshold_set_def lis3de_act_threshold_get_def mock_defs
        field_get_set_legal field_ok_def act_ths_acth_def)
next
  case (Act_timeout_set val)
  then show ?thesis
    using assms(1)
    by (simp add: lis3de_act_timeout_set_def lis3de_act_timeout_get_def mock_defs
        field_get_set_legal field_ok_def act_dur_actd_def)
next
  case (Spi_mode_set val)
  then show ?thesis
    by (cases val)
      (simp_all add: lis3de_spi_mode_set_def lis3de_spi_mode_get_def mock_defs
        field_get_set field_ok_def ctrl_reg4_sim_def)
qed

section \<open>Getters of an enumerated setting\<close>

lemmas enum_getter_defs =
  lis3de_data_rate_get_def lis3de_high_pass_bandwidth_get_def lis3de_high_pass_mode_get_def
  lis3de_full_scale_get_def lis3de_self_test_get_def lis3de_high_pass_int_conf_get_def
  lis3de_int2_pin_notification_mode_get_def lis3de_int1_pin_notification_mode_get_def
  lis3de_fifo_trigger_event_get_def lis3de_fifo_mode_get_def
  lis3de_tap_notification_mode_get_def lis3de_spi_mode_get_def

text \<open>
  Claim C4. For every getter of an enumerated setting and every byte the transport
  delivers: the getter returns the status of its read (decoding adds no error) together
  with an enumerator of its own enumeration, and a code on the wire that is not the code
  of any enumerator gives the fixed default: power-down for the data rate, the lightest
  filter for the high-pass bandwidth, 2g for the full scale, and so on.
\<close>

theorem enum_getter_decode:
  assumes "read_struct ctx (enum_getter_reg g) x w = (ret, b, w')"
  shows "\<exists>v. run_enum_getter ctx g x w = (ret, v, w')
           \<and> v \<in> set (enumerators g)
           \<and> (wire_code g b \<notin> val_code ` set (enumerators g) \<longrightarrow> v = default_val g)"
proof (cases g)
  case (Aux_adc_get val)
  then show ?thesis
    using assms one_bit [of 6 b] one_bit [of 7 b]
    by (auto simp: lis3de_aux_adc_get_def Let_def PROPERTY_ENABLE_def PROPERTY_DISABLE_def
        temp_cfg_reg_temp_en_def temp_cfg_reg_adc_pd_def)
next
  case (Operating_mode_get val)
  then show ?thesis
    using assms one_bit [of 3 b]
    by (cases val) (auto simp: lis3de_operating_mode_get_def PROPERTY_ENABLE_def ctrl_reg1_lpen_def)
qed (use assms in \<open>auto simp: enum_getter_defs\<close>)

text \<open>
  The data-rate getter on a register holding \<open>0xF0\<close>: code 15 is not a data rate, the
  getter answers power-down.
\<close>

theorem enum_getter_decode_witness:
  "read_struct (mock_ctx no_error no_error) (enum_getter_reg Data_rate_get) 0
       \<lparr>dev = (\<lambda>reg. 0xF0), trace = []\<rparr>
     = (0, 0xF0, \<lparr>dev = (\<lambda>reg. 0xF0), trace = [Read_reg LIS3DE_CTRL_REG1 1 0]\<rparr>)
   \<and> wire_code Data_rate_get 0xF0 \<notin> val_code ` set (enumerators Data_rate_get)
   \<and> run_enum_getter (mock_ctx no_error no_error) Data_rate_get 0
       \<lparr>dev = (\<lambda>reg. 0xF0), trace = []\<rparr>
     = (0, Odr LIS3DE_POWER_DOWN,
        \<lparr>dev = (\<lambda>reg. 0xF0), trace = [Read_reg LIS3DE_CTRL_REG1 1 0]\<rparr>)
   \<and> Odr LIS3DE_POWER_DOWN \<in> set (enumerators Data_rate_get)
   \<and> Odr LIS3DE_POWER_DOWN = default_val Data_rate_get"
proof -
  let ?ctx = "mock_ctx no_error no_error"
  let ?w = "\<lparr>dev = (\<lambda>reg. 0xF0), trace = []\<rparr> :: (lis3de_reg \<Rightarrow> uint8_t) world"
  let ?w' = "\<lparr>dev = (\<lambda>reg. 0xF0), trace = [Read_reg LIS3DE_CTRL_REG1 1 0]\<rparr>
              :: (lis3de_reg \<Rightarrow> uint8_t) world"
  have r: "read_struct ?ctx (enum_getter_reg Data_rate_get) 0 ?w = (0, 0xF0, ?w')"
    by (simp add: mock_defs)
  have c: "wire_code Data_rate_get 0xF0 = 15"
    by code_simp
  have u: "wire_code Data_rate_get 0xF0 \<notin> val_code ` set (enumerators Data_rate_get)"
    unfolding c by simp
  from enum_getter_decode [OF r] u
  have "run_enum_getter ?ctx Data_rate_get 0 ?w = (0, default_val Data_rate_get, ?w')"
    by blast
  then show ?thesis
    using r u by simp
qed

section \<open>The multi-sample reads\<close>

lemma sint_join:
  "sint ((ucast (h :: uint8_t) :: int16_t) * 256 + ucast (l :: uint8_t))
     = signed_take_bit 15 (uint h * 256 + uint l)"
proof -
  have "(ucast h :: int16_t) * 256 + ucast l = word_of_int (uint h * 256 + uint l)"
    by simp
  then show ?thesis
    by (simp only: sint_sbintrunc') simp
qed

text \<open>
  Claim C7. \<open>lis3de_adc_raw_get\<close> makes one transport call, a read of six bytes at
  \<open>OUT_ADC1_L\<close>, and returns its status; with \<open>b\<close> the six bytes in the buffer after
  the read, sample \<open>i\<close> is \<open>b[2i+1] * 256 + b[2i]\<close> read as a signed 16-bit integer.
  The witness below is the example of the spec: the bytes 1 to 6 give \<open>0x0201\<close>,
  \<open>0x0403\<close>, \<open>0x0605\<close>.
\<close>

theorem adc_raw_get_assembly:
  assumes "lis3de_read_reg ctx LIS3DE_OUT_ADC1_L (map buff [0..<6]) 6 w = (ret, b, w')"
    and "length val = 3"
  shows "\<exists>val'. lis3de_adc_raw_get ctx val buff w = (ret, val', w')
           \<and> issued w w' = [Read_reg LIS3DE_OUT_ADC1_L 6 ret]
           \<and> length val' = 3
           \<and> (\<forall>i<3. sint (val' ! i)
                  = signed_take_bit 15 (uint (b ! (2 * i + 1)) * 256 + uint (b ! (2 * i))))"
proof -
  have three: "i < 3 \<longleftrightarrow> i = 0 \<or> i = 1 \<or> i = 2" for i :: nat by auto
  obtain v0 v1 v2 where val: "val = [v0, v1, v2]"
    using assms(2) by (auto simp: length_Suc_conv numeral_3_eq_3)
  have "lis3de_adc_raw_get ctx val buff w =
          (ret, [ucast (b ! 1) * 256 + ucast (b ! 0), ucast (b ! 3) * 256 + ucast (b ! 2),
                 ucast (b ! 5) * 256 + ucast (b ! 4)], w')"
    using assms(1) by (simp add: lis3de_adc_raw_get_def val Let_def)
  then show ?thesis
    using read_reg_issued [OF assms(1)] by (auto simp: three sint_join)
qed

text \<open>The transport delivers the bytes 1, 2, 3, 4, 5, 6.\<close>

theorem adc_raw_get_assembly_witness:
  "lis3de_read_reg (bytes_ctx [0x01, 0x02, 0x03, 0x04, 0x05, 0x06]) LIS3DE_OUT_ADC1_L
       (map zeroed [0..<6]) 6 \<lparr>dev = (), trace = []\<rparr>
     = (0, [0x01, 0x02, 0x03, 0x04, 0x05, 0x06],
        \<lparr>dev = (), trace = [Read_reg LIS3DE_OUT_ADC1_L 6 0]\<rparr>)
   \<and> length [0, 0, 0 :: int16_t] = 3
   \<and> lis3de_adc_raw_get (bytes_ctx [0x01, 0x02, 0x03, 0x04, 0x05, 0x06]) [0, 0, 0] zeroed
       \<lparr>dev = (), trace = []\<rparr>
     = (0, [0x0201, 0x0403, 0x0605], \<lparr>dev = (), trace = [Read_reg LIS3DE_OUT_ADC1_L 6 0]\<rparr>)
   \<and> (\<exists>val'. lis3de_adc_raw_get (bytes_ctx [0x01, 0x02, 0x03, 0x04, 0x05, 0x06]) [0, 0, 0] zeroed
               \<lparr>dev = (), trace = []\<rparr>
             = (0, val', \<lparr>dev = (), trace = [Read_reg LIS3DE_OUT_ADC1_L 6 0]\<rparr>)
        \<and> (\<forall>i<3. sint (val' ! i)
               = signed_take_bit 15 (uint ([0x01, 0x02, 0x03, 0x04, 0x05, 0x06 :: uint8_t] ! (2 * i + 1)) * 256
                   + uint ([0x01, 0x02, 0x03, 0x04, 0x05, 0x06 :: uint8_t] ! (2 * i)))))"
proof -
  let ?ctx = "bytes_ctx [0x01, 0x02, 0x03, 0x04, 0x05, 0x06]"
  let ?w = "\<lparr>dev = (), trace = []\<rparr>"
  let ?w' = "\<lparr>dev = (), trace = [Read_reg LIS3DE_OUT_ADC1_L 6 0]\<rparr>"
  have six: "[0..<6] = [0, 1, 2, 3, 4, 5]" by (simp add: upt_rec)
  have r: "lis3de_read_reg ?ctx LIS3DE_OUT_ADC1_L (map zeroed [0..<6]) 6 ?w
             = (0, [0x01, 0x02, 0x03, 0x04, 0x05, 0x06], ?w')"
    by (simp add: lis3de_read_reg_def bytes_ctx_def store_buf_def six)
  have l: "length [0, 0, 0 :: int16_t] = 3" by simp
  have v: "lis3de_adc_raw_get ?ctx [0, 0, 0] zeroed ?w = (0, [0x0201, 0x0403, 0x0605], ?w')"
    using r by (simp add: lis3de_adc_raw_get_def Let_def)
  show ?thesis
    using adc_raw_get_assembly [OF r l] r l v by simp
qed

text \<open>
  Claim C6, amended. \<open>lis3de_acceleration_raw_get\<close> reads \<open>OUT_X\<close>, \<open>OUT_Y\<close>,
  \<open>OUT_Z\<close> in this order, each one only after the one before has succeeded, and returns
  the status of the first read that fails (of the last read when none does). An axis read
  successfully is stored, sign-extended; the entries of the axes after the failing one
  keep their values; the entry of the failing axis itself is assigned what the one-byte
  buffer holds after the failed read.
\<close>

theorem acceleration_raw_get_partial_fill:
  assumes "length buff = 3"
    and "read_struct ctx LIS3DE_OUT_X dummy w = (rx, dx, w1)"
    and "read_struct ctx LIS3DE_OUT_Y dx w1 = (ry, dy, w2)"
    and "read_struct ctx LIS3DE_OUT_Z dy w2 = (rz, dz, w3)"
  shows "lis3de_acceleration_raw_get ctx buff dummy w =
           (if rx \<noteq> 0 then (rx, [scast dx, buff ! 1, buff ! 2], w1)
            else if ry \<noteq> 0 then (ry, [scast dx, scast dy, buff ! 2], w2)
            else (rz, [scast dx, scast dy, scast dz], w3))
         \<and> issued w w1 = [Read_reg LIS3DE_OUT_X 1 rx]
         \<and> issued w w2 = [Read_reg LIS3DE_OUT_X 1 rx, Read_reg LIS3DE_OUT_Y 1 ry]
         \<and> issued w w3 = [Read_reg LIS3DE_OUT_X 1 rx, Read_reg LIS3DE_OUT_Y 1 ry,
                             Read_reg LIS3DE_OUT_Z 1 rz]"
proof -
  obtain b0 b1 b2 where buff: "buff = [b0, b1, b2]"
    using assms(1) by (auto simp: length_Suc_conv numeral_3_eq_3)
  have "lis3de_acceleration_raw_get ctx buff dummy w =
           (if rx \<noteq> 0 then (rx, [scast dx, buff ! 1, buff ! 2], w1)
            else if ry \<noteq> 0 then (ry, [scast dx, scast dy, buff ! 2], w2)
            else (rz, [scast dx, scast dy, scast dz], w3))"
    using assms(2-4) by (simp add: lis3de_acceleration_raw_get_def buff Let_def)
  moreover have "issued w w1 = [Read_reg LIS3DE_OUT_X 1 rx]"
    and "issued w w2 = [Read_reg LIS3DE_OUT_X 1 rx, Read_reg LIS3DE_OUT_Y 1 ry]"
    and "issued w w3 = [Read_reg LIS3DE_OUT_X 1 rx, Read_reg LIS3DE_OUT_Y 1 ry,
                        Read_reg LIS3DE_OUT_Z 1 rz]"
    using read_struct_trace [OF assms(2)] read_struct_trace [OF assms(3)]
      read_struct_trace [OF assms(4)]
    by (simp_all add: issued_def)
  ultimately show ?thesis by simp
qed

text \<open>
  Every register holds 5, reads of \<open>OUT_Y\<close> fail and leave the buffer as it was, the
  caller's array holds 7, 7, 7.
\<close>

theorem acceleration_raw_get_partial_fill_witness:
  "length [7, 7, 7 :: int16_t] = 3
   \<and> read_struct (mock_ctx y_fails no_error) LIS3DE_OUT_X 0 all_five
       = (0, 5, \<lparr>dev = dev all_five, trace = [Read_reg LIS3DE_OUT_X 1 0]\<rparr>)
   \<and> read_struct (mock_ctx y_fails no_error) LIS3DE_OUT_Y 5
         \<lparr>dev = dev all_five, trace = [Read_reg LIS3DE_OUT_X 1 0]\<rparr>
       = (1, 5, \<lparr>dev = dev all_five, trace = [Read_reg LIS3DE_OUT_X 1 0, Read_reg LIS3DE_OUT_Y 1 1]\<rparr>)
   \<and> lis3de_acceleration_raw_get (mock_ctx y_fails no_error) [7, 7, 7] 0 all_five
       = (1, [5, 5, 7],
          \<lparr>dev = dev all_five, trace = [Read_reg LIS3DE_OUT_X 1 0, Read_reg LIS3DE_OUT_Y 1 1]\<rparr>)"
proof -
  let ?ctx = "mock_ctx y_fails no_error"
  let ?w1 = "\<lparr>dev = dev all_five, trace = [Read_reg LIS3DE_OUT_X 1 0]\<rparr>"
  let ?w2 = "\<lparr>dev = dev all_five, trace = [Read_reg LIS3DE_OUT_X 1 0, Read_reg LIS3DE_OUT_Y 1 1]\<rparr>"
  let ?w3 = "\<lparr>dev = dev all_five,
     trace = [Read_reg LIS3DE_OUT_X 1 0, Read_reg LIS3DE_OUT_Y 1 1, Read_reg LIS3DE_OUT_Z 1 0]\<rparr>"
  have l: "length [7, 7, 7 :: int16_t] = 3" by simp
  have x: "read_struct ?ctx LIS3DE_OUT_X 0 all_five = (0, 5, ?w1)"
    by (simp add: mock_defs y_fails_def all_five_def)
  have y: "read_struct ?ctx LIS3DE_OUT_Y 5 ?w1 = (1, 5, ?w2)"
    by (simp add: mock_defs y_fails_def all_five_def)
  have z: "read_struct ?ctx LIS3DE_OUT_Z 5 ?w2 = (0, 5, ?w3)"
    by (simp add: mock_defs y_fails_def all_five_def)
  show ?thesis
    using acceleration_raw_get_partial_fill [OF l x y z] l x y by simp
qed

text \<open>
  As first stated, the claim has every axis that was not read successfully untouched.
  On the same input the read of \<open>OUT_Y\<close> fails with status 1, and the second entry of
  the array has changed from 7 to 5, the byte left in the buffer by the read of \<open>OUT_X\<close>.
\<close>

theorem acceleration_raw_get_untouched_counterexample:
  "lis3de_acceleration_raw_get (mock_ctx y_fails no_error) [7, 7, 7] 0 all_five
     = (1, [5, 5, 7],
        \<lparr>dev = dev all_five, trace = [Read_reg LIS3DE_OUT_X 1 0, Read_reg LIS3DE_OUT_Y 1 1]\<rparr>)
   \<and> [5, 5, 7 :: int16_t] ! 1 \<noteq> [7, 7, 7] ! 1"
  by (simp add: lis3de_acceleration_raw_get_def mock_defs y_fails_def all_five_def Let_def)

section \<open>The number of transport calls\<close>

lemmas write_defs =
  lis3de_filter_reference_set_def lis3de_int1_gen_conf_set_def lis3de_int2_gen_conf_set_def
  lis3de_pin_int1_config_set_def lis3de_pin_int2_config_set_def lis3de_tap_conf_set_def

lemmas reg_getter_defs =
  lis3de_temp_status_reg_get_def lis3de_temperature_raw_get_def
  lis3de_filter_reference_get_def lis3de_device_id_get_def lis3de_status_get_def
  lis3de_int1_gen_conf_get_def lis3de_int1_gen_source_get_def lis3de_int2_gen_conf_get_def
  lis3de_int2_gen_source_get_def lis3de_pin_int1_config_get_def
  lis3de_pin_int2_config_get_def lis3de_fifo_status_get_def lis3de_tap_conf_get_def
  lis3de_tap_source_get_def

lemmas field_getter_defs =
  lis3de_temp_data_ready_get_def lis3de_temp_data_ovr_get_def
  lis3de_high_pass_on_outputs_get_def lis3de_block_data_update_get_def
  lis3de_xl_data_ready_get_def lis3de_xl_data_ovr_get_def lis3de_boot_get_def
  lis3de_int1_gen_threshold_get_def lis3de_int1_gen_duration_get_def
  lis3de_int2_gen_threshold_get_def lis3de_int2_gen_duration_get_def
  lis3de_int2_pin_detect_4d_get_def lis3de_int1_pin_detect_4d_get_def lis3de_fifo_get_def
  lis3de_fifo_watermark_get_def lis3de_fifo_data_level_get_def
  lis3de_fifo_empty_flag_get_def lis3de_fifo_ovr_flag_get_def lis3de_fifo_fth_flag_get_def
  lis3de_tap_threshold_get_def lis3de_shock_dur_get_def lis3de_quiet_dur_get_def
  lis3de_double_tap_timeout_get_def lis3de_act_threshold_get_def lis3de_act_timeout_get_def

lemma rmw_kinds:
  "map kind_of (issued w (snd (case read_struct ctx reg x w of
        (ret, x, w) \<Rightarrow> if ret = 0 then write_struct ctx reg (g x) w else (ret, w)))) = [Read]
   \<or> map kind_of (issued w (snd (case read_struct ctx reg x w of
        (ret, x, w) \<Rightarrow> if ret = 0 then write_struct ctx reg (g x) w else (ret, w))))
       = [Read, Write]"
  by (auto simp: read_struct_def write_struct_def lis3de_read_reg_def lis3de_write_reg_def
      issued_def split: prod.splits)

lemma setter_kinds:
  "map kind_of (issued w (snd (run_setter ctx c u w))) \<in> set (allowed_kinds (Setter c))"
proof (cases c)
  case (Aux_adc_set val)
  then show ?thesis
    by (auto simp: lis3de_aux_adc_set_def lis3de_block_data_update_set_def read_struct_def
        write_struct_def lis3de_read_reg_def lis3de_write_reg_def issued_def Let_def
        split: prod.splits)
qed (simp_all add: setter_defs rmw_kinds)

lemma write_kinds:
  "map kind_of (issued w (snd (run_write ctx c w))) \<in> set (allowed_kinds (Direct_write c))"
  by (cases c) (auto simp: write_defs write_struct_def lis3de_write_reg_def issued_def
      split: prod.splits)

lemma field_getter_kinds:
  "map kind_of (issued w (snd (status_world (run_field_getter ctx c x w))))
     \<in> set (allowed_kinds (Field_getter c))"
  by (cases c) (auto simp: field_getter_defs status_world_def read_struct_def
      lis3de_read_reg_def issued_def split: prod.splits)

lemma enum_getter_kinds:
  "map kind_of (issued w (snd (status_world (run_enum_getter ctx c x w))))
     \<in> set (allowed_kinds (Enum_getter c))"
  by (cases c) (auto simp: enum_getter_defs lis3de_aux_adc_get_def lis3de_operating_mode_get_def
      status_world_def read_struct_def lis3de_read_reg_def issued_def Let_def split: prod.splits)

lemma reg_getter_kinds:
  "map kind_of (issued w (snd (run_reg_getter ctx c u w))) \<in> set (allowed_kinds (Reg_getter c))"
  by (cases c) (auto simp: reg_getter_defs lis3de_adc_raw_get_def lis3de_acceleration_raw_get_def
      status_world_def read_struct_def lis3de_read_reg_def issued_def Let_def split: prod.splits)

lemma allowed_kinds_bound: "ks \<in> set (allowed_kinds c) \<Longrightarrow> length ks \<le> call_bound c"
  by (induction c rule: allowed_kinds.induct) (auto split: if_splits)

text \<open>
  Claim C9, amended. For every accessor and every behaviour of the transport, one call
  issues: exactly one write, for a setter of a whole register; exactly one read, for a
  getter, except \<open>lis3de_acceleration_raw_get\<close>, which issues one to three reads; one
  read, followed by at most one write, for a read-modify-write setter, except
  \<open>lis3de_aux_adc_set\<close> with a mode other than \<open>LIS3DE_AUX_DISABLE\<close>, which issues a
  read, then at most a second read, a write and a second write: its own read and write
  around the read and the write of \<open>lis3de_block_data_update_set\<close>. So no accessor
  issues more than two calls but these two, with at most three and four.
\<close>

theorem accessor_calls_bounded:
  "map kind_of (issued w (snd (run_accessor ctx c u w))) \<in> set (allowed_kinds c)
   \<and> length (issued w (snd (run_accessor ctx c u w))) \<le> call_bound c"
proof -
  have k: "map kind_of (issued w (snd (run_accessor ctx c u w))) \<in> set (allowed_kinds c)"
  proof (cases c)
    case (Setter s)
    then show ?thesis using setter_kinds [of w ctx s u] by simp
  next
    case (Direct_write d)
    then show ?thesis using write_kinds [of w ctx d] by simp
  next
    case (Reg_getter g)
    then show ?thesis using reg_getter_kinds [of w ctx g u] by simp
  next
    case (Field_getter g)
    then show ?thesis using field_getter_kinds [of w ctx g "u 0"] by simp
  next
    case (Enum_getter g)
    then show ?thesis using enum_getter_kinds [of w ctx g "u 0"] by simp
  qed
  from allowed_kinds_bound [OF k] show ?thesis
    using k by simp
qed

text \<open>
  As first stated, the claim has at most two transport calls for every accessor. On the
  register-file transport, where nothing fails, routing the pads to the auxiliary ADC
  takes four.
\<close>

theorem two_calls_counterexample:
  "\<not> length (issued power_on
        (snd (run_accessor (mock_ctx no_error no_error) (Setter (Aux_adc_set LIS3DE_AUX_ON_PADS))
           zeroed power_on))) \<le> 2"
  by (simp add: lis3de_aux_adc_set_def lis3de_block_data_update_set_def mock_defs zeroed_def
      Let_def)

section \<open>Raw data to engineering units\<close>

declare bit_length.simps [simp del]

lemma bit_length_le: "n < 2 ^ k \<Longrightarrow> bit_length n \<le> k"
proof (induction n arbitrary: k rule: bit_length.induct)
  case (1 n)
  show ?case
  proof (cases "n \<le> 0")
    case True
    then show ?thesis by (subst bit_length.simps) simp
  next
    case False
    with "1.prems" obtain j where k: "k = Suc j"
      by (cases k) auto
    from "1.prems" k have "n div 2 < 2 ^ j" by auto
    with "1.IH" [OF False] have "bit_length (n div 2) \<le> j" .
    with False k show ?thesis by (subst bit_length.simps) simp
  qed
qed

lemma exponent_le:
  assumes "a < 2 ^ 23"
  shows "exponent a \<le> 22"
proof (cases "1 \<le> a")
  case True
  from assms have "\<lfloor>a\<rfloor> < 2 ^ 23"
    by (simp add: floor_less_iff)
  then have "bit_length \<lfloor>a\<rfloor> \<le> 23" by (rule bit_length_le)
  with True show ?thesis by (simp add: exponent_def)
next
  case False
  then show ?thesis by (simp add: exponent_def)
qed

text \<open>
  The rounding on a few values: one third, two ties above \<open>2^24\<close> (to the even
  significand, down and up), and a tie among the subnormal values.
\<close>

lemma binary32_round_examples:
  "binary32_round (1 / 3) = 11184811 / 2 ^ 25"
  "binary32_round (2 ^ 24 + 1) = 2 ^ 24"
  "binary32_round (2 ^ 24 + 3) = 2 ^ 24 + 4"
  "binary32_round (3 / 2 ^ 150) = 2 / 2 ^ 149"
  by code_simp+

lemma round_half_even_int: "round_half_even (of_int k) = k"
  by (simp add: round_half_even_def)

text \<open>A multiple of one half below \<open>2 ^ 23\<close> in magnitude is a binary32 value.\<close>

lemma binary32_exact:
  assumes "x = of_int m / 2" and "\<bar>x\<bar> < 2 ^ 23"
  shows "binary32_round x = x"
proof (cases "x = 0")
  case True
  then show ?thesis by (simp add: binary32_round_def)
next
  case False
  define e where "e = max (exponent \<bar>x\<bar> - 23) (- 149)"
  have "exponent \<bar>x\<bar> \<le> 22"
    using assms(2) by (rule exponent_le)
  then have "e < 0" unfolding e_def by simp
  then obtain j where j: "nat (- e) = Suc j"
    by (cases "nat (- e)") auto
  have p: "pow2 e = 1 / (2 * 2 ^ j)"
    using \<open>e < 0\<close> j by (simp add: pow2_def)
  have q: "x / pow2 e = of_int (m * 2 ^ j)"
    unfolding p assms(1) by simp
  have "binary32_round x = of_int (round_half_even (x / pow2 e)) * pow2 e"
    using False by (simp add: binary32_round_def Let_def e_def)
  also have "\<dots> = of_int (m * 2 ^ j) * pow2 e"
    unfolding q round_half_even_int ..
  also have "\<dots> = x"
    unfolding p assms(1) by simp
  finally show ?thesis .
qed

lemma half_int_exact:
  assumes "\<bar>m\<bar> < 16777216"
  shows "binary32_round (of_int m / 2) = of_int m / 2"
proof -
  from assms have "(of_int \<bar>m\<bar> :: rat) < of_int 16777216"
    by (simp only: of_int_less_iff)
  then have "\<bar>of_int m / 2 :: rat\<bar> < 2 ^ 23" by simp
  with refl show ?thesis by (rule binary32_exact)
qed

lemma sint16_bounds: "- 32768 \<le> sint (lsb :: int16_t) \<and> sint lsb < 32768"
  using sint_ge [of lsb] sint_lt [of lsb] by simp

lemma float_of_int16_exact: "float_of_int16 lsb = of_int (sint lsb)"
proof -
  have "\<bar>2 * sint lsb\<bar> < 16777216"
    using sint16_bounds [of lsb] by arith
  then have "binary32_round (of_int (2 * sint lsb) / 2) = of_int (2 * sint lsb) / 2"
    by (rule half_int_exact)
  then show ?thesis by (simp add: float_of_int16_def)
qed

text \<open>The constants of the source, rounded to binary32 as the suffix \<open>f\<close> asks.\<close>

lemma c15_6f: "binary32_round 15.6 = 16357786 / 2 ^ 20"
  by code_simp

lemma c31_2f: "binary32_round 31.2 = 16357786 / 2 ^ 19"
  by code_simp

lemma c15_6f_fixed: "binary32_round (16357786 / 2 ^ 20) = 16357786 / 2 ^ 20"
  by code_simp

lemma c31_2f_fixed: "binary32_round (16357786 / 2 ^ 19) = 16357786 / 2 ^ 19"
  by code_simp

lemma c62_5f: "binary32_round 62.5 = 62.5"
  by code_simp

lemma c187_5f: "binary32_round 187.5 = 187.5"
  by code_simp

lemma c1f: "binary32_round 1 = 1"
  by code_simp

lemma c25f: "binary32_round 25 = 25"
  by code_simp

lemma fs8_exact: "lis3de_from_fs8_to_mg lsb = of_int (sint lsb) * 62.5"
proof -
  have "\<bar>125 * sint lsb\<bar> < 16777216"
    using sint16_bounds [of lsb] by arith
  then have "binary32_round (of_int (125 * sint lsb) / 2) = of_int (125 * sint lsb) / 2"
    by (rule half_int_exact)
  moreover have "(of_int (sint lsb) :: rat) * 62.5 = of_int (125 * sint lsb) / 2"
    by simp
  ultimately have "binary32_round (of_int (sint lsb) * 62.5) = of_int (sint lsb) * 62.5"
    by (simp only:)
  then show ?thesis
    unfolding lis3de_from_fs8_to_mg_def fmul_def float_of_int16_exact c62_5f .
qed

lemma fs16_exact: "lis3de_from_fs16_to_mg lsb = of_int (sint lsb) * 187.5"
proof -
  have "\<bar>375 * sint lsb\<bar> < 16777216"
    using sint16_bounds [of lsb] by arith
  then have "binary32_round (of_int (375 * sint lsb) / 2) = of_int (375 * sint lsb) / 2"
    by (rule half_int_exact)
  moreover have "(of_int (sint lsb) :: rat) * 187.5 = of_int (375 * sint lsb) / 2"
    by simp
  ultimately have "binary32_round (of_int (sint lsb) * 187.5) = of_int (sint lsb) * 187.5"
    by (simp only:)
  then show ?thesis
    unfolding lis3de_from_fs16_to_mg_def fmul_def float_of_int16_exact c187_5f .
qed

lemma celsius_exact: "lis3de_from_lsb_to_celsius lsb = of_int (sint lsb) + 25"
proof -
  have "\<bar>2 * (sint lsb + 25)\<bar> < 16777216"
    using sint16_bounds [of lsb] by arith
  then have "binary32_round (of_int (2 * (sint lsb + 25)) / 2) = of_int (2 * (sint lsb + 25)) / 2"
    by (rule half_int_exact)
  moreover have "(of_int (sint lsb) :: rat) + 25 = of_int (2 * (sint lsb + 25)) / 2"
    by simp
  ultimately have s: "binary32_round (of_int (sint lsb) + 25) = of_int (sint lsb) + 25"
    by (simp only:)
  show ?thesis
    using s float_of_int16_exact [of lsb]
    by (simp add: lis3de_from_lsb_to_celsius_def fadd_def fmul_def float_of_int16_def c1f c25f)
qed

text \<open>
  Claim C8, amended. The conversion helpers are pure functions of \<open>lsb\<close>. For every
  \<open>int16_t lsb\<close>, \<open>lis3de_from_fs8_to_mg(lsb) = lsb * 62.5\<close>,
  \<open>lis3de_from_fs16_to_mg(lsb) = lsb * 187.5\<close> and
  \<open>lis3de_from_lsb_to_celsius(lsb) = lsb + 25.0\<close> hold exactly, while
  \<open>lis3de_from_fs2_to_mg(lsb)\<close> and \<open>lis3de_from_fs4_to_mg(lsb)\<close> are the binary32
  values nearest to \<open>lsb * 15.6f\<close> and \<open>lsb * 31.2f\<close>, where \<open>15.6f\<close> is
  \<open>16357786 / 2^20\<close> and \<open>31.2f\<close> is \<open>16357786 / 2^19\<close>, the binary32 values
  nearest to 15.6 and 31.2. At \<open>lsb = 1\<close> the functions return 62.5, 187.5, \<open>15.6f\<close>
  and \<open>31.2f\<close>; the temperature function returns 25.0 at \<open>lsb = 0\<close>.
\<close>

theorem unit_conversions:
  "lis3de_from_fs8_to_mg lsb = of_int (sint lsb) * 62.5
   \<and> lis3de_from_fs16_to_mg lsb = of_int (sint lsb) * 187.5
   \<and> lis3de_from_lsb_to_celsius lsb = of_int (sint lsb) + 25.0
   \<and> lis3de_from_fs2_to_mg lsb = binary32_round (of_int (sint lsb) * (16357786 / 2 ^ 20))
   \<and> lis3de_from_fs4_to_mg lsb = binary32_round (of_int (sint lsb) * (16357786 / 2 ^ 19))
   \<and> lis3de_from_fs8_to_mg 1 = 62.5
   \<and> lis3de_from_fs16_to_mg 1 = 187.5
   \<and> lis3de_from_lsb_to_celsius 0 = 25.0
   \<and> lis3de_from_fs2_to_mg 1 = 16357786 / 2 ^ 20
   \<and> lis3de_from_fs4_to_mg 1 = 16357786 / 2 ^ 19"
proof -
  have fs2: "lis3de_from_fs2_to_mg x = binary32_round (of_int (sint x) * (16357786 / 2 ^ 20))"
    for x
    unfolding lis3de_from_fs2_to_mg_def fmul_def float_of_int16_exact c15_6f ..
  have fs4: "lis3de_from_fs4_to_mg x = binary32_round (of_int (sint x) * (16357786 / 2 ^ 19))"
    for x
    unfolding lis3de_from_fs4_to_mg_def fmul_def float_of_int16_exact c31_2f ..
  have one2: "lis3de_from_fs2_to_mg 1 = 16357786 / 2 ^ 20"
    using c15_6f_fixed unfolding fs2 by simp
  have one4: "lis3de_from_fs4_to_mg 1 = 16357786 / 2 ^ 19"
    using c31_2f_fixed unfolding fs4 by simp
  have one8: "lis3de_from_fs8_to_mg 1 = 62.5"
    unfolding fs8_exact by simp
  have one16: "lis3de_from_fs16_to_mg 1 = 187.5"
    unfolding fs16_exact by simp
  have zero: "lis3de_from_lsb_to_celsius 0 = 25.0"
    unfolding celsius_exact by simp
  have c: "lis3de_from_lsb_to_celsius lsb = of_int (sint lsb) + 25.0"
    unfolding celsius_exact by simp
  show ?thesis
    using fs8_exact [of lsb] fs16_exact [of lsb] c fs2 [of lsb] fs4 [of lsb]
      one2 one4 one8 one16 zero
    by blast
qed

text \<open>
  As first stated, the claim has \<open>lis3de_from_fs2_to_mg(lsb) = lsb * 15.6\<close> and
  \<open>lis3de_from_fs4_to_mg(lsb) = lsb * 31.2\<close>. Neither 15.6 nor 31.2 is a binary32
  value: at \<open>lsb = 1\<close> the first function returns \<open>16357786 / 2^20\<close>, which is
  15.600000381\<dots>, and not 15.6.
\<close>

theorem fs2_scale_counterexample:
  "lis3de_from_fs2_to_mg 1 \<noteq> 1 * 15.6"
proof -
  have "lis3de_from_fs2_to_mg 1 = 16357786 / 2 ^ 20"
    using c15_6f_fixed
    unfolding lis3de_from_fs2_to_mg_def fmul_def float_of_int16_exact c15_6f by simp
  then show ?thesis by simp
qed
end
